theory Spec2Isabelle
  imports Main "HOL-Library.Sublist" "HOL-Library.Multiset"
begin

text \<open>
  A model of the dispatch and aggregation layer of the Jira tool server: the dispatcher
  \<open>handleCallTool\<close> with its registry, the credential and schema checks, and the three
  tools that aggregate over several upstream requests, \<open>listProjectMembers\<close>,
  \<open>checkUserIssues\<close> and \<open>listSprints\<close>. An asynchronous function is a function of the
  world (the requests issued so far and the console) that throws or returns; the upstream
  service and the functions of the runtime that depend on the Unicode tables, the locale
  and the date parser are parameters.
\<close>

section \<open>JavaScript values used by the tools\<close>

text \<open>
  A string is a \<open>string\<close>, the bytes of its UTF-8 encoding (an ASCII character is one byte,
  and the emoji of the reports are written out byte by byte); a value that may be
  \<open>undefined\<close> is a \<open>string option\<close>.
\<close>

fun truthy :: "string option \<Rightarrow> bool" where
  "truthy None = False"
| "truthy (Some s) = (s \<noteq> [])"

text \<open>\<^verbatim>\<open>a || b\<close> on possibly undefined strings.\<close>

definition js_or :: "string option \<Rightarrow> string option \<Rightarrow> string option" where
  "js_or a b = (if truthy a then a else b)"

text \<open>A value inside a template literal: \<^verbatim>\<open>`${x}`\<close> prints \<open>undefined\<close> for an absent one.\<close>

fun tpl :: "string option \<Rightarrow> string" where
  "tpl None = ''undefined''"
| "tpl (Some s) = s"

text \<open>
  What the runtime supplies: \<open>toLowerCase\<close> and \<open>toUpperCase\<close> of a string, by the
  Unicode case mappings; and for \<open>new Date(s)\<close> its time in milliseconds, which is \<open>NaN\<close>
  (here \<open>None\<close>) when \<open>s\<close> is not a date, and its two locale renderings.
\<close>

record runtime =
  toLowerCase :: "string \<Rightarrow> string"
  toUpperCase :: "string \<Rightarrow> string"
  getTime :: "string \<Rightarrow> int option"
  toLocaleDateString :: "string \<Rightarrow> string"
  toLocaleString :: "string \<Rightarrow> string"

text \<open>The bytes that continue a character, and \<^verbatim>\<open>s.length\<close>, the number of UTF-16 code
  units: one per character, two for a character of four bytes.\<close>

definition continuation :: "char \<Rightarrow> bool" where
  "continuation c = (0x80 \<le> (of_char c :: nat) \<and> (of_char c :: nat) < 0xC0)"

definition js_length :: "string \<Rightarrow> nat" where
  "js_length s = length (filter (\<lambda>c. \<not> continuation c) s) + length (filter (\<lambda>c. 0xF0 \<le> (of_char c :: nat)) s)"

text \<open>
  \<^verbatim>\<open>s.charAt(0).toUpperCase() + s.slice(1)\<close>. The first code unit is the first character;
  when that character has four bytes it is half of a surrogate pair, which \<open>toUpperCase\<close>
  leaves alone, and the string is unchanged.
\<close>

fun capitalize :: "runtime \<Rightarrow> string \<Rightarrow> string" where
  "capitalize rt [] = []"
| "capitalize rt (c # cs) =
     (if 0xF0 \<le> (of_char c :: nat) then c # cs
      else toUpperCase rt (c # takeWhile continuation cs) @ dropWhile continuation cs)"

text \<open>The letters of ASCII in lower and in upper case.\<close>

definition ascii_lower :: "char \<Rightarrow> char" where
  "ascii_lower c =
     (case map_of (zip ''ABCDEFGHIJKLMNOPQRSTUVWXYZ'' ''abcdefghijklmnopqrstuvwxyz'') c of
        Some d \<Rightarrow> d
      | None \<Rightarrow> c)"

definition ascii_upper :: "char \<Rightarrow> char" where
  "ascii_upper c =
     (case map_of (zip ''abcdefghijklmnopqrstuvwxyz'' ''ABCDEFGHIJKLMNOPQRSTUVWXYZ'') c of
        Some d \<Rightarrow> d
      | None \<Rightarrow> c)"

text \<open>\<^verbatim>\<open>s.includes(sub)\<close>.\<close>

fun str_includes :: "string \<Rightarrow> string \<Rightarrow> bool" where
  "str_includes [] sub = (sub = [])"
| "str_includes (c # cs) sub = (prefix sub (c # cs) \<or> str_includes cs sub)"

text \<open>\<^verbatim>\<open>xs.join(', ')\<close>.\<close>

fun join :: "string \<Rightarrow> string list \<Rightarrow> string" where
  "join sep [] = []"
| "join sep [x] = x"
| "join sep (x # y # ys) = x @ sep @ join sep (y # ys)"

text \<open>\<^verbatim>\<open>s.split('/').pop()\<close>: what follows the last slash.\<close>

definition split_pop :: "string \<Rightarrow> string" where
  "split_pop s = rev (takeWhile (\<lambda>c. c \<noteq> CHR ''/'') (rev s))"

text \<open>A JSON value of which the code only asks whether it is a string.\<close>

datatype jval = JString string | JNumber int | JNull

section \<open>Upstream data\<close>

text \<open>The actor of a project role, the role-detail resource, and the record the
  aggregation keeps per display name (the value type of \<open>allMembers\<close>).\<close>

record RoleActor =
  displayName :: "string option"
  type :: string
  emailAddress :: "string option"

record ProjectRole =
  actors :: "RoleActor list option"

record MemberRecord =
  displayName :: string
  type :: string
  email :: string
  roles :: "string list"

text \<open>A JavaScript \<open>Map\<close> with string keys: the entries in insertion order, one per key.\<close>

type_synonym 'v js_map = "(string \<times> 'v) list"

definition Map_has :: "'v js_map \<Rightarrow> string \<Rightarrow> bool" where
  "Map_has m k = (map_of m k \<noteq> None)"

text \<open>\<open>set\<close> on a key that is absent appends the entry; on a present key it replaces the
  value in place.\<close>

fun Map_set :: "'v js_map \<Rightarrow> string \<Rightarrow> 'v \<Rightarrow> 'v js_map" where
  "Map_set [] k v = [(k, v)]"
| "Map_set ((k', v') # m) k v = (if k' = k then (k, v) # m else (k', v') # Map_set m k v)"

text \<open>\<^verbatim>\<open>const member = m.get(k); if (member) member.roles.push(r)\<close>: the record
  stored under the key is changed in place.\<close>

fun Map_push_role :: "MemberRecord js_map \<Rightarrow> string \<Rightarrow> string \<Rightarrow> MemberRecord js_map" where
  "Map_push_role [] k r = []"
| "Map_push_role ((k', v) # m) k r =
     (if k' = k then (k', v\<lparr>roles := roles v @ [r]\<rparr>) # m else (k', v) # Map_push_role m k r)"

section \<open>The merge of the role details (listProjectMembers, checkUserIssues)\<close>

text \<open>The body of \<^verbatim>\<open>data.actors.forEach((actor) => { if (actor.displayName) ... })\<close>.\<close>

definition addActor :: "string \<Rightarrow> MemberRecord js_map \<Rightarrow> RoleActor \<Rightarrow> MemberRecord js_map" where
  "addActor roleName allMembers actor =
     (case RoleActor.displayName actor of
        None \<Rightarrow> allMembers
      | Some name \<Rightarrow>
          if name = [] then allMembers
          else if \<not> Map_has allMembers name then
            Map_set allMembers name
              \<lparr>displayName = name, type = RoleActor.type actor,
               email = (case js_or (emailAddress actor) (Some ''N/A'') of Some e \<Rightarrow> e | None \<Rightarrow> ''N/A''),
               roles = [roleName]\<rparr>
          else Map_push_role allMembers name roleName)"

text \<open>The body of \<^verbatim>\<open>for (const { roleName, data } of roleDetails)\<close>.\<close>

definition mergeRole :: "MemberRecord js_map \<Rightarrow> string \<times> ProjectRole \<Rightarrow> MemberRecord js_map" where
  "mergeRole allMembers rd =
     (case actors (snd rd) of
        None \<Rightarrow> allMembers
      | Some as \<Rightarrow> if length as > 0 then foldl (addActor (fst rd)) allMembers as else allMembers)"

definition mergeRoleDetails :: "(string \<times> ProjectRole) list \<Rightarrow> MemberRecord js_map" where
  "mergeRoleDetails roleDetails = foldl mergeRole [] roleDetails"

subsection \<open>What the merge computes\<close>

text \<open>The (role name, display name) pairs in the order the two loops visit them: one per
  actor with a non-empty display name.\<close>

definition actorNames :: "ProjectRole \<Rightarrow> string list" where
  "actorNames d =
     (case actors d of
        None \<Rightarrow> []
      | Some as \<Rightarrow> concat (map (\<lambda>a. case RoleActor.displayName a of
                                        None \<Rightarrow> []
                                      | Some n \<Rightarrow> if n = [] then [] else [n]) as))"

definition observations :: "(string \<times> ProjectRole) list \<Rightarrow> (string \<times> string) list" where
  "observations roleDetails = concat (map (\<lambda>rd. map (Pair (fst rd)) (actorNames (snd rd))) roleDetails)"

text \<open>The role names under which a display name was seen, one per occurrence, in order.\<close>

definition rolesSeen :: "string \<Rightarrow> (string \<times> string) list \<Rightarrow> string list" where
  "rolesSeen name obs = map fst (filter (\<lambda>p. snd p = name) obs)"

definition rolesOf :: "MemberRecord js_map \<Rightarrow> string \<Rightarrow> string list" where
  "rolesOf m k = (case map_of m k of None \<Rightarrow> [] | Some v \<Rightarrow> roles v)"

text \<open>The content the claims speak of: each display name with the set of its roles.\<close>

definition memberPairs :: "MemberRecord js_map \<Rightarrow> (string \<times> string set) set" where
  "memberPairs m = (\<lambda>p. (displayName (snd p), set (roles (snd p)))) ` set m"


section \<open>Errors, requests and effects\<close>

text \<open>What the code throws: \<open>new Error(msg)\<close>, the validator's \<open>ValidationError\<close>, the
  runtime's \<open>TypeError\<close>, and the HTTP client's error, which carries \<open>error.response\<close>
  (the status and the body as \<open>JSON.stringify\<close> prints it) when the server answered.\<close>

datatype exn =
    Error string
  | ValidationError string
  | TypeError string
  | AxiosError string "(string \<times> string) option"

fun message :: "exn \<Rightarrow> string" where
  "message (Error m) = m"
| "message (ValidationError m) = m"
| "message (TypeError m) = m"
| "message (AxiosError m r) = m"

fun response :: "exn \<Rightarrow> (string \<times> string) option" where
  "response (AxiosError m r) = r"
| "response e = None"

text \<open>A GET request: the URL, the query parameters, and the login name and token from which
  \<open>createAuthHeader\<close> builds the Basic authorization header (its base64 text is not modelled).\<close>

record request =
  url :: string
  params :: "(string \<times> jval) list"
  auth :: "string \<times> string"

text \<open>What a tool call leaves behind: the upstream requests it issued and the lines it wrote
  with \<open>console.warn\<close>.\<close>

record world =
  calls :: "request list"
  warnings :: "string list"

text \<open>An async function: it runs on the world and either throws (rejects) or returns.\<close>

type_synonym 'a io = "world \<Rightarrow> (exn + 'a) \<times> world"

definition io_return :: "'a \<Rightarrow> 'a io" where
  "io_return x = (\<lambda>w. (Inr x, w))"

definition io_throw :: "exn \<Rightarrow> 'a io" where
  "io_throw e = (\<lambda>w. (Inl e, w))"

definition io_bind :: "'a io \<Rightarrow> ('a \<Rightarrow> 'b io) \<Rightarrow> 'b io" where
  "io_bind m f = (\<lambda>w. case m w of (Inl e, w') \<Rightarrow> (Inl e, w') | (Inr x, w') \<Rightarrow> f x w')"

text \<open>\<^verbatim>\<open>try { m } catch (error) { h(error) }\<close>.\<close>

definition try_catch :: "'a io \<Rightarrow> (exn \<Rightarrow> 'a io) \<Rightarrow> 'a io" where
  "try_catch m h = (\<lambda>w. case m w of (Inl e, w') \<Rightarrow> h e w' | (Inr x, w') \<Rightarrow> (Inr x, w'))"

definition console_warn :: "string \<Rightarrow> unit io" where
  "console_warn s = (\<lambda>w. (Inr (), w\<lparr>warnings := warnings w @ [s]\<rparr>))"

text \<open>A promise is the outcome it settles with. \<open>axios.get\<close> issues the request at once
  (the call is logged) and hands back the promise; \<open>await\<close> throws a rejection.\<close>

definition axios_issue :: "(request \<Rightarrow> exn + 'a) \<Rightarrow> request \<Rightarrow> world \<Rightarrow> (exn + 'a) \<times> world" where
  "axios_issue endpoint req w = (endpoint req, w\<lparr>calls := calls w @ [req]\<rparr>)"

definition await :: "exn + 'a \<Rightarrow> 'a io" where
  "await p = (\<lambda>w. (p, w))"

definition axios_get :: "(request \<Rightarrow> exn + 'a) \<Rightarrow> request \<Rightarrow> 'a io" where
  "axios_get endpoint req = (\<lambda>w. case axios_issue endpoint req w of (p, w') \<Rightarrow> await p w')"

text \<open>\<open>Promise.all\<close>: fulfilled with the values in the order of the promises, whatever the
  order in which they settle; rejected with the first rejection to arrive. \<open>arrival\<close> lists
  the indices of the promises in the order of their settling.\<close>

fun first_rejection :: "(exn + 'a) list \<Rightarrow> nat list \<Rightarrow> exn option" where
  "first_rejection ps [] = None"
| "first_rejection ps (i # is) =
     (if i < length ps
      then (case ps ! i of Inl e \<Rightarrow> Some e | Inr x \<Rightarrow> first_rejection ps is)
      else first_rejection ps is)"

fun all_values :: "(exn + 'a) list \<Rightarrow> exn + 'a list" where
  "all_values [] = Inr []"
| "all_values (Inl e # ps) = Inl e"
| "all_values (Inr x # ps) = (case all_values ps of Inl e \<Rightarrow> Inl e | Inr xs \<Rightarrow> Inr (x # xs))"

definition Promise_all :: "nat list \<Rightarrow> (exn + 'a) list \<Rightarrow> 'a list io" where
  "Promise_all arrival ps =
     (case first_rejection ps arrival of Some e \<Rightarrow> io_throw e | None \<Rightarrow> await (all_values ps))"

section \<open>utils/auth\<close>

definition validateCredentials :: "string option \<Rightarrow> string option \<Rightarrow> string option \<Rightarrow> exn + unit" where
  "validateCredentials jiraHost loginName loginToken =
     (if \<not> truthy jiraHost \<or> \<not> truthy loginName \<or> \<not> truthy loginToken
      then Inl (Error ''Missing required Jira credentials. Please provide them in the request or set them in the .env file.'')
      else Inr ())"

text \<open>The test \<^verbatim>\<open>/^https?:\/\//i\<close>: under the flag \<open>i\<close> a letter of the pattern matches
  that letter in either case, and nothing else.\<close>

definition normalizeJiraHost :: "string \<Rightarrow> string" where
  "normalizeJiraHost jiraHost =
     (if prefix ''http://'' (map ascii_lower jiraHost) \<or> prefix ''https://'' (map ascii_lower jiraHost)
      then jiraHost
      else ''https://'' @ jiraHost)"

section \<open>The upstream gateway, the environment and the result envelope\<close>

record Issue =
  key :: string
  summary :: "string option"
  status :: "string option"
  issuetype :: "string option"
  assignee :: "string option"
  created :: string

record Board =
  id :: string

record Sprint =
  id :: string
  name :: string
  state :: string
  startDate :: "string option"
  endDate :: "string option"
  goal :: "string option"

text \<open>A sprint with the board it was fetched for: \<^verbatim>\<open>{...sprint, boardId: bId}\<close>.\<close>

record SprintRecord =
  sprint :: Sprint
  boardId :: string

text \<open>One function per REST path the tools read; each gives the response body
  (\<open>response.data\<close>, its optional members as options) or the error of the request.\<close>

record upstream =
  projectRoles :: "request \<Rightarrow> exn + (string \<times> jval) list"
  roleDetail :: "request \<Rightarrow> exn + ProjectRole"
  search :: "request \<Rightarrow> exn + Issue list option"
  boards :: "request \<Rightarrow> exn + Board list option"
  boardSprints :: "request \<Rightarrow> exn + Sprint list option"
  sprintIssues :: "request \<Rightarrow> exn + Issue list option"

text \<open>\<open>process.env\<close>.\<close>

record env =
  JIRA_HOST :: "string option"
  JIRA_LOGIN_NAME :: "string option"
  JIRA_LOGIN_TOKEN :: "string option"

record ContentItem =
  type :: string
  "text" :: string

record ToolResult =
  content :: "ContentItem list"
  isError :: bool

text \<open>\<^verbatim>\<open>{ content: [{ type: "text", text: t }], isError: b }\<close>.\<close>

definition textResult :: "string \<Rightarrow> bool \<Rightarrow> ToolResult" where
  "textResult t b = \<lparr>content = [\<lparr>ContentItem.type = ''text'', text = t\<rparr>], isError = b\<rparr>"

text \<open>The arguments of a tool call; the fields of the tools not modelled here live in the
  extension of the record.\<close>

record tool_args =
  jiraHost :: "string option"
  loginName :: "string option"
  loginToken :: "string option"
  projectKey :: "string option"
  userName :: "string option"
  boardId :: "string option"
  state :: "string option"

section \<open>validators\<close>

text \<open>
  The schemas of \<open>validators/index\<close>, read with the meaning of the validation library for
  string fields: \<open>default\<close> replaces an absent value before the tests run, \<open>required\<close>
  rejects an absent or empty string, \<open>matches\<close>, \<open>min\<close> and \<open>oneOf\<close> skip an absent
  value. An object schema validates its fields from the last declared to the first (the
  fields of \<open>shape\<close> come after those of the schema it extends), and the first failure
  gives the \<open>ValidationError\<close>. Fields the schema does not name pass through.
\<close>

text \<open>The white space that \<open>trim\<close> removes: tab, line feed, vertical tab, form feed, carriage
  return, space, and U+00A0, U+1680, U+2000 to U+200A, U+2028, U+2029, U+202F, U+205F,
  U+3000 and U+FEFF.\<close>

definition white_space :: "string list" where
  "white_space =
     [[CHR 0x09], [CHR 0x0A], [CHR 0x0B], [CHR 0x0C], [CHR 0x0D], [CHR 0x20],
      [CHR 0xC2, CHR 0xA0], [CHR 0xE1, CHR 0x9A, CHR 0x80],
      [CHR 0xE2, CHR 0x80, CHR 0x80], [CHR 0xE2, CHR 0x80, CHR 0x81], [CHR 0xE2, CHR 0x80, CHR 0x82],
      [CHR 0xE2, CHR 0x80, CHR 0x83], [CHR 0xE2, CHR 0x80, CHR 0x84], [CHR 0xE2, CHR 0x80, CHR 0x85],
      [CHR 0xE2, CHR 0x80, CHR 0x86], [CHR 0xE2, CHR 0x80, CHR 0x87], [CHR 0xE2, CHR 0x80, CHR 0x88],
      [CHR 0xE2, CHR 0x80, CHR 0x89], [CHR 0xE2, CHR 0x80, CHR 0x8A],
      [CHR 0xE2, CHR 0x80, CHR 0xA8], [CHR 0xE2, CHR 0x80, CHR 0xA9], [CHR 0xE2, CHR 0x80, CHR 0xAF],
      [CHR 0xE2, CHR 0x81, CHR 0x9F], [CHR 0xE3, CHR 0x80, CHR 0x80], [CHR 0xEF, CHR 0xBB, CHR 0xBF]]"

text \<open>\<^verbatim>\<open>value.trim().length > 0\<close> fails on a string of white space only.\<close>

fun is_blank :: "string \<Rightarrow> bool" where
  "is_blank [] = True"
| "is_blank [a] = ([a] \<in> set white_space)"
| "is_blank [a, b] = (if [a] \<in> set white_space then is_blank [b] else [a, b] \<in> set white_space)"
| "is_blank (a # b # c # s) =
     (if [a] \<in> set white_space then is_blank (b # c # s)
      else if [a, b] \<in> set white_space then is_blank (c # s)
      else [a, b, c] \<in> set white_space \<and> is_blank s)"

text \<open>\<^verbatim>\<open>yup.string().default(process.env.X || "").test(..., msg, (value) => !!value && value.trim().length > 0)\<close>.\<close>

definition credentialField :: "string option \<Rightarrow> string option \<Rightarrow> string \<Rightarrow> exn + string" where
  "credentialField given dflt msg =
     (let v = (case given of None \<Rightarrow> tpl (js_or dflt (Some [])) | Some s \<Rightarrow> s)
      in if v \<noteq> [] \<and> \<not> is_blank v then Inr v else Inl (ValidationError msg))"

text \<open>The fields \<open>jiraHost\<close>, \<open>loginName\<close>, \<open>loginToken\<close>, validated in the reverse order.\<close>

definition JiraApiRequestSchema :: "env \<Rightarrow> 'm tool_args_scheme \<Rightarrow> exn + 'm tool_args_scheme" where
  "JiraApiRequestSchema env args =
     (case credentialField (loginToken args) (JIRA_LOGIN_TOKEN env)
             ''Login token is required for Jira 8.1.0 authentication'' of
        Inl e \<Rightarrow> Inl e
      | Inr t \<Rightarrow>
     (case credentialField (loginName args) (JIRA_LOGIN_NAME env)
             ''Login name is required for Jira 8.1.0 authentication'' of
        Inl e \<Rightarrow> Inl e
      | Inr n \<Rightarrow>
     (case credentialField (jiraHost args) (JIRA_HOST env)
             ''Jira host is required and must be a valid domain (e.g., \"company.atlassian.net\")'' of
        Inl e \<Rightarrow> Inl e
      | Inr h \<Rightarrow> Inr (args\<lparr>jiraHost := Some h, loginName := Some n, loginToken := Some t\<rparr>))))"

text \<open>The test \<^verbatim>\<open>/^[A-Z][A-Z0-9_]+$/\<close>.\<close>

definition projectKey_format :: "string \<Rightarrow> bool" where
  "projectKey_format s =
     (case s of
        [] \<Rightarrow> False
      | c # cs \<Rightarrow> c \<in> set ''ABCDEFGHIJKLMNOPQRSTUVWXYZ'' \<and> cs \<noteq> [] \<and>
                 list_all (\<lambda>d. d \<in> set ''ABCDEFGHIJKLMNOPQRSTUVWXYZ0123456789_'') cs)"

definition invalidProjectKey :: exn where
  "invalidProjectKey = ValidationError
     ''Invalid project key format. Only uppercase letters, numbers, and underscores are allowed''"

text \<open>\<^verbatim>\<open>yup.string().required("Project key is required").matches(...)\<close>.\<close>

definition requiredProjectKey :: "string option \<Rightarrow> exn + unit" where
  "requiredProjectKey given =
     (case given of
        None \<Rightarrow> Inl (ValidationError ''Project key is required'')
      | Some s \<Rightarrow>
          if s = [] then Inl (ValidationError ''Project key is required'')
          else if \<not> projectKey_format s then Inl invalidProjectKey
          else Inr ())"

text \<open>The base fields and then \<open>projectKey\<close>, validated in the reverse order.\<close>

definition JiraProjectMembersRequestSchema :: "env \<Rightarrow> 'm tool_args_scheme \<Rightarrow> exn + 'm tool_args_scheme" where
  "JiraProjectMembersRequestSchema env args =
     (case requiredProjectKey (projectKey args) of
        Inl e \<Rightarrow> Inl e
      | Inr u \<Rightarrow> JiraApiRequestSchema env args)"

text \<open>\<^verbatim>\<open>yup.string().required("Username is required").min(2, ...)\<close>.\<close>

definition requiredUserName :: "string option \<Rightarrow> exn + unit" where
  "requiredUserName given =
     (case given of
        None \<Rightarrow> Inl (ValidationError ''Username is required'')
      | Some s \<Rightarrow>
          if s = [] then Inl (ValidationError ''Username is required'')
          else if js_length s < 2 then Inl (ValidationError ''Username must be at least 2 characters long'')
          else Inr ())"

text \<open>The base fields, \<open>projectKey\<close> and then \<open>userName\<close>, validated in the reverse order.\<close>

definition JiraCheckUserIssuesRequestSchema :: "env \<Rightarrow> 'm tool_args_scheme \<Rightarrow> exn + 'm tool_args_scheme" where
  "JiraCheckUserIssuesRequestSchema env args =
     (case requiredUserName (userName args) of
        Inl e \<Rightarrow> Inl e
      | Inr u' \<Rightarrow>
     (case requiredProjectKey (projectKey args) of
        Inl e \<Rightarrow> Inl e
      | Inr u \<Rightarrow> JiraApiRequestSchema env args))"

text \<open>\<^verbatim>\<open>(value) => !value || /^\d+$/.test(value)\<close>.\<close>

definition validBoardId :: "string option \<Rightarrow> bool" where
  "validBoardId given = (\<not> truthy given \<or> list_all (\<lambda>d. d \<in> set ''0123456789'') (tpl given))"

text \<open>The base fields, \<open>boardId\<close>, \<open>projectKey\<close> and then \<open>state\<close>, validated in the reverse
  order; an absent \<open>state\<close> is replaced by its default.\<close>

definition JiraSprintRequestSchema :: "env \<Rightarrow> 'm tool_args_scheme \<Rightarrow> exn + 'm tool_args_scheme" where
  "JiraSprintRequestSchema env args =
     (let st = (case state args of None \<Rightarrow> ''active'' | Some s \<Rightarrow> s) in
      if st \<notin> set [''active'', ''future'', ''closed'', ''all'']
      then Inl (ValidationError ''Sprint state must be one of: active, future, closed, all'')
      else if (case projectKey args of None \<Rightarrow> False | Some s \<Rightarrow> \<not> projectKey_format s)
      then Inl invalidProjectKey
      else if \<not> validBoardId (boardId args) then Inl (ValidationError ''Board ID must be numeric'')
      else (case JiraApiRequestSchema env args of
              Inl e \<Rightarrow> Inl e
            | Inr args' \<Rightarrow> Inr (args'\<lparr>state := Some st\<rparr>)))"

section \<open>handlers/handlerCallTool\<close>

record ('raw, 'm) ToolConfig =
  schema :: "'raw \<Rightarrow> exn + 'm tool_args_scheme"
  handler :: "'m tool_args_scheme \<Rightarrow> ToolResult io"

text \<open>
  \<open>toolConfigs\<close> is an object literal, and \<^verbatim>\<open>toolConfigs[name]\<close> reads a property of it:
  an own property (a registered tool), else a property inherited from \<open>Object.prototype\<close>
  (a function or, for \<open>__proto__\<close>, the prototype object: truthy, and without a member
  \<open>schema\<close>), else \<open>undefined\<close>.
\<close>

datatype 'c property = Own 'c | Inherited | Undefined

definition Object_prototype :: "string list" where
  "Object_prototype =
     [''constructor'', ''__defineGetter__'', ''__defineSetter__'', ''hasOwnProperty'',
      ''__lookupGetter__'', ''__lookupSetter__'', ''isPrototypeOf'', ''propertyIsEnumerable'',
      ''toString'', ''valueOf'', ''__proto__'', ''toLocaleString'']"

definition property_of :: "(string \<times> 'c) list \<Rightarrow> string \<Rightarrow> 'c property" where
  "property_of obj k =
     (case map_of obj k of
        Some c \<Rightarrow> Own c
      | None \<Rightarrow> if k \<in> set Object_prototype then Inherited else Undefined)"

definition validateAndGetCredentials :: "env \<Rightarrow> 'm tool_args_scheme \<Rightarrow> 'm tool_args_scheme io" where
  "validateAndGetCredentials env args =
     (let jiraHost = js_or (tool_args.jiraHost args) (JIRA_HOST env);
          loginName = js_or (tool_args.loginName args) (JIRA_LOGIN_NAME env);
          loginToken = js_or (tool_args.loginToken args) (JIRA_LOGIN_TOKEN env)
      in io_bind (await (validateCredentials jiraHost loginName loginToken)) (\<lambda>u. io_return args))"

text \<open>The body of the \<open>try\<close> block; reading \<open>.validate\<close> of the absent \<open>schema\<close> of an
  inherited property throws a \<open>TypeError\<close>.\<close>

definition callTool :: "(string \<times> ('raw, 'm) ToolConfig) list \<Rightarrow> env \<Rightarrow> string \<Rightarrow> 'raw \<Rightarrow> ToolResult io" where
  "callTool toolConfigs env toolName args =
     (case property_of toolConfigs toolName of
        Undefined \<Rightarrow> io_return (textResult (''Unknown tool: '' @ toolName) True)
      | Inherited \<Rightarrow>
          io_throw (TypeError (''Cannot read properties of undefined (reading '' @ [CHR 0x27] @
                               ''validate'' @ [CHR 0x27] @ '')''))
      | Own toolConfig \<Rightarrow>
          io_bind (await (schema toolConfig args)) (\<lambda>validatedArgs.
          io_bind (validateAndGetCredentials env validatedArgs) (\<lambda>argsWithCredentials.
          handler toolConfig argsWithCredentials)))"

definition handleCallTool :: "(string \<times> ('raw, 'm) ToolConfig) list \<Rightarrow> env \<Rightarrow> string \<Rightarrow> 'raw \<Rightarrow> ToolResult io" where
  "handleCallTool toolConfigs env toolName args =
     try_catch (callTool toolConfigs env toolName args)
       (\<lambda>error. io_return (textResult (''Error: '' @ message error) True))"

section \<open>The credentials of a tool\<close>

text \<open>
  Every tool starts the same way once its schema has accepted the arguments: each credential
  is the argument or else the environment's, an absent one throws, and \<open>validateCredentials\<close>
  checks them again. The tool goes on with the host, and with the login name and token that
  \<open>createAuthHeader\<close> turns into the authorization header.
\<close>

definition credentials :: "env \<Rightarrow> 'm tool_args_scheme \<Rightarrow> (string \<times> string \<times> string) io" where
  "credentials env validatedArgs =
     (let jiraHost = js_or (tool_args.jiraHost validatedArgs) (JIRA_HOST env);
          loginName = js_or (tool_args.loginName validatedArgs) (JIRA_LOGIN_NAME env);
          loginToken = js_or (tool_args.loginToken validatedArgs) (JIRA_LOGIN_TOKEN env)
      in if \<not> truthy jiraHost \<or> \<not> truthy loginName \<or> \<not> truthy loginToken
         then io_throw (Error ''Missing required authentication credentials. Please provide jiraHost, loginName, and loginToken.'')
         else io_bind (await (validateCredentials jiraHost loginName loginToken))
                (\<lambda>u. io_return (tpl jiraHost, tpl loginName, tpl loginToken)))"

section \<open>tools/listProjectMembers\<close>

text \<open>
  \<^verbatim>\<open>for (const [roleName, roleUrl] of Object.entries(projectRoles))\<close>: for each role whose
  value is a string, the role-detail request is issued and its promise, mapped to
  \<^verbatim>\<open>{ roleName, data }\<close>, is pushed; nothing is awaited inside the loop.
\<close>

definition roleDetailRequest :: "string \<Rightarrow> string \<times> string \<Rightarrow> string \<Rightarrow> string \<Rightarrow> request" where
  "roleDetailRequest host authHeader pk roleUrl =
     (let roleId = split_pop roleUrl;
          detailUrl = normalizeJiraHost host @ ''/rest/api/3/project/'' @ pk @ ''/role/'' @ roleId
      in \<lparr>url = detailUrl, params = [], auth = authHeader\<rparr>)"

fun issueRoleDetails ::
  "upstream \<Rightarrow> string \<Rightarrow> string \<times> string \<Rightarrow> string \<Rightarrow> (string \<times> jval) list \<Rightarrow>
   (exn + string \<times> ProjectRole) list \<Rightarrow> world \<Rightarrow> (exn + string \<times> ProjectRole) list \<times> world" where
  "issueRoleDetails up host authHeader pk [] roleDetailsPromises w = (roleDetailsPromises, w)"
| "issueRoleDetails up host authHeader pk ((roleName, roleUrl) # entries) roleDetailsPromises w =
     (case roleUrl of
        JString u \<Rightarrow>
          (case axios_issue (roleDetail up) (roleDetailRequest host authHeader pk u) w of
             (p, w') \<Rightarrow>
               issueRoleDetails up host authHeader pk entries
                 (roleDetailsPromises @ [map_sum (\<lambda>e. e) (Pair roleName) p]) w')
      | JNumber n \<Rightarrow> issueRoleDetails up host authHeader pk entries roleDetailsPromises w
      | JNull \<Rightarrow> issueRoleDetails up host authHeader pk entries roleDetailsPromises w)"

text \<open>The loop and \<^verbatim>\<open>await Promise.all(roleDetailsPromises)\<close>.\<close>

definition fetchRoleDetails ::
  "upstream \<Rightarrow> nat list \<Rightarrow> string \<Rightarrow> string \<times> string \<Rightarrow> string \<Rightarrow> (string \<times> jval) list \<Rightarrow>
   (string \<times> ProjectRole) list io" where
  "fetchRoleDetails up arrival host authHeader pk entries =
     (\<lambda>w. case issueRoleDetails up host authHeader pk entries [] w of
            (roleDetailsPromises, w') \<Rightarrow> Promise_all arrival roleDetailsPromises w')"

definition membersTable :: "MemberRecord js_map \<Rightarrow> string" where
  "membersTable allMembers =
     ''| Name | Type | Email | Roles |\<newline>'' @
     ''|------|------|-------|-------|\<newline>'' @
     concat (map (\<lambda>entry. case entry of (k, member) \<Rightarrow>
               ''| '' @ displayName member @ '' | '' @ MemberRecord.type member @ '' | '' @
               email member @ '' | '' @ join '', '' (roles member) @ '' |\<newline>'') allMembers)"

definition rolesRequest :: "string \<Rightarrow> string \<times> string \<Rightarrow> string \<Rightarrow> request" where
  "rolesRequest host authHeader pk =
     \<lparr>url = normalizeJiraHost host @ ''/rest/api/3/project/'' @ pk @ ''/role'',
      params = [], auth = authHeader\<rparr>"

text \<open>The tool from its first request on.\<close>

definition membersReport ::
  "upstream \<Rightarrow> nat list \<Rightarrow> string \<Rightarrow> string \<times> string \<Rightarrow> string \<Rightarrow> ToolResult io" where
  "membersReport up arrival host authHeader pk =
     io_bind (axios_get (upstream.projectRoles up) (rolesRequest host authHeader pk)) (\<lambda>projectRoles.
     let formattedResponse = ''# Project Members for '' @ pk @ ''\<newline>\<newline>'' in
     if length projectRoles > 0 then
       io_bind (fetchRoleDetails up arrival host authHeader pk projectRoles) (\<lambda>roleDetails.
       let allMembers = mergeRoleDetails roleDetails in
       io_return (textResult
         (formattedResponse @
          (if length allMembers > 0 then membersTable allMembers else ''No project members found.''))
         False))
     else io_return (textResult (formattedResponse @ ''No project roles found.'') False))"

definition listProjectMembers :: "upstream \<Rightarrow> env \<Rightarrow> nat list \<Rightarrow> 'm tool_args_scheme \<Rightarrow> ToolResult io" where
  "listProjectMembers up env arrival args =
     io_bind (await (JiraProjectMembersRequestSchema env args)) (\<lambda>validatedArgs.
     io_bind (credentials env validatedArgs) (\<lambda>(jiraHost, authHeader).
     membersReport up arrival jiraHost authHeader (tpl (tool_args.projectKey validatedArgs))))"

section \<open>tools/checkUserIssues\<close>

text \<open>The same merge, which also sets \<open>userFound\<close> when an actor's display name is the
  requested name up to the case of the letters.\<close>

definition checkActor ::
  "runtime \<Rightarrow> string \<Rightarrow> string \<Rightarrow> MemberRecord js_map \<times> bool \<Rightarrow> RoleActor \<Rightarrow> MemberRecord js_map \<times> bool" where
  "checkActor rt user roleName st actor =
     (case RoleActor.displayName actor of
        None \<Rightarrow> st
      | Some n \<Rightarrow>
          if n = [] then st
          else (addActor roleName (fst st) actor,
                if toLowerCase rt n = toLowerCase rt user then True else snd st))"

definition checkRole ::
  "runtime \<Rightarrow> string \<Rightarrow> MemberRecord js_map \<times> bool \<Rightarrow> string \<times> ProjectRole \<Rightarrow> MemberRecord js_map \<times> bool" where
  "checkRole rt user st rd =
     (case actors (snd rd) of
        None \<Rightarrow> st
      | Some as \<Rightarrow> if length as > 0 then foldl (checkActor rt user (fst rd)) st as else st)"

definition checkRoleDetails ::
  "runtime \<Rightarrow> string \<Rightarrow> (string \<times> ProjectRole) list \<Rightarrow> MemberRecord js_map \<times> bool" where
  "checkRoleDetails rt user roleDetails = foldl (checkRole rt user) ([], False) roleDetails"

text \<open>The three signs of the report, as UTF-8: a check mark, a cross, a warning sign.\<close>

definition check_mark :: string where
  "check_mark = [CHR 0xE2, CHR 0x9C, CHR 0x85]"

definition cross_mark :: string where
  "cross_mark = [CHR 0xE2, CHR 0x9D, CHR 0x8C]"

definition warning_sign :: string where
  "warning_sign = [CHR 0xE2, CHR 0x9A, CHR 0xA0, CHR 0xEF, CHR 0xB8, CHR 0x8F]"

text \<open>The second stage: the search for the issues of the user.\<close>

definition issuesQuery :: "string \<Rightarrow> string \<times> string \<Rightarrow> string \<Rightarrow> string \<Rightarrow> request" where
  "issuesQuery host authHeader pk user =
     (let jql = ''project = \"'' @ pk @ ''\" AND assignee = \"'' @ user @ ''\" ORDER BY created DESC''
      in \<lparr>url = normalizeJiraHost host @ ''/rest/api/3/search'',
          params = [(''jql'', JString jql), (''maxResults'', JNumber 50),
                    (''fields'', JString ''summary,status,assignee,created,issuetype,priority'')],
          auth = authHeader\<rparr>)"

definition issueRow :: "runtime \<Rightarrow> Issue \<Rightarrow> string" where
  "issueRow rt issue =
     ''| '' @ key issue @ '' | '' @ tpl (js_or (summary issue) (Some ''No summary'')) @ '' | '' @
     tpl (js_or (status issue) (Some ''Unknown'')) @ '' | '' @
     tpl (js_or (issuetype issue) (Some ''Unknown'')) @ '' | '' @
     toLocaleDateString rt (created issue) @ '' |\<newline>''"

definition issuesTable :: "runtime \<Rightarrow> Issue list \<Rightarrow> string" where
  "issuesTable rt issues =
     (if length issues > 0
      then ''| Issue Key | Summary | Status | Type | Created |\<newline>'' @
           ''|-----------|---------|--------|------|--------|\<newline>'' @
           concat (map (issueRow rt) issues)
      else ''No issues found assigned to this user in the project.'')"

text \<open>The listing of the members when the user is not one of them.\<close>

definition listed :: "MemberRecord \<Rightarrow> bool" where
  "listed member =
     (MemberRecord.type member \<noteq> ''atlassian-user-role-actor'' \<or>
      (\<not> str_includes (displayName member) ''for Jira'' \<and>
       \<not> str_includes (displayName member) ''Atlassian''))"

definition memberRow :: "MemberRecord \<Rightarrow> string" where
  "memberRow member = ''| '' @ displayName member @ '' | '' @ join '', '' (roles member) @ '' |\<newline>''"

definition availableMembers :: "MemberRecord js_map \<Rightarrow> string" where
  "availableMembers allMembers =
     concat (map (\<lambda>entry. case entry of (k, member) \<Rightarrow> if listed member then memberRow member else [])
                 allMembers)"

definition notMemberReport :: "string \<Rightarrow> string \<Rightarrow> MemberRecord js_map \<Rightarrow> string" where
  "notMemberReport user pk allMembers =
     cross_mark @ '' User \"'' @ user @ ''\" is NOT a member of project \"'' @ pk @
       ''\". No issues will be fetched.\<newline>\<newline>'' @
     ''### Available Project Members:\<newline>\<newline>'' @
     ''| Name | Roles |\<newline>'' @
     ''|------|-------|\<newline>'' @
     availableMembers allMembers"

text \<open>\<^verbatim>\<open>userInfo?.roles.join(', ')\<close> for the first key that is the requested name up to case.\<close>

definition userRoles :: "runtime \<Rightarrow> string \<Rightarrow> MemberRecord js_map \<Rightarrow> string" where
  "userRoles rt user allMembers =
     (let found = find (\<lambda>k. toLowerCase rt k = toLowerCase rt user) (map fst allMembers);
          userInfo = map_of allMembers (tpl (js_or found (Some [])))
      in case userInfo of None \<Rightarrow> ''undefined'' | Some member \<Rightarrow> join '', '' (roles member))"

definition checkHeading :: "string \<Rightarrow> string \<Rightarrow> string" where
  "checkHeading user pk = ''# Checking User \"'' @ user @ ''\" in Project \"'' @ pk @ ''\"\<newline>\<newline>''"

definition step1Heading :: "string \<Rightarrow> string \<Rightarrow> string" where
  "step1Heading user pk =
     ''## Step 1: Checking if user \"'' @ user @ ''\" is a member of project \"'' @ pk @ ''\"\<newline>\<newline>''"

definition foundReport :: "runtime \<Rightarrow> string \<Rightarrow> string \<Rightarrow> MemberRecord js_map \<Rightarrow> string" where
  "foundReport rt user pk allMembers =
     check_mark @ '' User \"'' @ user @ ''\" found in project with the following roles: '' @
       userRoles rt user allMembers @ ''\<newline>\<newline>'' @
     ''## Step 2: Fetching issues assigned to \"'' @ user @ ''\" in project \"'' @ pk @ ''\"\<newline>\<newline>''"

definition noRolesReport :: string where
  "noRolesReport = warning_sign @ '' No project roles found. Unable to determine project membership.''"

text \<open>The tool from its first request on.\<close>

definition userIssuesReport ::
  "upstream \<Rightarrow> runtime \<Rightarrow> nat list \<Rightarrow> string \<Rightarrow> string \<times> string \<Rightarrow> string \<Rightarrow> string \<Rightarrow> ToolResult io" where
  "userIssuesReport up rt arrival host authHeader pk user =
     io_bind (axios_get (upstream.projectRoles up) (rolesRequest host authHeader pk)) (\<lambda>projectRoles.
     let formattedResponse = checkHeading user pk in
     if length projectRoles > 0 then
       io_bind (fetchRoleDetails up arrival host authHeader pk projectRoles) (\<lambda>roleDetails.
       case checkRoleDetails rt user roleDetails of (allMembers, userFound) \<Rightarrow>
       let step1 = formattedResponse @ step1Heading user pk in
       if userFound then
         let step2 = step1 @ foundReport rt user pk allMembers in
         io_bind (axios_get (search up) (issuesQuery host authHeader pk user)) (\<lambda>found.
         let issues = (case found of None \<Rightarrow> [] | Some is \<Rightarrow> is) in
         io_return (textResult (step2 @ issuesTable rt issues) False))
       else io_return (textResult (step1 @ notMemberReport user pk allMembers) False))
     else io_return (textResult (formattedResponse @ noRolesReport) False))"

definition checkUserIssues ::
  "upstream \<Rightarrow> runtime \<Rightarrow> env \<Rightarrow> nat list \<Rightarrow> 'm tool_args_scheme \<Rightarrow> ToolResult io" where
  "checkUserIssues up rt env arrival args =
     io_bind (await (JiraCheckUserIssuesRequestSchema env args)) (\<lambda>validatedArgs.
     io_bind (credentials env validatedArgs) (\<lambda>(jiraHost, authHeader).
     userIssuesReport up rt arrival jiraHost authHeader
       (tpl (tool_args.projectKey validatedArgs)) (tpl (tool_args.userName validatedArgs))))"

section \<open>tools/listSprints\<close>

text \<open>A number inside a template literal (\<open>issues.length\<close>).\<close>

fun show_nat :: "nat \<Rightarrow> string" where
  "show_nat n = (if n < 10 then [''0123456789'' ! n] else show_nat (n div 10) @ [''0123456789'' ! (n mod 10)])"

text \<open>The board query, with the project filter when a project key is given.\<close>

definition boardsRequest :: "string \<Rightarrow> string \<times> string \<Rightarrow> string option \<Rightarrow> request" where
  "boardsRequest host authHeader projectFilter =
     \<lparr>url = normalizeJiraHost host @ ''/rest/agile/1.0/board'',
      params = (case projectFilter of None \<Rightarrow> [] | Some pk \<Rightarrow> [(''projectKeyOrId'', JString pk)]),
      auth = authHeader\<rparr>"

text \<open>
  The resolution of the boards (the first statements of the \<open>try\<close> block): \<open>Inr\<close> the
  board ids to query, \<open>Inl\<close> the result the tool returns at once when no board is found.
\<close>

definition resolveBoards ::
  "upstream \<Rightarrow> string \<Rightarrow> string \<times> string \<Rightarrow> string option \<Rightarrow> string option \<Rightarrow> (ToolResult + string list) io" where
  "resolveBoards up host authHeader board project =
     (if truthy board then io_return (Inr [tpl board])
      else if truthy project then
        io_bind (axios_get (boards up) (boardsRequest host authHeader (Some (tpl project)))) (\<lambda>vals.
          case vals of
            None \<Rightarrow> io_return (Inl (textResult
              (''# No Boards Found\<newline>\<newline>No boards were found for project key: '' @ tpl project) False))
          | Some vs \<Rightarrow>
              if length vs > 0 then io_return (Inr (map Board.id vs))
              else io_return (Inl (textResult
                (''# No Boards Found\<newline>\<newline>No boards were found for project key: '' @ tpl project) False)))
      else
        io_bind (axios_get (boards up) (boardsRequest host authHeader None)) (\<lambda>vals.
          case vals of
            None \<Rightarrow> io_return (Inl (textResult
              ''# No Boards Found\<newline>\<newline>No boards were found in your Jira instance.'' False))
          | Some vs \<Rightarrow>
              if length vs > 0 then io_return (Inr (map Board.id (take 5 vs)))
              else io_return (Inl (textResult
                ''# No Boards Found\<newline>\<newline>No boards were found in your Jira instance.'' False))))"

definition sprintsRequest :: "string \<Rightarrow> string \<times> string \<Rightarrow> string \<Rightarrow> string \<Rightarrow> request" where
  "sprintsRequest host authHeader st bId =
     \<lparr>url = normalizeJiraHost host @ ''/rest/agile/1.0/board/'' @ bId @ ''/sprint'',
      params = (if st \<noteq> ''all'' then [(''state'', JString st)] else []),
      auth = authHeader\<rparr>"

text \<open>The body of \<^verbatim>\<open>for (const bId of boardIds)\<close>: one \<open>try\<close>/\<open>catch\<close> per board.\<close>

definition fetchBoardSprints ::
  "upstream \<Rightarrow> string \<Rightarrow> string \<times> string \<Rightarrow> string \<Rightarrow> string \<Rightarrow> SprintRecord list \<Rightarrow> SprintRecord list io" where
  "fetchBoardSprints up host authHeader st bId allSprints =
     try_catch
       (io_bind (axios_get (boardSprints up) (sprintsRequest host authHeader st bId)) (\<lambda>vals.
          case vals of
            None \<Rightarrow> io_return allSprints
          | Some vs \<Rightarrow>
              if length vs > 0
              then io_return (allSprints @ map (\<lambda>s. \<lparr>sprint = s, boardId = bId\<rparr>) vs)
              else io_return allSprints))
       (\<lambda>error. io_bind (console_warn (''Could not fetch sprints for board '' @ bId))
                   (\<lambda>u. io_return allSprints))"

fun fetchSprints ::
  "upstream \<Rightarrow> string \<Rightarrow> string \<times> string \<Rightarrow> string \<Rightarrow> string list \<Rightarrow> SprintRecord list \<Rightarrow> SprintRecord list io" where
  "fetchSprints up host authHeader st [] allSprints = io_return allSprints"
| "fetchSprints up host authHeader st (bId # boardIds) allSprints =
     io_bind (fetchBoardSprints up host authHeader st bId allSprints)
       (\<lambda>allSprints'. fetchSprints up host authHeader st boardIds allSprints')"

definition noSprintsFound :: "string \<Rightarrow> string option \<Rightarrow> string option \<Rightarrow> string" where
  "noSprintsFound st board project =
     ''# No Sprints Found\<newline>\<newline>'' @
     (if st \<noteq> ''all'' then ''No '' @ st @ '' sprints were found'' else ''No sprints were found'') @
     (if truthy board then '' for board ID: '' @ tpl board
      else if truthy project then '' for project key: '' @ tpl project
      else [])"

text \<open>The comparison function handed to \<open>sort\<close>. The difference is \<open>NaN\<close> (\<open>None\<close>) when
  one of the two times is.\<close>

definition compareSprints :: "runtime \<Rightarrow> SprintRecord \<Rightarrow> SprintRecord \<Rightarrow> int option" where
  "compareSprints rt a b =
     (let dateA = (if truthy (startDate (sprint a)) then getTime rt (tpl (startDate (sprint a))) else Some 0);
          dateB = (if truthy (startDate (sprint b)) then getTime rt (tpl (startDate (sprint b))) else Some 0)
      in case dateB of
           None \<Rightarrow> None
         | Some tb \<Rightarrow> (case dateA of None \<Rightarrow> None | Some ta \<Rightarrow> Some (tb - ta)))"

text \<open>
  \<open>Array.prototype.sort\<close> reads a \<open>NaN\<close> from the comparison function as 0, and is stable:
  elements the comparison function does not order keep their order. It is modelled as the
  stable insertion sort under that function, which is the result of every stable sort
  when the function orders the elements consistently (when it does not, the language
  leaves the order to the implementation).
\<close>

fun insort_by :: "('a \<Rightarrow> 'a \<Rightarrow> int option) \<Rightarrow> 'a \<Rightarrow> 'a list \<Rightarrow> 'a list" where
  "insort_by cmp x [] = [x]"
| "insort_by cmp x (y # ys) =
     (if (case cmp x y of None \<Rightarrow> 0 | Some v \<Rightarrow> v) \<le> 0 then x # y # ys else y # insort_by cmp x ys)"

definition Array_sort :: "('a \<Rightarrow> 'a \<Rightarrow> int option) \<Rightarrow> 'a list \<Rightarrow> 'a list" where
  "Array_sort cmp xs = foldr (insort_by cmp) xs []"

definition sprintRow :: "runtime \<Rightarrow> SprintRecord \<Rightarrow> string" where
  "sprintRow rt s =
     (let startDate = (if truthy (startDate (sprint s)) then toLocaleDateString rt (tpl (startDate (sprint s)))
                       else ''Not started'');
          endDate = (if truthy (endDate (sprint s)) then toLocaleDateString rt (tpl (endDate (sprint s)))
                     else ''Not set'');
          status = capitalize rt (Sprint.state (sprint s))
      in ''| '' @ Sprint.id (sprint s) @ '' | '' @ Sprint.name (sprint s) @ '' | '' @ SprintRecord.boardId s @
         '' | '' @ status @ '' | '' @ startDate @ '' | '' @ endDate @ '' |\<newline>'')"

definition sprintIssuesRequest :: "string \<Rightarrow> string \<times> string \<Rightarrow> string \<Rightarrow> request" where
  "sprintIssuesRequest host authHeader sprintId =
     \<lparr>url = normalizeJiraHost host @ ''/rest/agile/1.0/sprint/'' @ sprintId @ ''/issue'',
      params = [(''fields'', JString ''summary,status,assignee,issuetype'')],
      auth = authHeader\<rparr>"

definition sprintIssueRow :: "string \<Rightarrow> Issue \<Rightarrow> string" where
  "sprintIssueRow host issue =
     (let assignee = (case assignee issue of Some n \<Rightarrow> n | None \<Rightarrow> ''Unassigned'');
          status = (case status issue of Some n \<Rightarrow> n | None \<Rightarrow> ''Unknown'');
          type = (case issuetype issue of Some n \<Rightarrow> n | None \<Rightarrow> ''Task'')
      in ''| ['' @ key issue @ '']('' @ normalizeJiraHost host @ ''/browse/'' @ key issue @ '') | '' @
         tpl (summary issue) @ '' | '' @ type @ '' | '' @ status @ '' | '' @ assignee @ '' |\<newline>'')"

text \<open>The inner \<open>try\<close>/\<open>catch\<close> of the detail loop: what it appends to the report.\<close>

definition sprintIssuesText :: "upstream \<Rightarrow> string \<Rightarrow> string \<times> string \<Rightarrow> SprintRecord \<Rightarrow> string io" where
  "sprintIssuesText up host authHeader s =
     try_catch
       (io_bind (axios_get (sprintIssues up) (sprintIssuesRequest host authHeader (Sprint.id (sprint s))))
          (\<lambda>found.
             case found of
               None \<Rightarrow> io_return ''No issues found in this sprint.\<newline>''
             | Some issues \<Rightarrow>
                 if length issues > 0
                 then io_return
                   (''#### Issues ('' @ show_nat (length issues) @ '')\<newline>\<newline>'' @
                    ''| Key | Summary | Type | Status | Assignee |\<newline>'' @
                    ''|-----|---------|------|--------|----------|\<newline>'' @
                    concat (map (sprintIssueRow host) issues))
                 else io_return ''No issues found in this sprint.\<newline>''))
       (\<lambda>error. io_return ''Could not fetch issues for this sprint.\<newline>'')"

definition sprintHeading :: "runtime \<Rightarrow> string \<Rightarrow> string option \<Rightarrow> SprintRecord \<Rightarrow> string" where
  "sprintHeading rt host project s =
     ''### '' @ Sprint.name (sprint s) @ '' (ID: '' @ Sprint.id (sprint s) @ '')\<newline>\<newline>'' @
     ''**Board ID:** '' @ SprintRecord.boardId s @ ''\<newline>'' @
     ''**Status:** '' @ capitalize rt (Sprint.state (sprint s)) @ ''\<newline>'' @
     (if truthy (startDate (sprint s))
      then ''**Start Date:** '' @ toLocaleString rt (tpl (startDate (sprint s))) @ ''\<newline>'' else []) @
     (if truthy (endDate (sprint s))
      then ''**End Date:** '' @ toLocaleString rt (tpl (endDate (sprint s))) @ ''\<newline>'' else []) @
     (if truthy (goal (sprint s)) then ''**Goal:** '' @ tpl (goal (sprint s)) @ ''\<newline>'' else []) @
     ''**View in Jira:** '' @ normalizeJiraHost host @ ''/jira/software/projects/'' @
       tpl (js_or project (Some ''browse'')) @ ''/boards/'' @ SprintRecord.boardId s @ ''/sprints/'' @
       Sprint.id (sprint s) @ ''\<newline>\<newline>''"

text \<open>\<^verbatim>\<open>for (const sprint of allSprints)\<close>: the report grows by one section per sprint.\<close>

fun sprintDetails ::
  "upstream \<Rightarrow> runtime \<Rightarrow> string \<Rightarrow> string \<times> string \<Rightarrow> string option \<Rightarrow> SprintRecord list \<Rightarrow> string \<Rightarrow> string io" where
  "sprintDetails up rt host authHeader project [] formattedResponse = io_return formattedResponse"
| "sprintDetails up rt host authHeader project (s # rest) formattedResponse =
     io_bind (sprintIssuesText up host authHeader s) (\<lambda>issuesText.
       sprintDetails up rt host authHeader project rest
         (formattedResponse @ sprintHeading rt host project s @ issuesText @ ''\<newline>---\<newline>\<newline>''))"

definition sprintsTable :: "runtime \<Rightarrow> string \<Rightarrow> SprintRecord list \<Rightarrow> string" where
  "sprintsTable rt st allSprints =
     ''# '' @ capitalize rt st @ '' Sprints\<newline>\<newline>'' @
     ''| ID | Name | Board | Status | Start Date | End Date |\<newline>'' @
     ''|----|------|-------|--------|------------|----------|\<newline>'' @
     concat (map (sprintRow rt) allSprints) @
     ''\<newline>## Sprint Details\<newline>\<newline>''"

text \<open>What follows the resolution of the boards inside the \<open>try\<close> block.\<close>

definition reportSprints ::
  "upstream \<Rightarrow> runtime \<Rightarrow> string \<Rightarrow> string \<times> string \<Rightarrow> string option \<Rightarrow> string option \<Rightarrow> string \<Rightarrow>
   string list \<Rightarrow> ToolResult io" where
  "reportSprints up rt host authHeader board project st boardIds =
     io_bind (fetchSprints up host authHeader st boardIds []) (\<lambda>allSprints.
       if length allSprints = 0 then io_return (textResult (noSprintsFound st board project) False)
       else
         let sorted = Array_sort (compareSprints rt) allSprints in
         io_bind (sprintDetails up rt host authHeader project sorted (sprintsTable rt st sorted))
           (\<lambda>formattedResponse. io_return (textResult formattedResponse False)))"

text \<open>The \<open>catch\<close> of the tool.\<close>

definition sprintsError :: "exn \<Rightarrow> ToolResult" where
  "sprintsError error =
     (let errorMsg =
            (case response error of
               Some (code, body) \<Rightarrow> ''Error '' @ code @ '': '' @ (if body \<noteq> [] then body else message error)
             | None \<Rightarrow>
                 if message error \<noteq> [] then message error
                 else ''An error occurred while retrieving sprints.'')
      in textResult (''# Error\<newline>\<newline>'' @ errorMsg) True)"

definition listSprints :: "upstream \<Rightarrow> runtime \<Rightarrow> env \<Rightarrow> 'm tool_args_scheme \<Rightarrow> ToolResult io" where
  "listSprints up rt env args =
     io_bind (await (JiraSprintRequestSchema env args)) (\<lambda>validatedArgs.
     io_bind (credentials env validatedArgs) (\<lambda>(jiraHost, authHeader).
     let boardId = tool_args.boardId validatedArgs;
         projectKey = tool_args.projectKey validatedArgs;
         state = tpl (js_or (tool_args.state validatedArgs) (Some ''active'')) in
     try_catch
       (io_bind (resolveBoards up jiraHost authHeader boardId projectKey) (\<lambda>resolved.
          case resolved of
            Inl noBoards \<Rightarrow> io_return noBoards
          | Inr boardIds \<Rightarrow> reportSprints up rt jiraHost authHeader boardId projectKey state boardIds))
       (\<lambda>error. io_return (sprintsError error))))"

section \<open>The registry\<close>

text \<open>
  \<open>toolConfigs\<close>, with the three tools modelled above; the configurations of the four
  other tools (list projects, get issue, search issues, create issue) are taken from
  \<open>other\<close>, by name.
\<close>

definition toolConfigs ::
  "upstream \<Rightarrow> runtime \<Rightarrow> env \<Rightarrow> nat list \<Rightarrow> (string \<Rightarrow> ('m tool_args_scheme, 'm) ToolConfig) \<Rightarrow>
   (string \<times> ('m tool_args_scheme, 'm) ToolConfig) list" where
  "toolConfigs up rt env arrival other =
     [(''jira_list_projects'', other ''jira_list_projects''),
      (''jira_get_issue'', other ''jira_get_issue''),
      (''jira_search_issues'', other ''jira_search_issues''),
      (''jira_list_project_members'',
         \<lparr>schema = JiraProjectMembersRequestSchema env, handler = listProjectMembers up env arrival\<rparr>),
      (''jira_check_user_issues'',
         \<lparr>schema = JiraCheckUserIssuesRequestSchema env, handler = checkUserIssues up rt env arrival\<rparr>),
      (''jira_create_issue'', other ''jira_create_issue''),
      (''jira_list_sprints'',
         \<lparr>schema = JiraSprintRequestSchema env, handler = listSprints up rt env\<rparr>)]"

section \<open>Notions used in the statements\<close>

text \<open>The invariant of \<open>allMembers\<close>: the keys are distinct and each record is stored under
  its display name.\<close>

definition keyed :: "MemberRecord js_map \<Rightarrow> bool" where
  "keyed m = (distinct (map fst m) \<and> (\<forall>p\<in>set m. displayName (snd p) = fst p))"

text \<open>The entries of the role map whose value is a string, and the promise the loop
  pushes for one of them.\<close>

definition stringEntries :: "(string \<times> jval) list \<Rightarrow> (string \<times> string) list" where
  "stringEntries entries =
     concat (map (\<lambda>entry. case snd entry of JString u \<Rightarrow> [(fst entry, u)] | JNumber n \<Rightarrow> [] | JNull \<Rightarrow> []) entries)"

definition promiseOf :: "upstream \<Rightarrow> string \<Rightarrow> string \<times> string \<Rightarrow> string \<Rightarrow> string \<times> string \<Rightarrow> exn + string \<times> ProjectRole" where
  "promiseOf up host au pk ru =
     map_sum (\<lambda>e. e) (Pair (fst ru)) (roleDetail up (roleDetailRequest host au pk (snd ru)))"

text \<open>What a tool reads from the validated arguments.\<close>

definition hostOf :: "'m tool_args_scheme \<Rightarrow> string" where
  "hostOf v = tpl (tool_args.jiraHost v)"

definition authOf :: "'m tool_args_scheme \<Rightarrow> string \<times> string" where
  "authOf v = (tpl (tool_args.loginName v), tpl (tool_args.loginToken v))"

definition keyOf :: "'m tool_args_scheme \<Rightarrow> string" where
  "keyOf v = tpl (tool_args.projectKey v)"

definition userOf :: "'m tool_args_scheme \<Rightarrow> string" where
  "userOf v = tpl (tool_args.userName v)"

definition stateOf :: "'m tool_args_scheme \<Rightarrow> string" where
  "stateOf v = tpl (js_or (tool_args.state v) (Some ''active''))"



text \<open>The sprints one board contributes, whether its request failed, the sprints of a list
  of boards and the warnings written for it.\<close>

definition boardSprintsOf :: "upstream \<Rightarrow> string \<Rightarrow> string \<times> string \<Rightarrow> string \<Rightarrow> string \<Rightarrow> SprintRecord list" where
  "boardSprintsOf up host au st b =
     (case boardSprints up (sprintsRequest host au st b) of
        Inl e \<Rightarrow> []
      | Inr None \<Rightarrow> []
      | Inr (Some vs) \<Rightarrow> map (\<lambda>s. \<lparr>sprint = s, boardId = b\<rparr>) vs)"

definition boardFailed :: "upstream \<Rightarrow> string \<Rightarrow> string \<times> string \<Rightarrow> string \<Rightarrow> string \<Rightarrow> bool" where
  "boardFailed up host au st b = isl (boardSprints up (sprintsRequest host au st b))"

definition sprintsFetched :: "upstream \<Rightarrow> string \<Rightarrow> string \<times> string \<Rightarrow> string \<Rightarrow> string list \<Rightarrow> SprintRecord list" where
  "sprintsFetched up host au st boardIds = concat (map (boardSprintsOf up host au st) boardIds)"

definition skipWarnings :: "upstream \<Rightarrow> string \<Rightarrow> string \<times> string \<Rightarrow> string \<Rightarrow> string list \<Rightarrow> string list" where
  "skipWarnings up host au st boardIds =
     map (\<lambda>b. ''Could not fetch sprints for board '' @ b) (filter (boardFailed up host au st) boardIds)"

text \<open>The text the inner \<open>try\<close>/\<open>catch\<close> yields for a sprint (it does not depend on the
  world), the section of one sprint, and the text of a result.\<close>

definition issuesTextOf :: "upstream \<Rightarrow> string \<Rightarrow> string \<times> string \<Rightarrow> SprintRecord \<Rightarrow> string" where
  "issuesTextOf up host au s =
     (case fst (sprintIssuesText up host au s \<lparr>calls = [], warnings = []\<rparr>) of Inl e \<Rightarrow> [] | Inr t \<Rightarrow> t)"

definition sprintSection :: "upstream \<Rightarrow> runtime \<Rightarrow> string \<Rightarrow> string \<times> string \<Rightarrow> string option \<Rightarrow> SprintRecord \<Rightarrow> string" where
  "sprintSection up rt host au project s =
     sprintHeading rt host project s @ issuesTextOf up host au s @ ''\<newline>---\<newline>\<newline>''"

definition resultText :: "ToolResult \<Rightarrow> string" where
  "resultText r = concat (map ContentItem.text (content r))"

text \<open>The two results returned when no board is found.\<close>

definition noBoardsForProject :: "string \<Rightarrow> ToolResult" where
  "noBoardsForProject pk =
     textResult (''# No Boards Found\<newline>\<newline>No boards were found for project key: '' @ pk) False"

definition noBoardsAtAll :: ToolResult where
  "noBoardsAtAll =
     textResult ''# No Boards Found\<newline>\<newline>No boards were found in your Jira instance.'' False"

section \<open>Example data\<close>

text \<open>A project with two roles that share one actor.\<close>

definition jane :: RoleActor where
  "jane = \<lparr>RoleActor.displayName = Some ''Jane Doe'', RoleActor.type = ''atlassian-user-role-actor'',
           emailAddress = Some ''jane@example.com''\<rparr>"

definition amir :: RoleActor where
  "amir = \<lparr>RoleActor.displayName = Some ''Amir K'', RoleActor.type = ''atlassian-user-role-actor'',
           emailAddress = None\<rparr>"

definition devs :: RoleActor where
  "devs = \<lparr>RoleActor.displayName = Some ''developers'', RoleActor.type = ''atlassian-group-role-actor'',
           emailAddress = None\<rparr>"

definition twoRoles :: "(string \<times> ProjectRole) list" where
  "twoRoles = [(''Administrators'', \<lparr>actors = Some [jane, amir]\<rparr>),
               (''Developers'', \<lparr>actors = Some [jane, devs]\<rparr>)]"

definition janeRecord :: MemberRecord where
  "janeRecord = \<lparr>displayName = ''Jane Doe'', type = ''atlassian-user-role-actor'',
                 email = ''jane@example.com'', roles = [''Administrators'', ''Developers'']\<rparr>"

definition botRecord :: MemberRecord where
  "botRecord = \<lparr>displayName = ''Automation for Jira'', type = ''atlassian-user-role-actor'',
                email = ''N/A'', roles = [''Administrators'']\<rparr>"

text \<open>Its role map and its upstream; upstreams whose second role detail fails, and
  without roles; an empty environment, the world before a call, and a runtime that knows
  the letters of ASCII and two dates.\<close>

definition exampleRoleMap :: "(string \<times> jval) list" where
  "exampleRoleMap =
     [(''Administrators'', JString ''https://h.example/rest/api/3/project/ABC/role/10002''),
      (''Developers'', JString ''https://h.example/rest/api/3/project/ABC/role/10001'')]"

definition notFound :: exn where
  "notFound = AxiosError ''Request failed with status code 404'' (Some (''404'', ''{}''))"

definition exampleUpstream :: upstream where
  "exampleUpstream =
     \<lparr>projectRoles = (\<lambda>req. Inr exampleRoleMap),
      roleDetail = (\<lambda>req.
        if url req = ''https://h.example/rest/api/3/project/ABC/role/10002''
        then Inr \<lparr>actors = Some [jane, amir]\<rparr>
        else if url req = ''https://h.example/rest/api/3/project/ABC/role/10001''
        then Inr \<lparr>actors = Some [jane, devs]\<rparr>
        else Inl notFound),
      search = (\<lambda>req. Inr (Some [])),
      boards = (\<lambda>req. Inr (Some [])),
      boardSprints = (\<lambda>req. Inr (Some [])),
      sprintIssues = (\<lambda>req. Inr (Some []))\<rparr>"

definition failingUpstream :: upstream where
  "failingUpstream =
     exampleUpstream\<lparr>roleDetail := (\<lambda>req.
        if url req = ''https://h.example/rest/api/3/project/ABC/role/10002''
        then Inr \<lparr>actors = Some [jane, amir]\<rparr>
        else Inl notFound)\<rparr>"

definition noRolesUpstream :: upstream where
  "noRolesUpstream = exampleUpstream\<lparr>projectRoles := (\<lambda>req. Inr [])\<rparr>"

definition env0 :: env where
  "env0 = \<lparr>JIRA_HOST = None, JIRA_LOGIN_NAME = None, JIRA_LOGIN_TOKEN = None\<rparr>"

definition world0 :: world where
  "world0 = \<lparr>calls = [], warnings = []\<rparr>"

definition rt0 :: runtime where
  "rt0 = \<lparr>toLowerCase = map ascii_lower, toUpperCase = map ascii_upper,
          getTime = (\<lambda>s. if s = ''2024-03-01'' then Some 1709251200000
                         else if s = ''2024-01-10'' then Some 1704844800000 else None),
          toLocaleDateString = (\<lambda>s. if s = ''soon'' then ''Invalid Date'' else s),
          toLocaleString = (\<lambda>s. if s = ''soon'' then ''Invalid Date'' else s)\<rparr>"

text \<open>The arguments of two calls, an automation account, and the requests of a call.\<close>

definition exampleArgs :: tool_args where
  "exampleArgs = \<lparr>jiraHost = Some ''h.example'', loginName = Some ''u'', loginToken = Some ''t'',
                  projectKey = Some ''ABC'', userName = Some ''jane doe'', boardId = None, state = None\<rparr>"

definition strangerArgs :: tool_args where
  "strangerArgs = exampleArgs\<lparr>userName := Some ''Nobody''\<rparr>"

definition rolesCall :: request where
  "rolesCall = \<lparr>url = ''https://h.example/rest/api/3/project/ABC/role'', params = [], auth = (''u'', ''t'')\<rparr>"

definition detailCalls :: "request list" where
  "detailCalls =
     [\<lparr>url = ''https://h.example/rest/api/3/project/ABC/role/10002'', params = [], auth = (''u'', ''t'')\<rparr>,
      \<lparr>url = ''https://h.example/rest/api/3/project/ABC/role/10001'', params = [], auth = (''u'', ''t'')\<rparr>]"

text \<open>Three sprints on three boards, of which the second fails (or has no sprint), the
  arguments of the listing, and the report the tool gives.\<close>

definition sprintNone :: Sprint where
  "sprintNone = \<lparr>id = ''13'', name = ''Backlog prep'', state = ''future'', startDate = None,
                 endDate = None, goal = None\<rparr>"

definition sprintJan :: Sprint where
  "sprintJan = \<lparr>id = ''11'', name = ''Sprint 11'', state = ''closed'', startDate = Some ''2024-01-10'',
                endDate = Some ''2024-01-24'', goal = None\<rparr>"

definition sprintMar :: Sprint where
  "sprintMar = \<lparr>id = ''12'', name = ''Sprint 12'', state = ''active'', startDate = Some ''2024-03-01'',
                endDate = None, goal = Some ''Ship it''\<rparr>"

definition sprintUpstream :: upstream where
  "sprintUpstream =
     exampleUpstream\<lparr>
       boards := (\<lambda>req. Inr (Some [\<lparr>Board.id = ''1''\<rparr>, \<lparr>Board.id = ''2''\<rparr>, \<lparr>Board.id = ''3''\<rparr>])),
       boardSprints := (\<lambda>req.
         if url req = ''https://h.example/rest/agile/1.0/board/1/sprint'' then Inr (Some [sprintNone, sprintJan])
         else if url req = ''https://h.example/rest/agile/1.0/board/3/sprint'' then Inr (Some [sprintMar])
         else Inl notFound)\<rparr>"

definition quietUpstream :: upstream where
  "quietUpstream =
     exampleUpstream\<lparr>
       boards := (\<lambda>req. Inr (Some [\<lparr>Board.id = ''1''\<rparr>, \<lparr>Board.id = ''2''\<rparr>, \<lparr>Board.id = ''3''\<rparr>])),
       boardSprints := (\<lambda>req.
         if url req = ''https://h.example/rest/agile/1.0/board/1/sprint'' then Inr (Some [sprintNone, sprintJan])
         else if url req = ''https://h.example/rest/agile/1.0/board/3/sprint'' then Inr (Some [sprintMar])
         else Inr (Some []))\<rparr>"

definition sprintArgs :: tool_args where
  "sprintArgs = \<lparr>jiraHost = Some ''h.example'', loginName = Some ''u'', loginToken = Some ''t'',
                 projectKey = None, userName = None, boardId = None, state = Some ''all''\<rparr>"

definition boardArgs :: tool_args where
  "boardArgs = sprintArgs\<lparr>boardId := Some ''3'', projectKey := Some ''ABC''\<rparr>"

definition boardsCall :: request where
  "boardsCall = \<lparr>url = ''https://h.example/rest/agile/1.0/board'', params = [], auth = (''u'', ''t'')\<rparr>"

definition exampleSprintReport :: string where
  "exampleSprintReport =
     ''# All Sprints\<newline>\<newline>'' @
     ''| ID | Name | Board | Status | Start Date | End Date |\<newline>'' @
     ''|----|------|-------|--------|------------|----------|\<newline>'' @
     ''| 12 | Sprint 12 | 3 | Active | 2024-03-01 | Not set |\<newline>'' @
     ''| 11 | Sprint 11 | 1 | Closed | 2024-01-10 | 2024-01-24 |\<newline>'' @
     ''| 13 | Backlog prep | 1 | Future | Not started | Not set |\<newline>'' @
     ''\<newline>## Sprint Details\<newline>\<newline>'' @
     ''### Sprint 12 (ID: 12)\<newline>\<newline>**Board ID:** 3\<newline>**Status:** Active\<newline>'' @
     ''**Start Date:** 2024-03-01\<newline>**Goal:** Ship it\<newline>'' @
     ''**View in Jira:** https://h.example/jira/software/projects/browse/boards/3/sprints/12\<newline>\<newline>'' @
     ''No issues found in this sprint.\<newline>\<newline>---\<newline>\<newline>'' @
     ''### Sprint 11 (ID: 11)\<newline>\<newline>**Board ID:** 1\<newline>**Status:** Closed\<newline>'' @
     ''**Start Date:** 2024-01-10\<newline>**End Date:** 2024-01-24\<newline>'' @
     ''**View in Jira:** https://h.example/jira/software/projects/browse/boards/1/sprints/11\<newline>\<newline>'' @
     ''No issues found in this sprint.\<newline>\<newline>---\<newline>\<newline>'' @
     ''### Backlog prep (ID: 13)\<newline>\<newline>**Board ID:** 1\<newline>**Status:** Future\<newline>'' @
     ''**View in Jira:** https://h.example/jira/software/projects/browse/boards/1/sprints/13\<newline>\<newline>'' @
     ''No issues found in this sprint.\<newline>\<newline>---\<newline>\<newline>''"

text \<open>The report of the check for \<open>jane doe\<close> on the example project, and the search
  it sends.\<close>

definition searchCall :: request where
  "searchCall =
     \<lparr>url = ''https://h.example/rest/api/3/search'',
      params = [(''jql'', JString ''project = \"ABC\" AND assignee = \"jane doe\" ORDER BY created DESC''),
                (''maxResults'', JNumber 50),
                (''fields'', JString ''summary,status,assignee,created,issuetype,priority'')],
      auth = (''u'', ''t'')\<rparr>"

definition exampleFoundReport :: string where
  "exampleFoundReport =
     ''# Checking User \"jane doe\" in Project \"ABC\"\<newline>\<newline>'' @
     ''## Step 1: Checking if user \"jane doe\" is a member of project \"ABC\"\<newline>\<newline>'' @
     [CHR 0xE2, CHR 0x9C, CHR 0x85] @
     '' User \"jane doe\" found in project with the following roles: Administrators, Developers\<newline>\<newline>'' @
     ''## Step 2: Fetching issues assigned to \"jane doe\" in project \"ABC\"\<newline>\<newline>'' @
     ''No issues found assigned to this user in the project.''"

text \<open>The same project with an automation account among the administrators, and the
  report of the check for a stranger.\<close>

definition bot :: RoleActor where
  "bot = \<lparr>RoleActor.displayName = Some ''Automation for Jira'', RoleActor.type = ''atlassian-user-role-actor'',
          emailAddress = None\<rparr>"

definition botRoles :: "(string \<times> ProjectRole) list" where
  "botRoles = [(''Administrators'', \<lparr>actors = Some [jane, bot]\<rparr>),
               (''Developers'', \<lparr>actors = Some [jane, devs]\<rparr>)]"

definition devsRecord :: MemberRecord where
  "devsRecord = \<lparr>displayName = ''developers'', type = ''atlassian-group-role-actor'',
                 email = ''N/A'', roles = [''Developers'']\<rparr>"

definition botUpstream :: upstream where
  "botUpstream =
     exampleUpstream\<lparr>roleDetail := (\<lambda>req.
        if url req = ''https://h.example/rest/api/3/project/ABC/role/10002''
        then Inr \<lparr>actors = Some [jane, bot]\<rparr>
        else if url req = ''https://h.example/rest/api/3/project/ABC/role/10001''
        then Inr \<lparr>actors = Some [jane, devs]\<rparr>
        else Inl notFound)\<rparr>"

definition strangerReport :: string where
  "strangerReport =
     ''# Checking User \"Nobody\" in Project \"ABC\"\<newline>\<newline>'' @
     ''## Step 1: Checking if user \"Nobody\" is a member of project \"ABC\"\<newline>\<newline>'' @
     [CHR 0xE2, CHR 0x9D, CHR 0x8C] @
     '' User \"Nobody\" is NOT a member of project \"ABC\". No issues will be fetched.\<newline>\<newline>'' @
     ''### Available Project Members:\<newline>\<newline>'' @
     ''| Name | Roles |\<newline>'' @
     ''|------|-------|\<newline>'' @
     ''| Jane Doe | Administrators, Developers |\<newline>'' @
     ''| developers | Developers |\<newline>''"

text \<open>A project with seven boards on an instance that has six more; the arguments of a
  listing by project, and the two board queries.\<close>

definition projectArgs :: tool_args where
  "projectArgs = sprintArgs\<lparr>projectKey := Some ''ABC''\<rparr>"

definition projectBoardsCall :: request where
  "projectBoardsCall = \<lparr>url = ''https://h.example/rest/agile/1.0/board'',
                         params = [(''projectKeyOrId'', JString ''ABC'')], auth = (''u'', ''t'')\<rparr>"

definition projectUpstream :: upstream where
  "projectUpstream =
     exampleUpstream\<lparr>boards := (\<lambda>req.
       if params req = [(''projectKeyOrId'', JString ''ABC'')]
       then Inr (Some [\<lparr>Board.id = ''10''\<rparr>, \<lparr>Board.id = ''11''\<rparr>, \<lparr>Board.id = ''12''\<rparr>,
                       \<lparr>Board.id = ''13''\<rparr>, \<lparr>Board.id = ''14''\<rparr>, \<lparr>Board.id = ''15''\<rparr>,
                       \<lparr>Board.id = ''16''\<rparr>])
       else if params req = []
       then Inr (Some [\<lparr>Board.id = ''1''\<rparr>, \<lparr>Board.id = ''2''\<rparr>, \<lparr>Board.id = ''3''\<rparr>,
                       \<lparr>Board.id = ''4''\<rparr>, \<lparr>Board.id = ''5''\<rparr>, \<lparr>Board.id = ''6''\<rparr>])
       else Inl notFound)\<rparr>"

text \<open>A board with a sprint whose start date is not a date, between two dated sprints,
  and the report of its listing.\<close>

definition sprintBad :: Sprint where
  "sprintBad = \<lparr>id = ''14'', name = ''Sprint 14'', state = ''future'', startDate = Some ''soon'',
                endDate = None, goal = None\<rparr>"

definition badDateUpstream :: upstream where
  "badDateUpstream = exampleUpstream\<lparr>boardSprints := (\<lambda>req. Inr (Some [sprintJan, sprintBad, sprintMar]))\<rparr>"



section \<open>Properties of the merge\<close>

lemma map_of_Map_set: "map_of (Map_set m k v) = (map_of m)(k \<mapsto> v)"
  by (induction m) (auto simp: fun_eq_iff)

lemma keys_Map_set_new: "map_of m k = None \<Longrightarrow> map fst (Map_set m k v) = map fst m @ [k]"
  by (induction m) (auto split: if_splits)

lemma Map_set_new: "k \<notin> fst ` set m \<Longrightarrow> Map_set m k v = m @ [(k, v)]"
  by (induction m) (auto split: if_splits)

lemma keys_Map_push_role: "map fst (Map_push_role m k r) = map fst m"
  by (induction m) auto

lemma map_of_Map_push_role:
  "map_of (Map_push_role m k r) k' =
     (if k' = k then map_option (\<lambda>v. v\<lparr>roles := roles v @ [r]\<rparr>) (map_of m k) else map_of m k')"
  by (induction m) auto

lemma rolesOf_addActor:
  "rolesOf (addActor r m a) k =
     rolesOf m k @ (if RoleActor.displayName a = Some k \<and> k \<noteq> [] then [r] else [])"
  by (auto simp: rolesOf_def addActor_def Map_has_def map_of_Map_set map_of_Map_push_role
      split: option.splits)

lemma keys_addActor:
  "map fst (addActor r m a) =
     map fst m @ (case RoleActor.displayName a of None \<Rightarrow> []
                  | Some n \<Rightarrow> if n = [] \<or> n \<in> set (map fst m) then [] else [n])"
  by (auto simp: addActor_def Map_has_def keys_Map_set_new keys_Map_push_role map_of_eq_None_iff
      split: option.splits)

lemma displayName_Map_push_role:
  "(\<forall>p\<in>set m. displayName (snd p) = fst p) \<Longrightarrow> p \<in> set (Map_push_role m k r) \<Longrightarrow> displayName (snd p) = fst p"
  by (induction m) (auto split: if_splits)

lemma keyed_addActor: "keyed m \<Longrightarrow> keyed (addActor r m a)"
  unfolding keyed_def
  apply (rule conjI)
   apply (auto simp: keys_addActor split: option.splits)[1]
  apply (auto simp: addActor_def Map_has_def Map_set_new map_of_eq_None_iff dest: displayName_Map_push_role split: option.splits if_splits)
  done

lemma keyed_foldl_addActor: "keyed m \<Longrightarrow> keyed (foldl (addActor r) m as)"
  by (induction as arbitrary: m) (auto simp: keyed_addActor)

lemma keyed_mergeRole: "keyed m \<Longrightarrow> keyed (mergeRole m rd)"
  by (auto simp: mergeRole_def keyed_foldl_addActor split: option.splits)

lemma keyed_foldl_mergeRole: "keyed m \<Longrightarrow> keyed (foldl mergeRole m rds)"
  by (induction rds arbitrary: m) (auto simp: keyed_mergeRole)

lemma keyed_mergeRoleDetails: "keyed (mergeRoleDetails rds)"
  unfolding mergeRoleDetails_def by (rule keyed_foldl_mergeRole) (simp add: keyed_def)

lemma rolesOf_foldl_addActor:
  "rolesOf (foldl (addActor r) m as) k =
     rolesOf m k @ rolesSeen k (map (Pair r) (actorNames \<lparr>actors = Some as\<rparr>))"
  by (induction as arbitrary: m)
     (auto simp: rolesOf_addActor rolesSeen_def actorNames_def split: option.splits)

lemma rolesOf_mergeRole:
  "rolesOf (mergeRole m rd) k = rolesOf m k @ rolesSeen k (map (Pair (fst rd)) (actorNames (snd rd)))"
proof (cases "actors (snd rd)")
  case None
  then show ?thesis by (simp add: mergeRole_def actorNames_def rolesSeen_def)
next
  case (Some as)
  then have "snd rd = \<lparr>actors = Some as\<rparr>" by (cases "snd rd") simp
  with Some show ?thesis
    using rolesOf_foldl_addActor [of "fst rd" m as k]
    by (cases "as = []") (simp_all add: mergeRole_def actorNames_def rolesSeen_def)
qed

lemma rolesSeen_append: "rolesSeen k (xs @ ys) = rolesSeen k xs @ rolesSeen k ys"
  by (simp add: rolesSeen_def)

lemma rolesOf_foldl_mergeRole:
  "rolesOf (foldl mergeRole m rds) k = rolesOf m k @ rolesSeen k (observations rds)"
  by (induction rds arbitrary: m)
     (simp_all add: rolesOf_mergeRole observations_def rolesSeen_append, simp add: rolesSeen_def)

lemma rolesOf_mergeRoleDetails: "rolesOf (mergeRoleDetails rds) k = rolesSeen k (observations rds)"
  by (simp add: mergeRoleDetails_def rolesOf_foldl_mergeRole) (simp add: rolesOf_def)

lemma keyset_addActor:
  "fst ` set (addActor r m a) = fst ` set m \<union> set (actorNames \<lparr>actors = Some [a]\<rparr>)"
proof -
  have "fst ` set (addActor r m a) = set (map fst (addActor r m a))" by simp
  also have "\<dots> = fst ` set m \<union> set (actorNames \<lparr>actors = Some [a]\<rparr>)"
    unfolding keys_addActor by (auto simp: actorNames_def split: option.splits)
  finally show ?thesis .
qed

lemma actorNames_Cons:
  "actorNames \<lparr>actors = Some (a # as)\<rparr> = actorNames \<lparr>actors = Some [a]\<rparr> @ actorNames \<lparr>actors = Some as\<rparr>"
  by (simp add: actorNames_def)

lemma keys_foldl_addActor:
  "fst ` set (foldl (addActor r) m as) = fst ` set m \<union> set (actorNames \<lparr>actors = Some as\<rparr>)"
proof (induction as arbitrary: m)
  case Nil
  show ?case by (simp add: actorNames_def)
next
  case (Cons a as)
  show ?case
    by (simp only: foldl_Cons Cons.IH keyset_addActor actorNames_Cons [of a as] set_append Un_assoc)
qed

lemma keys_mergeRole:
  "fst ` set (mergeRole m rd) = fst ` set m \<union> set (actorNames (snd rd))"
proof (cases "actors (snd rd)")
  case None
  then show ?thesis by (simp add: mergeRole_def actorNames_def)
next
  case (Some as)
  then have "snd rd = \<lparr>actors = Some as\<rparr>" by (cases "snd rd") simp
  with Some show ?thesis
    using keys_foldl_addActor [of "fst rd" m as]
    by (cases "as = []") (simp_all add: mergeRole_def actorNames_def)
qed

lemma observations_Cons:
  "observations (rd # rds) = map (Pair (fst rd)) (actorNames (snd rd)) @ observations rds"
  by (simp add: observations_def)

lemma keys_foldl_mergeRole:
  "fst ` set (foldl mergeRole m rds) = fst ` set m \<union> snd ` set (observations rds)"
proof (induction rds arbitrary: m)
  case Nil
  show ?case by (simp add: observations_def)
next
  case (Cons rd rds)
  have "snd ` set (map (Pair (fst rd)) (actorNames (snd rd))) = set (actorNames (snd rd))"
    by (auto simp: image_iff)
  then show ?case
    by (simp only: foldl_Cons Cons.IH keys_mergeRole observations_Cons set_append image_Un Un_assoc)
qed

lemma keys_mergeRoleDetails:
  "fst ` set (mergeRoleDetails rds) = snd ` set (observations rds)"
  using keys_foldl_mergeRole [of "[]" rds] by (simp add: mergeRoleDetails_def)

lemma entry_mergeRoleDetails:
  assumes "(k, v) \<in> set (mergeRoleDetails rds)"
  shows "displayName v = k" and "roles v = rolesSeen k (observations rds)"
proof -
  have kd: "keyed (mergeRoleDetails rds)" by (rule keyed_mergeRoleDetails)
  with assms show "displayName v = k" by (auto simp: keyed_def)
  from kd assms have "map_of (mergeRoleDetails rds) k = Some v" by (simp add: keyed_def)
  then have "rolesOf (mergeRoleDetails rds) k = roles v" by (simp add: rolesOf_def)
  then show "roles v = rolesSeen k (observations rds)" by (simp add: rolesOf_mergeRoleDetails)
qed


lemma set_rolesSeen: "set (rolesSeen k obs) = {r. (r, k) \<in> set obs}"
  by (auto simp: rolesSeen_def image_iff)

lemma distinct_rolesSeen: "distinct obs \<Longrightarrow> distinct (rolesSeen k obs)"
  unfolding rolesSeen_def
  by (rule distinct_map [THEN iffD2]) (auto simp: inj_on_def prod_eq_iff)

lemma in_actorNames:
  "n \<in> set (actorNames d) \<longleftrightarrow>
     n \<noteq> [] \<and> (\<exists>as a. actors d = Some as \<and> a \<in> set as \<and> RoleActor.displayName a = Some n)"
proof (cases "actors d")
  case None
  then show ?thesis by (simp add: actorNames_def)
next
  case (Some as)
  have "n \<in> set (concat (map (\<lambda>a. case RoleActor.displayName a of None \<Rightarrow> []
            | Some n \<Rightarrow> if n = [] then [] else [n]) as)) \<longleftrightarrow>
        n \<noteq> [] \<and> (\<exists>a\<in>set as. RoleActor.displayName a = Some n)"
    by (induction as) (auto split: option.splits)
  with Some show ?thesis by (auto simp: actorNames_def)
qed

lemma in_observations_names:
  "(r, n) \<in> set (observations rds) \<longleftrightarrow> (\<exists>d. (r, d) \<in> set rds \<and> n \<in> set (actorNames d))"
  by (induction rds) (auto simp: observations_def)

lemma in_observations:
  "(r, n) \<in> set (observations rds) \<longleftrightarrow>
     n \<noteq> [] \<and> (\<exists>d as a. (r, d) \<in> set rds \<and> actors d = Some as \<and> a \<in> set as \<and>
                          RoleActor.displayName a = Some n)"
  unfolding in_observations_names in_actorNames by blast

lemma set_observations_cong: "set rds' = set rds \<Longrightarrow> set (observations rds') = set (observations rds)"
  by (simp add: observations_def)

lemma memberPairs_mergeRoleDetails:
  "memberPairs (mergeRoleDetails rds) =
     (\<lambda>k. (k, {r. (r, k) \<in> set (observations rds)})) ` snd ` set (observations rds)"
proof -
  have "memberPairs (mergeRoleDetails rds) =
          (\<lambda>p. (fst p, set (rolesSeen (fst p) (observations rds)))) ` set (mergeRoleDetails rds)"
    unfolding memberPairs_def
    by (rule image_cong) (auto dest: entry_mergeRoleDetails)
  also have "\<dots> = (\<lambda>k. (k, set (rolesSeen k (observations rds)))) ` fst ` set (mergeRoleDetails rds)"
    by (simp add: image_image)
  finally show ?thesis by (simp add: keys_mergeRoleDetails set_rolesSeen)
qed

lemma all_values_Inr: "all_values ps = Inr vs \<Longrightarrow> i < length ps \<Longrightarrow> \<exists>x. ps ! i = Inr x"
proof (induction ps arbitrary: vs i)
  case Nil
  then show ?case by simp
next
  case (Cons p ps)
  then show ?case
    by (cases p; cases i) (auto split: sum.splits)
qed

lemma first_rejection_None: "all_values ps = Inr vs \<Longrightarrow> first_rejection ps arrival = None"
  by (induction arrival) (auto dest: all_values_Inr split: sum.splits)

lemma Promise_all_fulfilled: "all_values ps = Inr vs \<Longrightarrow> Promise_all arrival ps = io_return vs"
  by (simp add: Promise_all_def first_rejection_None await_def io_return_def)

lemma all_values_Inl: "all_values ps = Inl e \<Longrightarrow> Inl e \<in> set ps"
  by (induction ps rule: all_values.induct) (auto split: sum.splits)

lemma all_values_rejected: "Inl e \<in> set ps \<Longrightarrow> \<exists>e'. all_values ps = Inl e'"
  by (induction ps rule: all_values.induct) (auto split: sum.splits)

lemma first_rejection_in: "first_rejection ps arrival = Some e \<Longrightarrow> Inl e \<in> set ps"
  by (induction arrival) (auto split: if_splits sum.splits simp: in_set_conv_nth)

lemma Promise_all_cases:
  "(\<exists>vs. all_values ps = Inr vs \<and> Promise_all arrival ps w = (Inr vs, w)) \<or>
   (\<exists>e. Inl e \<in> set ps \<and> Promise_all arrival ps w = (Inl e, w))"
proof (cases "first_rejection ps arrival")
  case None
  then show ?thesis
    by (cases "all_values ps") (auto simp: Promise_all_def await_def dest: all_values_Inl)
next
  case (Some e)
  then have "Inl e \<in> set ps" by (rule first_rejection_in)
  with Some show ?thesis by (auto simp: Promise_all_def io_throw_def)
qed

section \<open>The roles of a member (C5)\<close>

text \<open>
  C5, as amended. The claim says that the roles of a record hold no role name twice,
  also when the actor stands twice in the actor list of one role. The merge pushes the
  role name once per occurrence of the display name, without looking at the roles the
  record already has. What holds: every record of the merged map is stored under its
  display name; its roles are the role names of the occurrences of that name among the
  actors, one entry per occurrence, in the order the two loops visit them; as a set they
  are exactly the roles in whose actor list the name stands; and they are free of
  duplicates when no (role name, display name) pair occurs twice in the role details.
\<close>

theorem roles_one_per_occurrence:
  assumes "(k, member) \<in> set (mergeRoleDetails roleDetails)"
  shows "displayName member = k \<and>
         roles member = rolesSeen k (observations roleDetails) \<and>
         set (roles member) =
           {r. \<exists>d as a. (r, d) \<in> set roleDetails \<and> actors d = Some as \<and> a \<in> set as \<and>
                         RoleActor.displayName a = Some k} \<and>
         (distinct (observations roleDetails) \<longrightarrow> distinct (roles member))"
proof -
  note e = entry_mergeRoleDetails [OF assms]
  from assms have "k \<in> fst ` set (mergeRoleDetails roleDetails)" by force
  then obtain r where "(r, k) \<in> set (observations roleDetails)"
    unfolding keys_mergeRoleDetails by auto
  then have "k \<noteq> []" by (simp add: in_observations)
  then have "set (roles member) =
           {r. \<exists>d as a. (r, d) \<in> set roleDetails \<and> actors d = Some as \<and> a \<in> set as \<and>
                         RoleActor.displayName a = Some k}"
    by (simp add: e set_rolesSeen in_observations)
  with e show ?thesis by (simp add: distinct_rolesSeen)
qed

lemma mergeRoleDetails_twoRoles:
  "mergeRoleDetails twoRoles =
     [(''Jane Doe'', janeRecord),
      (''Amir K'', \<lparr>displayName = ''Amir K'', type = ''atlassian-user-role-actor'', email = ''N/A'',
                    roles = [''Administrators'']\<rparr>),
      (''developers'', \<lparr>displayName = ''developers'', type = ''atlassian-group-role-actor'', email = ''N/A'',
                    roles = [''Developers'']\<rparr>)]"
  by (simp add: mergeRoleDetails_def twoRoles_def mergeRole_def addActor_def Map_has_def js_or_def
      jane_def amir_def devs_def janeRecord_def)

lemma observations_twoRoles:
  "observations twoRoles =
     [(''Administrators'', ''Jane Doe''), (''Administrators'', ''Amir K''),
      (''Developers'', ''Jane Doe''), (''Developers'', ''developers'')]"
  by (simp add: observations_def twoRoles_def actorNames_def jane_def amir_def devs_def)

theorem roles_one_per_occurrence_witness:
  "(''Jane Doe'', janeRecord) \<in> set (mergeRoleDetails twoRoles) \<and>
   distinct (observations twoRoles) \<and>
   roles janeRecord = rolesSeen ''Jane Doe'' (observations twoRoles) \<and>
   roles janeRecord = [''Administrators'', ''Developers''] \<and>
   distinct (roles janeRecord)"
proof -
  have h: "(''Jane Doe'', janeRecord) \<in> set (mergeRoleDetails twoRoles)"
    by (simp add: mergeRoleDetails_twoRoles)
  have d: "distinct (observations twoRoles)"
    by (simp add: observations_twoRoles)
  from roles_one_per_occurrence [OF h] d
  have a: "roles janeRecord = rolesSeen ''Jane Doe'' (observations twoRoles)"
    and b: "distinct (roles janeRecord)"
    by blast+
  have c: "roles janeRecord = [''Administrators'', ''Developers'']"
    by (simp add: janeRecord_def)
  from h d a b c show ?thesis by blast
qed

text \<open>
  C5 as stated fails: one role, \<open>Developers\<close>, whose actor list names Jane Doe twice,
  gives her record the roles \<open>Developers, Developers\<close>.
\<close>

theorem duplicate_role_counterexample:
  "mergeRoleDetails [(''Developers'', \<lparr>actors = Some [jane, jane]\<rparr>)] =
     [(''Jane Doe'', \<lparr>displayName = ''Jane Doe'', type = ''atlassian-user-role-actor'',
                      email = ''jane@example.com'', roles = [''Developers'', ''Developers'']\<rparr>)]"
  by (simp add: mergeRoleDetails_def mergeRole_def addActor_def Map_has_def js_or_def jane_def)

section \<open>The order of arrival of the role details (C4)\<close>

lemma fetchRoleDetails_fulfilled:
  assumes "fetchRoleDetails up arrival host au pk entries w = (Inr rds, w')"
  shows "fetchRoleDetails up arrival' host au pk entries w = (Inr rds, w')"
proof -
  obtain ps w1 where i: "issueRoleDetails up host au pk entries [] w = (ps, w1)"
    by (cases "issueRoleDetails up host au pk entries [] w")
  with assms have p: "Promise_all arrival ps w1 = (Inr rds, w')"
    by (simp add: fetchRoleDetails_def)
  from Promise_all_cases [of ps arrival w1] p have "all_values ps = Inr rds" and "w' = w1"
    by auto
  then have "Promise_all arrival' ps w1 = (Inr rds, w')"
    by (simp add: Promise_all_fulfilled io_return_def)
  with i show ?thesis by (simp add: fetchRoleDetails_def)
qed

text \<open>
  C4. When the role-detail requests are all answered, the list \<open>roleDetails\<close> the handler
  merges is the same for every order of arrival of the answers (\<open>Promise.all\<close> keeps the
  order of the requests); and the merge of any permutation of that list has the same set
  of pairs of a display name and the set of its roles.
\<close>

theorem merge_order_independent:
  assumes "fetchRoleDetails up arrival host au pk entries w = (Inr roleDetails, w')"
      and "mset roleDetails' = mset roleDetails"
  shows "fetchRoleDetails up arrival' host au pk entries w = (Inr roleDetails, w') \<and>
         memberPairs (mergeRoleDetails roleDetails') = memberPairs (mergeRoleDetails roleDetails)"
proof -
  from assms(2) have "set roleDetails' = set roleDetails" by (rule mset_eq_setD)
  then have "set (observations roleDetails') = set (observations roleDetails)"
    by (rule set_observations_cong)
  then have "memberPairs (mergeRoleDetails roleDetails') = memberPairs (mergeRoleDetails roleDetails)"
    by (simp add: memberPairs_mergeRoleDetails)
  with fetchRoleDetails_fulfilled [OF assms(1)] show ?thesis by simp
qed

lemma fetchRoleDetails_example:
  "fetchRoleDetails exampleUpstream arrival ''h.example'' (''u'', ''t'') ''ABC'' exampleRoleMap world0 =
     (Inr twoRoles,
      \<lparr>calls = [\<lparr>url = ''https://h.example/rest/api/3/project/ABC/role/10002'', params = [], auth = (''u'', ''t'')\<rparr>,
                \<lparr>url = ''https://h.example/rest/api/3/project/ABC/role/10001'', params = [], auth = (''u'', ''t'')\<rparr>],
       warnings = []\<rparr>)"
proof -
  have "fetchRoleDetails exampleUpstream [] ''h.example'' (''u'', ''t'') ''ABC'' exampleRoleMap world0 =
     (Inr twoRoles,
      \<lparr>calls = [\<lparr>url = ''https://h.example/rest/api/3/project/ABC/role/10002'', params = [], auth = (''u'', ''t'')\<rparr>,
                \<lparr>url = ''https://h.example/rest/api/3/project/ABC/role/10001'', params = [], auth = (''u'', ''t'')\<rparr>],
       warnings = []\<rparr>)"
    by (simp add: fetchRoleDetails_def exampleRoleMap_def world0_def axios_issue_def exampleUpstream_def
        roleDetailRequest_def split_pop_def normalizeJiraHost_def ascii_lower_def
        Promise_all_def await_def twoRoles_def)
  then show ?thesis by (rule fetchRoleDetails_fulfilled)
qed

theorem merge_order_independent_witness:
  "fetchRoleDetails exampleUpstream [1, 0] ''h.example'' (''u'', ''t'') ''ABC'' exampleRoleMap world0 =
     fetchRoleDetails exampleUpstream [0, 1] ''h.example'' (''u'', ''t'') ''ABC'' exampleRoleMap world0 \<and>
   memberPairs (mergeRoleDetails (rev twoRoles)) = memberPairs (mergeRoleDetails twoRoles) \<and>
   memberPairs (mergeRoleDetails twoRoles) =
     {(''Jane Doe'', {''Administrators'', ''Developers''}), (''Amir K'', {''Administrators''}),
      (''developers'', {''Developers''})}"
proof -
  have m: "mset (rev twoRoles) = mset twoRoles" by simp
  have p: "memberPairs (mergeRoleDetails twoRoles) =
     {(''Jane Doe'', {''Administrators'', ''Developers''}), (''Amir K'', {''Administrators''}),
      (''developers'', {''Developers''})}"
    by (simp add: mergeRoleDetails_twoRoles memberPairs_def janeRecord_def)
  from merge_order_independent [where arrival = "[0, 1]" and arrival' = "[1, 0]",
      OF fetchRoleDetails_example m]
  have a: "fetchRoleDetails exampleUpstream [1, 0] ''h.example'' (''u'', ''t'') ''ABC'' exampleRoleMap world0 =
     fetchRoleDetails exampleUpstream [0, 1] ''h.example'' (''u'', ''t'') ''ABC'' exampleRoleMap world0"
    and b: "memberPairs (mergeRoleDetails (rev twoRoles)) = memberPairs (mergeRoleDetails twoRoles)"
    by (simp_all only: fetchRoleDetails_example)
  from a b p show ?thesis by blast
qed

section \<open>The dispatcher (C1)\<close>

lemma handleCallTool_never_throws: "\<exists>r w'. handleCallTool cfgs env n a w = (Inr r, w')"
  by (auto simp: handleCallTool_def try_catch_def io_return_def split: prod.splits sum.splits)

lemma handleCallTool_unknown:
  "property_of cfgs n = Undefined \<Longrightarrow>
   handleCallTool cfgs env n a w = (Inr (textResult (''Unknown tool: '' @ n) True), w)"
  by (simp add: handleCallTool_def callTool_def try_catch_def io_return_def)

lemma handleCallTool_invalid:
  "property_of cfgs n = Own c \<Longrightarrow> schema c a = Inl e \<Longrightarrow>
   handleCallTool cfgs env n a w = (Inr (textResult (''Error: '' @ message e) True), w)"
  by (simp add: handleCallTool_def callTool_def try_catch_def io_return_def io_bind_def await_def)

lemma handleCallTool_caught:
  "callTool cfgs env n a w = (Inl e, w') \<Longrightarrow>
   handleCallTool cfgs env n a w = (Inr (textResult (''Error: '' @ message e) True), w')"
  by (simp add: handleCallTool_def try_catch_def io_return_def)

lemma handleCallTool_unregistered_isError:
  assumes "map_of cfgs n = None"
  shows "\<exists>r. handleCallTool cfgs env n a w = (Inr r, w) \<and> isError r"
proof (cases "n \<in> set Object_prototype")
  case True
  with assms have "property_of cfgs n = Inherited" by (simp add: property_of_def)
  then show ?thesis
    by (simp add: handleCallTool_def callTool_def try_catch_def io_return_def io_throw_def textResult_def)
next
  case False
  with assms have "property_of cfgs n = Undefined" by (simp add: property_of_def)
  then show ?thesis by (simp add: handleCallTool_unknown textResult_def)
qed

text \<open>
  C1. The dispatcher never throws (\<open>handleCallTool_never_throws\<close>), an input that fails the
  schema of a registered tool gives an error result with no request issued
  (\<open>handleCallTool_invalid\<close>), and every unregistered name gives an error result
  (\<open>handleCallTool_unregistered_isError\<close>). But the "Unknown tool" message is missed for
  the names of the properties that the registry object inherits: \<open>toolConfigs["constructor"]\<close>
  is a function, so the test \<open>!toolConfig\<close> does not fire, reading \<open>.validate\<close> of its
  absent \<open>schema\<close> throws, and the \<open>catch\<close> answers with the text of that \<open>TypeError\<close>.
\<close>

theorem inherited_property_is_not_unknown_tool:
  "handleCallTool (toolConfigs up rt env arrival other) env ''constructor'' args w =
     (Inr (textResult (''Error: Cannot read properties of undefined (reading '' @ [CHR 0x27] @
                       ''validate'' @ [CHR 0x27] @ '')'') True), w)"
  by (simp add: handleCallTool_def callTool_def property_of_def toolConfigs_def Object_prototype_def
      try_catch_def io_return_def io_throw_def)

section \<open>A failing role detail (C2)\<close>

lemma issueRoleDetails_eq:
  "issueRoleDetails up host au pk entries acc w =
     (acc @ map (promiseOf up host au pk) (stringEntries entries),
      w\<lparr>calls := calls w @ map (\<lambda>ru. roleDetailRequest host au pk (snd ru)) (stringEntries entries)\<rparr>)"
proof (induction entries arbitrary: acc w)
  case Nil
  show ?case by (simp add: stringEntries_def)
next
  case (Cons entry entries)
  obtain r v where entry: "entry = (r, v)" by (cases entry)
  show ?case
    by (cases v) (simp_all add: entry Cons.IH stringEntries_def axios_issue_def promiseOf_def)
qed

lemma in_stringEntries: "(r, u) \<in> set (stringEntries entries) \<longleftrightarrow> (r, JString u) \<in> set entries"
  by (induction entries) (auto simp: stringEntries_def split: jval.splits)

lemma fetchRoleDetails_rejected:
  assumes "(r, JString u) \<in> set entries"
      and "roleDetail up (roleDetailRequest host au pk u) = Inl e"
  shows "\<exists>e' w'. fetchRoleDetails up arrival host au pk entries w = (Inl e', w')"
proof -
  let ?ps = "map (promiseOf up host au pk) (stringEntries entries)"
  from assms(1) have "(r, u) \<in> set (stringEntries entries)" by (simp add: in_stringEntries)
  then have "promiseOf up host au pk (r, u) \<in> set ?ps" by simp
  with assms(2) have "Inl e \<in> set ?ps" by (simp add: promiseOf_def)
  then have "\<exists>e'. all_values ?ps = Inl e'" by (rule all_values_rejected)
  then obtain e' where "all_values ?ps = Inl e'" ..
  then have "\<And>w. \<exists>e''. Promise_all arrival ?ps w = (Inl e'', w)"
    using Promise_all_cases [of ?ps arrival] by (metis Inl_Inr_False)
  then have "\<And>w. \<exists>e'' w'. Promise_all arrival ?ps w = (Inl e'', w')" by blast
  then show ?thesis
    by (simp add: fetchRoleDetails_def issueRoleDetails_eq)
qed

lemma credentialField_Inr: "credentialField given dflt msg = Inr v \<Longrightarrow> v \<noteq> [] \<and> \<not> is_blank v"
  by (auto simp: credentialField_def Let_def split: if_splits)

lemma credentialField_again: "credentialField given dflt msg = Inr v \<Longrightarrow> credentialField (Some v) dflt' msg' = Inr v"
  by (auto simp: credentialField_def Let_def split: if_splits)

lemma JiraApiRequestSchema_Inr:
  assumes "JiraApiRequestSchema env args = Inr v"
  shows "truthy (tool_args.jiraHost v) \<and> truthy (tool_args.loginName v) \<and> truthy (tool_args.loginToken v) \<and>
         tool_args.projectKey v = tool_args.projectKey args \<and> tool_args.userName v = tool_args.userName args \<and>
         tool_args.boardId v = tool_args.boardId args \<and> tool_args.state v = tool_args.state args \<and>
         JiraApiRequestSchema env v = Inr v \<and>
         (\<forall>s. JiraApiRequestSchema env (v\<lparr>state := s\<rparr>) = Inr (v\<lparr>state := s\<rparr>))"
proof -
  from assms obtain h n t where
    h: "credentialField (tool_args.jiraHost args) (JIRA_HOST env)
          ''Jira host is required and must be a valid domain (e.g., \"company.atlassian.net\")'' = Inr h"
    and n: "credentialField (tool_args.loginName args) (JIRA_LOGIN_NAME env)
          ''Login name is required for Jira 8.1.0 authentication'' = Inr n"
    and t: "credentialField (tool_args.loginToken args) (JIRA_LOGIN_TOKEN env)
          ''Login token is required for Jira 8.1.0 authentication'' = Inr t"
    and v: "v = args\<lparr>jiraHost := Some h, loginName := Some n, loginToken := Some t\<rparr>"
    unfolding JiraApiRequestSchema_def by (auto split: sum.splits)
  from h n t have ne: "h \<noteq> []" "n \<noteq> []" "t \<noteq> []"
    by (auto dest: credentialField_Inr)
  have again: "JiraApiRequestSchema env (v\<lparr>state := s\<rparr>) = Inr (v\<lparr>state := s\<rparr>)" for s
    unfolding JiraApiRequestSchema_def v
    by (simp add: credentialField_again [OF h] credentialField_again [OF n] credentialField_again [OF t])
  from again [of "tool_args.state v"] have "JiraApiRequestSchema env v = Inr v" by simp
  with ne again show ?thesis by (simp add: v)
qed

lemma credentials_validated:
  assumes "truthy (tool_args.jiraHost v)" "truthy (tool_args.loginName v)" "truthy (tool_args.loginToken v)"
  shows "credentials env v w = (Inr (hostOf v, authOf v), w)"
  using assms
  by (simp add: credentials_def js_or_def validateCredentials_def io_bind_def await_def io_return_def
      hostOf_def authOf_def)

lemma validateAndGetCredentials_validated:
  assumes "truthy (tool_args.jiraHost v)" "truthy (tool_args.loginName v)" "truthy (tool_args.loginToken v)"
  shows "validateAndGetCredentials env v w = (Inr v, w)"
  using assms
  by (simp add: validateAndGetCredentials_def js_or_def validateCredentials_def io_bind_def await_def io_return_def)

lemma JiraProjectMembersRequestSchema_Inr:
  assumes "JiraProjectMembersRequestSchema env args = Inr v"
  shows "JiraApiRequestSchema env args = Inr v \<and> JiraProjectMembersRequestSchema env v = Inr v"
proof -
  from assms have a: "JiraApiRequestSchema env args = Inr v"
    and k: "requiredProjectKey (tool_args.projectKey args) = Inr ()"
    by (auto simp: JiraProjectMembersRequestSchema_def split: sum.splits)
  from JiraApiRequestSchema_Inr [OF a] k have "JiraProjectMembersRequestSchema env v = Inr v"
    by (simp add: JiraProjectMembersRequestSchema_def)
  with a show ?thesis by simp
qed

lemma JiraCheckUserIssuesRequestSchema_Inr:
  assumes "JiraCheckUserIssuesRequestSchema env args = Inr v"
  shows "JiraApiRequestSchema env args = Inr v \<and> JiraProjectMembersRequestSchema env args = Inr v \<and>
         JiraCheckUserIssuesRequestSchema env v = Inr v \<and>
         tool_args.userName args = Some (tpl (tool_args.userName v))"
proof -
  from assms have a: "JiraApiRequestSchema env args = Inr v"
    and k: "requiredProjectKey (tool_args.projectKey args) = Inr ()"
    and u: "requiredUserName (tool_args.userName args) = Inr ()"
    by (auto simp: JiraCheckUserIssuesRequestSchema_def split: sum.splits)
  note A = JiraApiRequestSchema_Inr [OF a]
  from A k u have "JiraCheckUserIssuesRequestSchema env v = Inr v"
    by (simp add: JiraCheckUserIssuesRequestSchema_def)
  moreover from a k have "JiraProjectMembersRequestSchema env args = Inr v"
    by (simp add: JiraProjectMembersRequestSchema_def)
  moreover from u A have "tool_args.userName args = Some (tpl (tool_args.userName v))"
    by (cases "tool_args.userName args") (simp_all add: requiredUserName_def)
  ultimately show ?thesis using a by simp
qed

lemma JiraSprintRequestSchema_Inr:
  assumes "JiraSprintRequestSchema env args = Inr v"
  shows "truthy (tool_args.jiraHost v) \<and> truthy (tool_args.loginName v) \<and> truthy (tool_args.loginToken v) \<and>
         tool_args.boardId v = tool_args.boardId args \<and> tool_args.projectKey v = tool_args.projectKey args \<and>
         truthy (tool_args.state v) \<and> JiraSprintRequestSchema env v = Inr v"
proof -
  define st where "st = (case tool_args.state args of None \<Rightarrow> ''active'' | Some s \<Rightarrow> s)"
  from assms have s: "st \<in> set [''active'', ''future'', ''closed'', ''all'']"
    and k: "\<not> (case tool_args.projectKey args of None \<Rightarrow> False | Some s \<Rightarrow> \<not> projectKey_format s)"
    and b: "validBoardId (tool_args.boardId args)"
    by (auto simp: JiraSprintRequestSchema_def Let_def st_def split: if_splits)
  with assms obtain a where a: "JiraApiRequestSchema env args = Inr a" and v: "v = a\<lparr>state := Some st\<rparr>"
    by (auto simp: JiraSprintRequestSchema_def Let_def st_def split: if_splits sum.splits)
  note A = JiraApiRequestSchema_Inr [OF a]
  from A have again: "JiraApiRequestSchema env (a\<lparr>state := Some st\<rparr>) = Inr (a\<lparr>state := Some st\<rparr>)"
    by blast
  from s have ne: "st \<noteq> []" by auto
  from A s k b again have "JiraSprintRequestSchema env (a\<lparr>state := Some st\<rparr>) = Inr (a\<lparr>state := Some st\<rparr>)"
    by (simp add: JiraSprintRequestSchema_def Let_def)
  with A ne show ?thesis unfolding v by simp
qed

lemma listProjectMembers_validated:
  assumes "JiraProjectMembersRequestSchema env args = Inr v"
  shows "listProjectMembers up env arrival args w = membersReport up arrival (hostOf v) (authOf v) (keyOf v) w"
proof -
  from assms have "JiraApiRequestSchema env args = Inr v"
    by (simp add: JiraProjectMembersRequestSchema_Inr)
  then have "credentials env v w = (Inr (hostOf v, authOf v), w)"
    by (simp add: JiraApiRequestSchema_Inr credentials_validated)
  with assms show ?thesis
    by (simp add: listProjectMembers_def io_bind_def await_def keyOf_def)
qed

lemma checkUserIssues_validated:
  assumes "JiraCheckUserIssuesRequestSchema env args = Inr v"
  shows "checkUserIssues up rt env arrival args w =
           userIssuesReport up rt arrival (hostOf v) (authOf v) (keyOf v) (userOf v) w"
proof -
  from assms have "JiraApiRequestSchema env args = Inr v"
    by (simp add: JiraCheckUserIssuesRequestSchema_Inr)
  then have "credentials env v w = (Inr (hostOf v, authOf v), w)"
    by (simp add: JiraApiRequestSchema_Inr credentials_validated)
  with assms show ?thesis
    by (simp add: checkUserIssues_def io_bind_def await_def keyOf_def userOf_def)
qed

lemma membersReport_rejected:
  assumes "projectRoles up (rolesRequest host au pk) = Inr entries"
      and "(r, JString u) \<in> set entries"
      and "roleDetail up (roleDetailRequest host au pk u) = Inl e"
  shows "\<exists>e' w'. membersReport up arrival host au pk w = (Inl e', w')"
proof -
  from assms(2) have ne: "entries \<noteq> []" by auto
  from fetchRoleDetails_rejected [OF assms(2,3)]
  obtain e' w' where
    "fetchRoleDetails up arrival host au pk entries (w\<lparr>calls := calls w @ [rolesRequest host au pk]\<rparr>) = (Inl e', w')"
    by blast
  with assms(1) ne show ?thesis
    by (simp add: membersReport_def io_bind_def axios_get_def axios_issue_def await_def)
qed

lemma userIssuesReport_rejected:
  assumes "projectRoles up (rolesRequest host au pk) = Inr entries"
      and "(r, JString u) \<in> set entries"
      and "roleDetail up (roleDetailRequest host au pk u) = Inl e"
  shows "\<exists>e' w'. userIssuesReport up rt arrival host au pk user w = (Inl e', w')"
proof -
  from assms(2) have ne: "entries \<noteq> []" by auto
  from fetchRoleDetails_rejected [OF assms(2,3)]
  obtain e' w' where
    "fetchRoleDetails up arrival host au pk entries (w\<lparr>calls := calls w @ [rolesRequest host au pk]\<rparr>) = (Inl e', w')"
    by blast
  with assms(1) ne show ?thesis
    by (simp add: userIssuesReport_def io_bind_def axios_get_def axios_issue_def await_def)
qed

text \<open>
  C2. When the arguments are valid and the role map is fetched, a single role-detail
  request that fails makes \<open>listProjectMembers\<close> throw, and \<open>checkUserIssues\<close> as well
  when the arguments also satisfy its schema: neither returns a result, so no member
  list built from the roles that did answer is ever produced.
\<close>

theorem role_detail_failure_fails_the_call:
  assumes "JiraProjectMembersRequestSchema env args = Inr v"
      and "projectRoles up (rolesRequest (hostOf v) (authOf v) (keyOf v)) = Inr entries"
      and "(roleName, JString roleUrl) \<in> set entries"
      and "roleDetail up (roleDetailRequest (hostOf v) (authOf v) (keyOf v) roleUrl) = Inl e"
  shows "(\<exists>e' w'. listProjectMembers up env arrival args w = (Inl e', w')) \<and>
         (JiraCheckUserIssuesRequestSchema env args = Inr v \<longrightarrow>
            (\<exists>e' w'. checkUserIssues up rt env arrival args w = (Inl e', w')))"
  using membersReport_rejected [OF assms(2,3,4)] userIssuesReport_rejected [OF assms(2,3,4)]
  by (simp add: listProjectMembers_validated [OF assms(1)] checkUserIssues_validated)

lemma exampleArgs_valid:
  "JiraCheckUserIssuesRequestSchema env0 exampleArgs = Inr exampleArgs"
  "JiraProjectMembersRequestSchema env0 exampleArgs = Inr exampleArgs"
  by (simp_all add: JiraCheckUserIssuesRequestSchema_def JiraProjectMembersRequestSchema_def
      JiraApiRequestSchema_def credentialField_def white_space_def exampleArgs_def
      requiredProjectKey_def projectKey_format_def requiredUserName_def js_length_def continuation_def)

lemma exampleArgs_reads:
  "hostOf exampleArgs = ''h.example''" "authOf exampleArgs = (''u'', ''t'')"
  "keyOf exampleArgs = ''ABC''" "userOf exampleArgs = ''jane doe''"
  by (simp_all add: hostOf_def authOf_def keyOf_def userOf_def exampleArgs_def)

lemma roleDetailRequest_example:
  "roleDetailRequest ''h.example'' au ''ABC'' ''https://h.example/rest/api/3/project/ABC/role/10001'' =
     \<lparr>url = ''https://h.example/rest/api/3/project/ABC/role/10001'', params = [], auth = au\<rparr>"
  "roleDetailRequest ''h.example'' au ''ABC'' ''https://h.example/rest/api/3/project/ABC/role/10002'' =
     \<lparr>url = ''https://h.example/rest/api/3/project/ABC/role/10002'', params = [], auth = au\<rparr>"
  by (simp_all add: roleDetailRequest_def split_pop_def normalizeJiraHost_def
      ascii_lower_def)

section \<open>Witnesses on the example project\<close>

theorem role_detail_failure_witness:
  "JiraProjectMembersRequestSchema env0 exampleArgs = Inr exampleArgs \<and>
   JiraCheckUserIssuesRequestSchema env0 exampleArgs = Inr exampleArgs \<and>
   projectRoles failingUpstream (rolesRequest ''h.example'' (''u'', ''t'') ''ABC'') = Inr exampleRoleMap \<and>
   roleDetail failingUpstream
     \<lparr>url = ''https://h.example/rest/api/3/project/ABC/role/10001'', params = [], auth = (''u'', ''t'')\<rparr> =
     Inl notFound \<and>
   (\<exists>e' w'. listProjectMembers failingUpstream env0 [0, 1] exampleArgs world0 = (Inl e', w')) \<and>
   (\<exists>e' w'. checkUserIssues failingUpstream rt0 env0 [0, 1] exampleArgs world0 = (Inl e', w'))"
proof -
  have r: "projectRoles failingUpstream (rolesRequest (hostOf exampleArgs) (authOf exampleArgs) (keyOf exampleArgs)) =
             Inr exampleRoleMap"
    by (simp add: failingUpstream_def exampleUpstream_def)
  have m: "(''Developers'', JString ''https://h.example/rest/api/3/project/ABC/role/10001'') \<in> set exampleRoleMap"
    by (simp add: exampleRoleMap_def)
  have d: "roleDetail failingUpstream
             (roleDetailRequest (hostOf exampleArgs) (authOf exampleArgs) (keyOf exampleArgs)
                ''https://h.example/rest/api/3/project/ABC/role/10001'') = Inl notFound"
    by (simp add: exampleArgs_reads roleDetailRequest_example failingUpstream_def)
  from role_detail_failure_fails_the_call [OF exampleArgs_valid(2) r m d, of "[0, 1]" world0 rt0]
  have "(\<exists>e' w'. listProjectMembers failingUpstream env0 [0, 1] exampleArgs world0 = (Inl e', w')) \<and>
        (\<exists>e' w'. checkUserIssues failingUpstream rt0 env0 [0, 1] exampleArgs world0 = (Inl e', w'))"
    by (simp only: exampleArgs_valid simp_thms)
  with r d show ?thesis
    by (simp only: exampleArgs_valid exampleArgs_reads roleDetailRequest_example simp_thms)
qed

section \<open>The user check (C6, C9, C10)\<close>

lemma checkActor_eq:
  "checkActor rt user r st a =
     (addActor r (fst st) a,
      snd st \<or> (\<exists>n \<in> set (actorNames \<lparr>actors = Some [a]\<rparr>). toLowerCase rt n = toLowerCase rt user))"
  by (cases st) (auto simp: checkActor_def addActor_def actorNames_def split: option.splits)

lemma foldl_checkActor:
  "foldl (checkActor rt user r) st as =
     (foldl (addActor r) (fst st) as,
      snd st \<or> (\<exists>n \<in> set (actorNames \<lparr>actors = Some as\<rparr>). toLowerCase rt n = toLowerCase rt user))"
proof (induction as arbitrary: st)
  case Nil
  show ?case by (simp add: actorNames_def)
next
  case (Cons a as)
  have "foldl (checkActor rt user r) st (a # as) = foldl (checkActor rt user r) (checkActor rt user r st a) as"
    by simp
  also have "\<dots> = (foldl (addActor r) (fst (checkActor rt user r st a)) as,
      snd (checkActor rt user r st a) \<or>
      (\<exists>n \<in> set (actorNames \<lparr>actors = Some as\<rparr>). toLowerCase rt n = toLowerCase rt user))"
    by (rule Cons.IH)
  also have "\<dots> = (foldl (addActor r) (fst st) (a # as),
      snd st \<or> (\<exists>n \<in> set (actorNames \<lparr>actors = Some (a # as)\<rparr>). toLowerCase rt n = toLowerCase rt user))"
    by (simp add: checkActor_eq actorNames_Cons [of a as] bex_Un disj_assoc)
  finally show ?case .
qed

lemma checkRole_eq:
  "checkRole rt user st rd =
     (mergeRole (fst st) rd,
      snd st \<or> (\<exists>n \<in> set (actorNames (snd rd)). toLowerCase rt n = toLowerCase rt user))"
proof (cases "actors (snd rd)")
  case None
  then show ?thesis by (simp add: checkRole_def mergeRole_def actorNames_def)
next
  case (Some as)
  then have "snd rd = \<lparr>actors = Some as\<rparr>" by (cases "snd rd") simp
  with Some show ?thesis
    by (cases "as = []") (simp_all add: checkRole_def mergeRole_def foldl_checkActor, simp add: actorNames_def)
qed

lemma foldl_checkRole:
  "foldl (checkRole rt user) st rds =
     (foldl mergeRole (fst st) rds,
      snd st \<or> (\<exists>n \<in> snd ` set (observations rds). toLowerCase rt n = toLowerCase rt user))"
proof (induction rds arbitrary: st)
  case Nil
  show ?case by (simp add: observations_def)
next
  case (Cons rd rds)
  have names: "snd ` set (map (Pair (fst rd)) (actorNames (snd rd))) = set (actorNames (snd rd))"
    by (auto simp: image_iff)
  have "foldl (checkRole rt user) st (rd # rds) = foldl (checkRole rt user) (checkRole rt user st rd) rds"
    by simp
  also have "\<dots> = (foldl mergeRole (fst (checkRole rt user st rd)) rds,
      snd (checkRole rt user st rd) \<or>
      (\<exists>n \<in> snd ` set (observations rds). toLowerCase rt n = toLowerCase rt user))"
    by (rule Cons.IH)
  also have "\<dots> = (foldl mergeRole (fst st) (rd # rds),
      snd st \<or> (\<exists>n \<in> snd ` set (observations (rd # rds)). toLowerCase rt n = toLowerCase rt user))"
    by (simp only: checkRole_eq fst_conv snd_conv foldl_Cons observations_Cons set_append image_Un
          bex_Un disj_assoc names)
  finally show ?case .
qed

lemma checkRoleDetails_eq:
  "checkRoleDetails rt user rds =
     (mergeRoleDetails rds, \<exists>k \<in> fst ` set (mergeRoleDetails rds). toLowerCase rt k = toLowerCase rt user)"
  by (simp add: checkRoleDetails_def foldl_checkRole mergeRoleDetails_def [symmetric]
      keys_mergeRoleDetails)

lemma userIssuesReport_not_error:
  assumes "userIssuesReport up rt arrival host au pk user w = (Inr r, w')"
  shows "\<not> isError r"
  using assms
  by (auto simp: userIssuesReport_def io_bind_def io_return_def Let_def textResult_def
      split: prod.splits sum.splits if_splits)

lemma checkUserIssues_not_error:
  assumes "checkUserIssues up rt env arrival args w = (Inr r, w')"
  shows "\<not> isError r"
  using assms
  by (auto simp: checkUserIssues_def io_bind_def split: prod.splits sum.splits
      dest: userIssuesReport_not_error)

lemma userIssuesReport_no_roles:
  assumes "projectRoles up (rolesRequest host au pk) = Inr []"
  shows "userIssuesReport up rt arrival host au pk user w =
           (Inr (textResult (checkHeading user pk @ noRolesReport) False),
            w\<lparr>calls := calls w @ [rolesRequest host au pk]\<rparr>)"
  using assms
  by (simp add: userIssuesReport_def io_bind_def io_return_def axios_get_def axios_issue_def await_def)

lemma userIssuesReport_not_member:
  assumes "projectRoles up (rolesRequest host au pk) = Inr entries" and "entries \<noteq> []"
      and "fetchRoleDetails up arrival host au pk entries (w\<lparr>calls := calls w @ [rolesRequest host au pk]\<rparr>) =
             (Inr roleDetails, w')"
      and "\<not> (\<exists>k \<in> fst ` set (mergeRoleDetails roleDetails). toLowerCase rt k = toLowerCase rt user)"
  shows "userIssuesReport up rt arrival host au pk user w =
           (Inr (textResult (checkHeading user pk @ step1Heading user pk @
                             notMemberReport user pk (mergeRoleDetails roleDetails)) False), w')"
  using assms
  by (simp add: userIssuesReport_def io_bind_def io_return_def axios_get_def axios_issue_def await_def
      checkRoleDetails_eq)

lemma userIssuesReport_member:
  assumes "projectRoles up (rolesRequest host au pk) = Inr entries" and "entries \<noteq> []"
      and "fetchRoleDetails up arrival host au pk entries (w\<lparr>calls := calls w @ [rolesRequest host au pk]\<rparr>) =
             (Inr roleDetails, w')"
      and "\<exists>k \<in> fst ` set (mergeRoleDetails roleDetails). toLowerCase rt k = toLowerCase rt user"
  shows "userIssuesReport up rt arrival host au pk user w =
           (case search up (issuesQuery host au pk user) of
              Inl e \<Rightarrow> Inl e
            | Inr found \<Rightarrow>
                Inr (textResult (checkHeading user pk @ step1Heading user pk @
                                 foundReport rt user pk (mergeRoleDetails roleDetails) @
                                 issuesTable rt (case found of None \<Rightarrow> [] | Some is \<Rightarrow> is)) False),
            w'\<lparr>calls := calls w' @ [issuesQuery host au pk user]\<rparr>)"
  using assms
  by (simp add: userIssuesReport_def io_bind_def io_return_def axios_get_def axios_issue_def await_def
      checkRoleDetails_eq split: sum.splits)

text \<open>
  C10. A call of \<open>checkUserIssues\<close> that returns at all returns \<open>isError = false\<close>. In
  particular, with valid arguments: when the role map is empty the call returns the
  "No project roles found" report, and when the role map is not empty, the role details
  are all fetched and no display name of the merged members is the requested name up to
  case, the call returns the "is NOT a member" report; both with \<open>isError = false\<close>.
\<close>

theorem negative_outcomes_are_not_errors:
  "(checkUserIssues up rt env arrival args w = (Inr r, w') \<longrightarrow> isError r = False) \<and>
   (JiraCheckUserIssuesRequestSchema env args = Inr v \<and>
    projectRoles up (rolesRequest (hostOf v) (authOf v) (keyOf v)) = Inr [] \<longrightarrow>
      checkUserIssues up rt env arrival args w =
        (Inr (textResult (checkHeading (userOf v) (keyOf v) @ noRolesReport) False),
         w\<lparr>calls := calls w @ [rolesRequest (hostOf v) (authOf v) (keyOf v)]\<rparr>)) \<and>
   (JiraCheckUserIssuesRequestSchema env args = Inr v \<and>
    projectRoles up (rolesRequest (hostOf v) (authOf v) (keyOf v)) = Inr entries \<and> entries \<noteq> [] \<and>
    fetchRoleDetails up arrival (hostOf v) (authOf v) (keyOf v) entries
      (w\<lparr>calls := calls w @ [rolesRequest (hostOf v) (authOf v) (keyOf v)]\<rparr>) = (Inr roleDetails, w1) \<and>
    \<not> (\<exists>k \<in> fst ` set (mergeRoleDetails roleDetails). toLowerCase rt k = toLowerCase rt (userOf v)) \<longrightarrow>
      checkUserIssues up rt env arrival args w =
        (Inr (textResult (checkHeading (userOf v) (keyOf v) @ step1Heading (userOf v) (keyOf v) @
                          notMemberReport (userOf v) (keyOf v) (mergeRoleDetails roleDetails)) False), w1))"
  using checkUserIssues_not_error [of up rt env arrival args w r w']
  by (auto simp: checkUserIssues_validated userIssuesReport_no_roles userIssuesReport_not_member)

lemma userRoles_found:
  assumes "k \<in> fst ` set m" and "toLowerCase rt k = toLowerCase rt user"
  shows "\<exists>k1 m1. find (\<lambda>n. toLowerCase rt n = toLowerCase rt user) (map fst m) = Some k1 \<and>
                 map_of m k1 = Some m1 \<and> userRoles rt user m = join '', '' (roles m1)"
proof -
  from assms have "\<exists>n \<in> set (map fst m). toLowerCase rt n = toLowerCase rt user" by auto
  then have "find (\<lambda>n. toLowerCase rt n = toLowerCase rt user) (map fst m) \<noteq> None"
    by (simp add: find_None_iff)
  then obtain k1 where f: "find (\<lambda>n. toLowerCase rt n = toLowerCase rt user) (map fst m) = Some k1"
    by blast
  then have "k1 \<in> set (map fst m)"
    by (auto simp: find_Some_iff)
  then have "map_of m k1 \<noteq> None"
    by (simp add: map_of_eq_None_iff)
  then obtain m1 where g: "map_of m k1 = Some m1" by blast
  have "tpl (js_or (Some k1) (Some [])) = k1"
    by (cases "k1 = []") (simp_all add: js_or_def)
  with f g have "userRoles rt user m = join '', '' (roles m1)"
    by (simp add: userRoles_def)
  with f g show ?thesis by blast
qed

text \<open>
  C6, as amended. The claim says that the issue query names the stored display name, in
  its original casing. The code builds the query from \<open>userName\<close>, the name the caller
  gave. What holds: with valid arguments, a non-empty role map and all role details
  fetched, if the display name of some merged record equals the requested name once both
  are put in lower case, the tool issues exactly one more request, the search whose \<open>jql\<close>
  asks for the project and for \<open>assignee = "userName"\<close> in the caller's own spelling,
  ordered by \<open>created DESC\<close>, with \<open>maxResults\<close> 50 and the fixed field list; and when the
  search answers, the result, with \<open>isError = false\<close>, says that the user was found and
  names the roles of the first record whose display name equals the requested name up to
  case, before it lists the issues.
\<close>

theorem found_user_query_uses_requested_name:
  assumes "JiraCheckUserIssuesRequestSchema env args = Inr v"
      and "projectRoles up (rolesRequest (hostOf v) (authOf v) (keyOf v)) = Inr entries"
      and "entries \<noteq> []"
      and "fetchRoleDetails up arrival (hostOf v) (authOf v) (keyOf v) entries
             (w\<lparr>calls := calls w @ [rolesRequest (hostOf v) (authOf v) (keyOf v)]\<rparr>) = (Inr roleDetails, w1)"
      and "(k, member) \<in> set (mergeRoleDetails roleDetails)"
      and "toLowerCase rt (displayName member) = toLowerCase rt (userOf v)"
      and "query =
             \<lparr>url = normalizeJiraHost (hostOf v) @ ''/rest/api/3/search'',
              params = [(''jql'', JString (''project = \"'' @ keyOf v @ ''\" AND assignee = \"'' @ userOf v @
                                           ''\" ORDER BY created DESC'')),
                        (''maxResults'', JNumber 50),
                        (''fields'', JString ''summary,status,assignee,created,issuetype,priority'')],
              auth = authOf v\<rparr>"
  shows "tool_args.userName args = Some (userOf v) \<and>
         (\<exists>k1 m1.
            find (\<lambda>n. toLowerCase rt n = toLowerCase rt (userOf v)) (map fst (mergeRoleDetails roleDetails)) =
              Some k1 \<and>
            map_of (mergeRoleDetails roleDetails) k1 = Some m1 \<and>
            checkUserIssues up rt env arrival args w =
              (case search up query of
                 Inl e \<Rightarrow> Inl e
               | Inr found \<Rightarrow>
                   Inr (textResult
                     (''# Checking User \"'' @ userOf v @ ''\" in Project \"'' @ keyOf v @ ''\"\<newline>\<newline>'' @
                      ''## Step 1: Checking if user \"'' @ userOf v @ ''\" is a member of project \"'' @
                        keyOf v @ ''\"\<newline>\<newline>'' @
                      [CHR 0xE2, CHR 0x9C, CHR 0x85] @ '' User \"'' @ userOf v @
                        ''\" found in project with the following roles: '' @ join '', '' (roles m1) @
                        ''\<newline>\<newline>'' @
                      ''## Step 2: Fetching issues assigned to \"'' @ userOf v @ ''\" in project \"'' @
                        keyOf v @ ''\"\<newline>\<newline>'' @
                      issuesTable rt (case found of None \<Rightarrow> [] | Some is \<Rightarrow> is))
                     False),
               w1\<lparr>calls := calls w1 @ [query]\<rparr>))"
proof -
  from assms(1) have u: "tool_args.userName args = Some (userOf v)"
    by (simp add: JiraCheckUserIssuesRequestSchema_Inr userOf_def)
  from assms(5) have dn: "displayName member = k"
    by (rule entry_mergeRoleDetails)
  from assms(5) have key: "k \<in> fst ` set (mergeRoleDetails roleDetails)" by force
  from assms(6) dn have eq: "toLowerCase rt k = toLowerCase rt (userOf v)" by simp
  with key have m: "\<exists>k \<in> fst ` set (mergeRoleDetails roleDetails). toLowerCase rt k = toLowerCase rt (userOf v)"
    by blast
  from userRoles_found [OF key eq]
  obtain k1 m1 where
    f: "find (\<lambda>n. toLowerCase rt n = toLowerCase rt (userOf v)) (map fst (mergeRoleDetails roleDetails)) = Some k1"
    and g: "map_of (mergeRoleDetails roleDetails) k1 = Some m1"
    and r: "userRoles rt (userOf v) (mergeRoleDetails roleDetails) = join '', '' (roles m1)"
    by blast
  have q: "issuesQuery (hostOf v) (authOf v) (keyOf v) (userOf v) = query"
    by (simp add: issuesQuery_def assms(7))
  have "checkUserIssues up rt env arrival args w =
              (case search up query of
                 Inl e \<Rightarrow> Inl e
               | Inr found \<Rightarrow>
                   Inr (textResult
                     (''# Checking User \"'' @ userOf v @ ''\" in Project \"'' @ keyOf v @ ''\"\<newline>\<newline>'' @
                      ''## Step 1: Checking if user \"'' @ userOf v @ ''\" is a member of project \"'' @
                        keyOf v @ ''\"\<newline>\<newline>'' @
                      [CHR 0xE2, CHR 0x9C, CHR 0x85] @ '' User \"'' @ userOf v @
                        ''\" found in project with the following roles: '' @ join '', '' (roles m1) @
                        ''\<newline>\<newline>'' @
                      ''## Step 2: Fetching issues assigned to \"'' @ userOf v @ ''\" in project \"'' @
                        keyOf v @ ''\"\<newline>\<newline>'' @
                      issuesTable rt (case found of None \<Rightarrow> [] | Some is \<Rightarrow> is))
                     False),
               w1\<lparr>calls := calls w1 @ [query]\<rparr>)"
    unfolding checkUserIssues_validated [OF assms(1)] userIssuesReport_member [OF assms(2,3,4) m] q
    by (simp add: checkHeading_def step1Heading_def foundReport_def check_mark_def r split: sum.splits)
  with u f g show ?thesis by blast
qed

lemma roles_example:
  "rolesRequest ''h.example'' (''u'', ''t'') ''ABC'' = rolesCall"
  by (simp add: rolesRequest_def rolesCall_def normalizeJiraHost_def ascii_lower_def)

lemma fetchRoleDetails_example_from:
  "fetchRoleDetails exampleUpstream arrival ''h.example'' (''u'', ''t'') ''ABC'' exampleRoleMap
     \<lparr>calls = cs, warnings = ws\<rparr> = (Inr twoRoles, \<lparr>calls = cs @ detailCalls, warnings = ws\<rparr>)"
proof -
  have "fetchRoleDetails exampleUpstream [] ''h.example'' (''u'', ''t'') ''ABC'' exampleRoleMap
     \<lparr>calls = cs, warnings = ws\<rparr> = (Inr twoRoles, \<lparr>calls = cs @ detailCalls, warnings = ws\<rparr>)"
    by (simp add: fetchRoleDetails_def exampleRoleMap_def axios_issue_def exampleUpstream_def
        roleDetailRequest_example Promise_all_def await_def twoRoles_def detailCalls_def)
  then show ?thesis by (rule fetchRoleDetails_fulfilled)
qed

lemma fetch_example_world0:
  "fetchRoleDetails exampleUpstream arrival ''h.example'' (''u'', ''t'') ''ABC'' exampleRoleMap
             (world0\<lparr>calls := calls world0 @ [rolesCall]\<rparr>) =
           (Inr twoRoles, \<lparr>calls = rolesCall # detailCalls, warnings = []\<rparr>)"
  using fetchRoleDetails_example_from [of arrival "[rolesCall]" "[]"] by (simp add: world0_def)

lemma fetch_bot_world0:
  "fetchRoleDetails botUpstream arrival ''h.example'' (''u'', ''t'') ''ABC'' exampleRoleMap
             (world0\<lparr>calls := calls world0 @ [rolesCall]\<rparr>) =
           (Inr botRoles, \<lparr>calls = rolesCall # detailCalls, warnings = []\<rparr>)"
proof -
  have "fetchRoleDetails botUpstream [] ''h.example'' (''u'', ''t'') ''ABC'' exampleRoleMap
             (world0\<lparr>calls := calls world0 @ [rolesCall]\<rparr>) =
           (Inr botRoles, \<lparr>calls = rolesCall # detailCalls, warnings = []\<rparr>)"
    by (simp add: fetchRoleDetails_def exampleRoleMap_def axios_issue_def botUpstream_def
        roleDetailRequest_example Promise_all_def await_def botRoles_def detailCalls_def world0_def)
  then show ?thesis by (rule fetchRoleDetails_fulfilled)
qed

lemma keys_twoRoles: "map fst (mergeRoleDetails twoRoles) = [''Jane Doe'', ''Amir K'', ''developers'']"
  by (simp add: mergeRoleDetails_twoRoles)

lemma lower_jane: "toLowerCase rt0 ''Jane Doe'' = toLowerCase rt0 ''jane doe''"
  by (simp add: rt0_def ascii_lower_def)

lemma mergeRoleDetails_botRoles:
  "mergeRoleDetails botRoles =
     [(''Jane Doe'', janeRecord), (''Automation for Jira'', botRecord), (''developers'', devsRecord)]"
  by (simp add: mergeRoleDetails_def botRoles_def mergeRole_def addActor_def Map_has_def js_or_def
      jane_def bot_def devs_def janeRecord_def botRecord_def devsRecord_def)

lemma strangerArgs_valid: "JiraCheckUserIssuesRequestSchema env0 strangerArgs = Inr strangerArgs"
  by (simp add: JiraCheckUserIssuesRequestSchema_def
      JiraApiRequestSchema_def credentialField_def white_space_def exampleArgs_def strangerArgs_def
      requiredProjectKey_def projectKey_format_def requiredUserName_def js_length_def continuation_def)

lemma strangerArgs_reads:
  "hostOf strangerArgs = ''h.example''" "authOf strangerArgs = (''u'', ''t'')"
  "keyOf strangerArgs = ''ABC''" "userOf strangerArgs = ''Nobody''"
  by (simp_all add: hostOf_def authOf_def keyOf_def userOf_def exampleArgs_def strangerArgs_def)

lemma host_example: "normalizeJiraHost ''h.example'' = ''https://h.example''"
  by (simp add: normalizeJiraHost_def ascii_lower_def)

lemma issuesQuery_example: "issuesQuery ''h.example'' (''u'', ''t'') ''ABC'' ''jane doe'' = searchCall"
  by (simp add: issuesQuery_def searchCall_def host_example)

lemma checkUserIssues_jane:
  "checkUserIssues exampleUpstream rt0 env0 arrival exampleArgs world0 =
     (Inr (textResult exampleFoundReport False),
      \<lparr>calls = rolesCall # detailCalls @ [searchCall], warnings = []\<rparr>)"
proof -
  have r: "projectRoles exampleUpstream rolesCall = Inr exampleRoleMap"
    by (simp add: exampleUpstream_def)
  have ne: "exampleRoleMap \<noteq> []" by (simp add: exampleRoleMap_def)
  have m: "\<exists>k \<in> fst ` set (mergeRoleDetails twoRoles). toLowerCase rt0 k = toLowerCase rt0 ''jane doe''"
    using lower_jane by (simp add: mergeRoleDetails_twoRoles)
  have s: "search exampleUpstream x = Inr (Some [])" for x
    by (simp add: exampleUpstream_def)
  have u: "userRoles rt0 ''jane doe'' (mergeRoleDetails twoRoles) = ''Administrators, Developers''"
    by (simp add: userRoles_def mergeRoleDetails_twoRoles rt0_def ascii_lower_def js_or_def janeRecord_def)
  have "userIssuesReport exampleUpstream rt0 arrival ''h.example'' (''u'', ''t'') ''ABC'' ''jane doe'' world0 =
     (Inr (textResult exampleFoundReport False),
      \<lparr>calls = rolesCall # detailCalls @ [searchCall], warnings = []\<rparr>)"
    using userIssuesReport_member [of exampleUpstream "''h.example''" "(''u'', ''t'')" "''ABC''" exampleRoleMap
        arrival world0 twoRoles _ rt0 "''jane doe''", unfolded roles_example, OF r ne fetch_example_world0 m]
    by (simp add: s issuesTable_def issuesQuery_example checkHeading_def step1Heading_def foundReport_def
        check_mark_def u exampleFoundReport_def)
  then show ?thesis
    by (simp add: checkUserIssues_validated [OF exampleArgs_valid(1)] exampleArgs_reads)
qed

text \<open>
  C6 as stated fails: the project has the member \<open>Jane Doe\<close>, the caller asks for
  \<open>jane doe\<close>, and the query sent is \<open>assignee = "jane doe"\<close>.
\<close>

theorem stored_casing_counterexample:
  "checkUserIssues exampleUpstream rt0 env0 [0, 1] exampleArgs world0 =
     (Inr (textResult exampleFoundReport False),
      \<lparr>calls = rolesCall # detailCalls @
         [\<lparr>url = ''https://h.example/rest/api/3/search'',
           params = [(''jql'', JString ''project = \"ABC\" AND assignee = \"jane doe\" ORDER BY created DESC''),
                     (''maxResults'', JNumber 50),
                     (''fields'', JString ''summary,status,assignee,created,issuetype,priority'')],
           auth = (''u'', ''t'')\<rparr>],
       warnings = []\<rparr>) \<and>
   map fst (mergeRoleDetails twoRoles) = [''Jane Doe'', ''Amir K'', ''developers'']"
  by (simp add: checkUserIssues_jane keys_twoRoles searchCall_def)

theorem found_user_query_witness:
  "JiraCheckUserIssuesRequestSchema env0 exampleArgs = Inr exampleArgs \<and>
   (''Jane Doe'', janeRecord) \<in> set (mergeRoleDetails twoRoles) \<and>
   toLowerCase rt0 (displayName janeRecord) = toLowerCase rt0 (userOf exampleArgs) \<and>
   tool_args.userName exampleArgs = Some ''jane doe'' \<and>
   checkUserIssues exampleUpstream rt0 env0 [1, 0] exampleArgs world0 =
     (Inr (textResult exampleFoundReport False),
      \<lparr>calls = rolesCall # detailCalls @ [searchCall], warnings = []\<rparr>)"
proof -
  have r: "projectRoles exampleUpstream
             (rolesRequest (hostOf exampleArgs) (authOf exampleArgs) (keyOf exampleArgs)) = Inr exampleRoleMap"
    by (simp add: exampleUpstream_def)
  have ne: "exampleRoleMap \<noteq> []" by (simp add: exampleRoleMap_def)
  have f: "fetchRoleDetails exampleUpstream [1, 0] (hostOf exampleArgs) (authOf exampleArgs) (keyOf exampleArgs)
             exampleRoleMap
             (world0\<lparr>calls := calls world0 @
                [rolesRequest (hostOf exampleArgs) (authOf exampleArgs) (keyOf exampleArgs)]\<rparr>) =
           (Inr twoRoles, \<lparr>calls = rolesCall # detailCalls, warnings = []\<rparr>)"
    by (simp only: exampleArgs_reads roles_example fetch_example_world0)
  have m: "(''Jane Doe'', janeRecord) \<in> set (mergeRoleDetails twoRoles)"
    by (simp add: mergeRoleDetails_twoRoles)
  have l: "toLowerCase rt0 (displayName janeRecord) = toLowerCase rt0 (userOf exampleArgs)"
    by (simp add: exampleArgs_reads janeRecord_def rt0_def ascii_lower_def)
  have q: "searchCall =
             \<lparr>url = normalizeJiraHost (hostOf exampleArgs) @ ''/rest/api/3/search'',
              params = [(''jql'', JString (''project = \"'' @ keyOf exampleArgs @ ''\" AND assignee = \"'' @
                                           userOf exampleArgs @ ''\" ORDER BY created DESC'')),
                        (''maxResults'', JNumber 50),
                        (''fields'', JString ''summary,status,assignee,created,issuetype,priority'')],
              auth = authOf exampleArgs\<rparr>"
    by (simp add: searchCall_def exampleArgs_reads host_example)
  have s: "search exampleUpstream x = Inr (Some [])" for x
    by (simp add: exampleUpstream_def)
  have u: "tool_args.userName exampleArgs = Some ''jane doe''"
    by (simp add: exampleArgs_def)
  from found_user_query_uses_requested_name [OF exampleArgs_valid(1) r ne f m l q]
  have "checkUserIssues exampleUpstream rt0 env0 [1, 0] exampleArgs world0 =
     (Inr (textResult exampleFoundReport False),
      \<lparr>calls = rolesCall # detailCalls @ [searchCall], warnings = []\<rparr>)"
    by (simp add: exampleArgs_reads s issuesTable_def lower_jane mergeRoleDetails_twoRoles janeRecord_def
        exampleFoundReport_def)
  with m l u show ?thesis by (simp only: exampleArgs_valid simp_thms)
qed

lemma availableMembers_eq:
  "availableMembers m =
     concat (map (\<lambda>member. ''| '' @ displayName member @ '' | '' @ join '', '' (roles member) @ '' |\<newline>'')
       (filter (\<lambda>member. \<not> (MemberRecord.type member = ''atlassian-user-role-actor'' \<and>
                              (str_includes (displayName member) ''for Jira'' \<or>
                               str_includes (displayName member) ''Atlassian'')))
               (map snd m)))"
  by (induction m) (auto simp: availableMembers_def listed_def memberRow_def)

text \<open>
  C9, as amended. The claim hides a record whose type marks it and whose display name
  does \<^emph>\<open>not\<close> contain one of the two substrings. The code hides a record exactly when its
  type is \<open>atlassian-user-role-actor\<close> and its display name \<^emph>\<open>does\<close> contain \<open>for Jira\<close> or
  \<open>Atlassian\<close>. What holds: with valid arguments, a non-empty role map and all role
  details fetched, when no merged record has the requested name up to case, the tool
  returns, with \<open>isError = false\<close>, the "is NOT a member" report, which ends with one row
  (display name and roles) for each merged record that is not hidden, in the order of the
  merge.
\<close>

theorem listing_hides_marked_actors:
  assumes "JiraCheckUserIssuesRequestSchema env args = Inr v"
      and "projectRoles up (rolesRequest (hostOf v) (authOf v) (keyOf v)) = Inr entries"
      and "entries \<noteq> []"
      and "fetchRoleDetails up arrival (hostOf v) (authOf v) (keyOf v) entries
             (w\<lparr>calls := calls w @ [rolesRequest (hostOf v) (authOf v) (keyOf v)]\<rparr>) = (Inr roleDetails, w1)"
      and "\<forall>member \<in> snd ` set (mergeRoleDetails roleDetails).
             toLowerCase rt (displayName member) \<noteq> toLowerCase rt (userOf v)"
  shows "checkUserIssues up rt env arrival args w =
           (Inr (textResult
              (''# Checking User \"'' @ userOf v @ ''\" in Project \"'' @ keyOf v @ ''\"\<newline>\<newline>'' @
               ''## Step 1: Checking if user \"'' @ userOf v @ ''\" is a member of project \"'' @
                 keyOf v @ ''\"\<newline>\<newline>'' @
               [CHR 0xE2, CHR 0x9D, CHR 0x8C] @ '' User \"'' @ userOf v @ ''\" is NOT a member of project \"'' @
                 keyOf v @ ''\". No issues will be fetched.\<newline>\<newline>'' @
               ''### Available Project Members:\<newline>\<newline>'' @
               ''| Name | Roles |\<newline>'' @
               ''|------|-------|\<newline>'' @
               concat (map (\<lambda>member. ''| '' @ displayName member @ '' | '' @ join '', '' (roles member) @
                                       '' |\<newline>'')
                 (filter (\<lambda>member. \<not> (MemberRecord.type member = ''atlassian-user-role-actor'' \<and>
                                        (str_includes (displayName member) ''for Jira'' \<or>
                                         str_includes (displayName member) ''Atlassian'')))
                         (map snd (mergeRoleDetails roleDetails)))))
              False),
            w1)"
proof -
  have "toLowerCase rt k \<noteq> toLowerCase rt (userOf v)" if "k \<in> fst ` set (mergeRoleDetails roleDetails)" for k
  proof -
    from that obtain member where m: "(k, member) \<in> set (mergeRoleDetails roleDetails)" by auto
    then have "displayName member = k" by (rule entry_mergeRoleDetails)
    moreover from m have "member \<in> snd ` set (mergeRoleDetails roleDetails)" by force
    ultimately show ?thesis using assms(5) by auto
  qed
  then have n: "\<not> (\<exists>k \<in> fst ` set (mergeRoleDetails roleDetails). toLowerCase rt k = toLowerCase rt (userOf v))"
    by blast
  show ?thesis
    unfolding checkUserIssues_validated [OF assms(1)] userIssuesReport_not_member [OF assms(2,3,4) n]
    by (simp add: checkHeading_def step1Heading_def notMemberReport_def cross_mark_def availableMembers_eq)
qed

lemma checkUserIssues_stranger:
  "checkUserIssues botUpstream rt0 env0 arrival strangerArgs world0 =
     (Inr (textResult strangerReport False), \<lparr>calls = rolesCall # detailCalls, warnings = []\<rparr>)"
proof -
  have r: "projectRoles botUpstream rolesCall = Inr exampleRoleMap"
    by (simp add: botUpstream_def exampleUpstream_def)
  have ne: "exampleRoleMap \<noteq> []" by (simp add: exampleRoleMap_def)
  have x: "\<not> (\<exists>k \<in> fst ` set (mergeRoleDetails botRoles). toLowerCase rt0 k = toLowerCase rt0 ''Nobody'')"
    by (simp add: mergeRoleDetails_botRoles rt0_def ascii_lower_def)
  have "userIssuesReport botUpstream rt0 arrival ''h.example'' (''u'', ''t'') ''ABC'' ''Nobody'' world0 =
     (Inr (textResult strangerReport False), \<lparr>calls = rolesCall # detailCalls, warnings = []\<rparr>)"
    using userIssuesReport_not_member [of botUpstream "''h.example''" "(''u'', ''t'')" "''ABC''" exampleRoleMap
        arrival world0 botRoles _ rt0 "''Nobody''", unfolded roles_example, OF r ne fetch_bot_world0 x]
    by (simp add: checkHeading_def step1Heading_def notMemberReport_def cross_mark_def availableMembers_def
        listed_def memberRow_def mergeRoleDetails_botRoles janeRecord_def botRecord_def devsRecord_def
        strangerReport_def)
  then show ?thesis
    by (simp add: checkUserIssues_validated [OF strangerArgs_valid] strangerArgs_reads)
qed

text \<open>
  C9 as stated fails: Jane Doe has the marked type and a name without either substring,
  and is listed; the automation account has the marked type and a name with \<open>for Jira\<close>,
  and is hidden. The report for a stranger lists Jane Doe and the group, not the account.
\<close>

theorem hidden_actor_counterexample:
  "checkUserIssues botUpstream rt0 env0 [0, 1] strangerArgs world0 =
     (Inr (textResult strangerReport False), \<lparr>calls = rolesCall # detailCalls, warnings = []\<rparr>) \<and>
   mergeRoleDetails botRoles =
     [(''Jane Doe'', janeRecord), (''Automation for Jira'', botRecord), (''developers'', devsRecord)] \<and>
   MemberRecord.type janeRecord = ''atlassian-user-role-actor'' \<and>
   \<not> str_includes (displayName janeRecord) ''for Jira'' \<and>
   \<not> str_includes (displayName janeRecord) ''Atlassian'' \<and>
   MemberRecord.type botRecord = ''atlassian-user-role-actor'' \<and>
   str_includes (displayName botRecord) ''for Jira'' \<and>
   \<not> str_includes strangerReport ''Automation for Jira''"
proof -
  have "\<not> str_includes strangerReport ''Automation for Jira''"
    by (simp add: strangerReport_def)
  then show ?thesis
    by (simp add: checkUserIssues_stranger mergeRoleDetails_botRoles janeRecord_def botRecord_def)
qed

theorem listing_hides_marked_actors_witness:
  "JiraCheckUserIssuesRequestSchema env0 strangerArgs = Inr strangerArgs \<and>
   mergeRoleDetails botRoles =
     [(''Jane Doe'', janeRecord), (''Automation for Jira'', botRecord), (''developers'', devsRecord)] \<and>
   toLowerCase rt0 ''Jane Doe'' \<noteq> toLowerCase rt0 ''Nobody'' \<and>
   toLowerCase rt0 ''Automation for Jira'' \<noteq> toLowerCase rt0 ''Nobody'' \<and>
   toLowerCase rt0 ''developers'' \<noteq> toLowerCase rt0 ''Nobody'' \<and>
   checkUserIssues botUpstream rt0 env0 [1, 0] strangerArgs world0 =
     (Inr (textResult strangerReport False), \<lparr>calls = rolesCall # detailCalls, warnings = []\<rparr>)"
proof -
  have r: "projectRoles botUpstream
             (rolesRequest (hostOf strangerArgs) (authOf strangerArgs) (keyOf strangerArgs)) = Inr exampleRoleMap"
    by (simp add: botUpstream_def exampleUpstream_def)
  have ne: "exampleRoleMap \<noteq> []" by (simp add: exampleRoleMap_def)
  have f: "fetchRoleDetails botUpstream [1, 0] (hostOf strangerArgs) (authOf strangerArgs) (keyOf strangerArgs)
             exampleRoleMap
             (world0\<lparr>calls := calls world0 @
                [rolesRequest (hostOf strangerArgs) (authOf strangerArgs) (keyOf strangerArgs)]\<rparr>) =
           (Inr botRoles, \<lparr>calls = rolesCall # detailCalls, warnings = []\<rparr>)"
    by (simp only: strangerArgs_reads roles_example fetch_bot_world0)
  have l: "toLowerCase rt0 ''Jane Doe'' \<noteq> toLowerCase rt0 ''Nobody''"
    "toLowerCase rt0 ''Automation for Jira'' \<noteq> toLowerCase rt0 ''Nobody''"
    "toLowerCase rt0 ''developers'' \<noteq> toLowerCase rt0 ''Nobody''"
    by (simp_all add: rt0_def ascii_lower_def)
  then have x: "\<forall>member \<in> snd ` set (mergeRoleDetails botRoles).
             toLowerCase rt0 (displayName member) \<noteq> toLowerCase rt0 (userOf strangerArgs)"
    by (simp add: mergeRoleDetails_botRoles strangerArgs_reads janeRecord_def botRecord_def devsRecord_def)
  from listing_hides_marked_actors [OF strangerArgs_valid r ne f x]
  have "checkUserIssues botUpstream rt0 env0 [1, 0] strangerArgs world0 =
     (Inr (textResult strangerReport False), \<lparr>calls = rolesCall # detailCalls, warnings = []\<rparr>)"
    by (simp add: strangerArgs_reads mergeRoleDetails_botRoles janeRecord_def botRecord_def devsRecord_def
        strangerReport_def)
  with l show ?thesis
    by (simp only: strangerArgs_valid mergeRoleDetails_botRoles simp_thms)
qed

theorem negative_outcomes_witness:
  "checkUserIssues noRolesUpstream rt0 env0 [] exampleArgs world0 =
     (Inr (textResult (checkHeading ''jane doe'' ''ABC'' @ noRolesReport) False),
      \<lparr>calls = [rolesCall], warnings = []\<rparr>) \<and>
   checkUserIssues exampleUpstream rt0 env0 [0, 1] strangerArgs world0 =
     (Inr (textResult (checkHeading ''Nobody'' ''ABC'' @ step1Heading ''Nobody'' ''ABC'' @
                       notMemberReport ''Nobody'' ''ABC'' (mergeRoleDetails twoRoles)) False),
      \<lparr>calls = rolesCall # detailCalls, warnings = []\<rparr>) \<and>
   isError (textResult (checkHeading ''Nobody'' ''ABC'' @ step1Heading ''Nobody'' ''ABC'' @
                       notMemberReport ''Nobody'' ''ABC'' (mergeRoleDetails twoRoles)) False) = False"
proof -
  have n: "projectRoles noRolesUpstream
             (rolesRequest (hostOf exampleArgs) (authOf exampleArgs) (keyOf exampleArgs)) = Inr []"
    by (simp add: noRolesUpstream_def)
  from negative_outcomes_are_not_errors
         [of noRolesUpstream rt0 env0 "[]" exampleArgs world0 _ _ exampleArgs]
       exampleArgs_valid(1) n
  have a: "checkUserIssues noRolesUpstream rt0 env0 [] exampleArgs world0 =
     (Inr (textResult (checkHeading ''jane doe'' ''ABC'' @ noRolesReport) False),
      \<lparr>calls = [rolesCall], warnings = []\<rparr>)"
    by (simp add: exampleArgs_reads roles_example world0_def)
  have r: "projectRoles exampleUpstream
             (rolesRequest (hostOf strangerArgs) (authOf strangerArgs) (keyOf strangerArgs)) = Inr exampleRoleMap"
    by (simp add: exampleUpstream_def)
  have ne: "exampleRoleMap \<noteq> []" by (simp add: exampleRoleMap_def)
  have f: "fetchRoleDetails exampleUpstream [0, 1] (hostOf strangerArgs) (authOf strangerArgs) (keyOf strangerArgs)
             exampleRoleMap
             (world0\<lparr>calls := calls world0 @
                [rolesRequest (hostOf strangerArgs) (authOf strangerArgs) (keyOf strangerArgs)]\<rparr>) =
           (Inr twoRoles, \<lparr>calls = rolesCall # detailCalls, warnings = []\<rparr>)"
    by (simp only: strangerArgs_reads roles_example fetch_example_world0)
  have x: "\<not> (\<exists>k \<in> fst ` set (mergeRoleDetails twoRoles). toLowerCase rt0 k = toLowerCase rt0 (userOf strangerArgs))"
    by (simp add: mergeRoleDetails_twoRoles strangerArgs_reads rt0_def ascii_lower_def)
  from negative_outcomes_are_not_errors
         [of exampleUpstream rt0 env0 "[0, 1]" strangerArgs world0 _ _ strangerArgs exampleRoleMap twoRoles
             "\<lparr>calls = rolesCall # detailCalls, warnings = []\<rparr>"]
       strangerArgs_valid r ne f x
  have b: "checkUserIssues exampleUpstream rt0 env0 [0, 1] strangerArgs world0 =
     (Inr (textResult (checkHeading ''Nobody'' ''ABC'' @ step1Heading ''Nobody'' ''ABC'' @
                       notMemberReport ''Nobody'' ''ABC'' (mergeRoleDetails twoRoles)) False),
      \<lparr>calls = rolesCall # detailCalls, warnings = []\<rparr>)"
    by (simp add: strangerArgs_reads)
  from negative_outcomes_are_not_errors
         [of exampleUpstream rt0 env0 "[0, 1]" strangerArgs world0] b
  have c: "isError (textResult (checkHeading ''Nobody'' ''ABC'' @ step1Heading ''Nobody'' ''ABC'' @
                       notMemberReport ''Nobody'' ''ABC'' (mergeRoleDetails twoRoles)) False) = False"
    by blast
  from a b c show ?thesis by blast
qed

section \<open>The sort of the sprints\<close>




lemma mset_insort_by: "mset (insort_by cmp x ys) = add_mset x (mset ys)"
  by (induction ys) auto

lemma mset_Array_sort: "mset (Array_sort cmp xs) = mset xs"
  by (induction xs) (simp_all add: Array_sort_def mset_insort_by)

lemma set_Array_sort: "set (Array_sort cmp xs) = set xs"
  using mset_Array_sort [of cmp xs] by (metis set_mset_mset)





section \<open>The sprint listing (C3, C7, C8)\<close>

lemma sprintIssuesText_eq:
  "sprintIssuesText up host au s w =
     (Inr (issuesTextOf up host au s), w\<lparr>calls := calls w @ [sprintIssuesRequest host au (Sprint.id (sprint s))]\<rparr>)"
  by (simp add: sprintIssuesText_def issuesTextOf_def try_catch_def io_bind_def io_return_def
      axios_get_def axios_issue_def await_def split: sum.splits option.splits)

lemma sprintDetails_eq:
  "sprintDetails up rt host au project ss acc w =
     (Inr (acc @ concat (map (sprintSection up rt host au project) ss)),
      w\<lparr>calls := calls w @ map (\<lambda>s. sprintIssuesRequest host au (Sprint.id (sprint s))) ss\<rparr>)"
proof (induction ss arbitrary: acc w)
  case Nil
  show ?case by (simp add: io_return_def)
next
  case (Cons s ss)
  show ?case
    by (simp add: io_bind_def sprintIssuesText_eq Cons.IH sprintSection_def)
qed

lemma fetchBoardSprints_eq:
  "fetchBoardSprints up host au st b acc w =
     (Inr (acc @ boardSprintsOf up host au st b),
      w\<lparr>calls := calls w @ [sprintsRequest host au st b],
        warnings := warnings w @ (if boardFailed up host au st b
                                  then [''Could not fetch sprints for board '' @ b] else [])\<rparr>)"
  by (simp add: fetchBoardSprints_def boardSprintsOf_def boardFailed_def try_catch_def io_bind_def
      io_return_def axios_get_def axios_issue_def await_def console_warn_def
      split: sum.splits option.splits)

lemma fetchSprints_eq:
  "fetchSprints up host au st bs acc w =
     (Inr (acc @ concat (map (boardSprintsOf up host au st) bs)),
      w\<lparr>calls := calls w @ map (sprintsRequest host au st) bs,
        warnings := warnings w @ map (\<lambda>b. ''Could not fetch sprints for board '' @ b)
                                     (filter (boardFailed up host au st) bs)\<rparr>)"
proof (induction bs arbitrary: acc w)
  case Nil
  show ?case by (simp add: io_return_def)
next
  case (Cons b bs)
  show ?case
    by (simp add: io_bind_def fetchBoardSprints_eq Cons.IH)
qed

lemma reportSprints_eq:
  "reportSprints up rt host au board project st bs w =
     (let allSprints = sprintsFetched up host au st bs;
          sorted = Array_sort (compareSprints rt) allSprints;
          w1 = w\<lparr>calls := calls w @ map (sprintsRequest host au st) bs,
                 warnings := warnings w @ skipWarnings up host au st bs\<rparr>
      in if allSprints = [] then (Inr (textResult (noSprintsFound st board project) False), w1)
         else (Inr (textResult (sprintsTable rt st sorted @
                                concat (map (sprintSection up rt host au project) sorted)) False),
               w1\<lparr>calls := calls w1 @ map (\<lambda>s. sprintIssuesRequest host au (Sprint.id (sprint s))) sorted\<rparr>))"
  by (simp add: reportSprints_def io_bind_def io_return_def fetchSprints_eq sprintDetails_eq Let_def
      sprintsFetched_def skipWarnings_def)

lemma listSprints_validated:
  assumes "JiraSprintRequestSchema env args = Inr v"
  shows "listSprints up rt env args w =
     (case resolveBoards up (hostOf v) (authOf v) (tool_args.boardId v) (tool_args.projectKey v) w of
        (Inl e, w1) \<Rightarrow> (Inr (sprintsError e), w1)
      | (Inr (Inl noBoards), w1) \<Rightarrow> (Inr noBoards, w1)
      | (Inr (Inr boardIds), w1) \<Rightarrow>
          reportSprints up rt (hostOf v) (authOf v) (tool_args.boardId v) (tool_args.projectKey v)
            (stateOf v) boardIds w1)"
proof -
  note V = JiraSprintRequestSchema_Inr [OF assms]
  then have c: "credentials env v w = (Inr (hostOf v, authOf v), w)"
    by (simp add: credentials_validated)
  have n: "\<exists>r w2. reportSprints up rt host au board project st bs w1 = (Inr r, w2)" for host au board project st bs w1
    by (simp add: reportSprints_eq Let_def)
  obtain x w1 where r: "resolveBoards up (hostOf v) (authOf v) (tool_args.boardId v) (tool_args.projectKey v) w = (x, w1)"
    by (cases "resolveBoards up (hostOf v) (authOf v) (tool_args.boardId v) (tool_args.projectKey v) w")
  show ?thesis
  proof (cases x)
    case (Inl e)
    with r show ?thesis
      by (simp add: listSprints_def assms io_bind_def await_def c try_catch_def io_return_def Let_def)
  next
    case (Inr y)
    show ?thesis
    proof (cases y)
      case (Inl noBoards)
      with r Inr show ?thesis
        by (simp add: listSprints_def assms io_bind_def await_def c try_catch_def io_return_def Let_def)
    next
      case inr: (Inr boardIds)
      from n [of "hostOf v" "authOf v" "tool_args.boardId v" "tool_args.projectKey v" "stateOf v" boardIds w1]
      obtain res w2 where "reportSprints up rt (hostOf v) (authOf v) (tool_args.boardId v)
          (tool_args.projectKey v) (stateOf v) boardIds w1 = (Inr res, w2)"
        by blast
      with r Inr inr show ?thesis
        by (simp add: listSprints_def assms io_bind_def await_def c try_catch_def io_return_def Let_def
            stateOf_def)
    qed
  qed
qed

lemma resolveBoards_board:
  "truthy board \<Longrightarrow> resolveBoards up host au board project w = (Inr (Inr [tpl board]), w)"
  by (simp add: resolveBoards_def io_return_def)

lemma resolveBoards_project:
  assumes "\<not> truthy board" "truthy project"
  shows "resolveBoards up host au board project w =
     (case boards up (boardsRequest host au (Some (tpl project))) of
        Inl e \<Rightarrow> Inl e
      | Inr None \<Rightarrow> Inr (Inl (noBoardsForProject (tpl project)))
      | Inr (Some vs) \<Rightarrow> if vs = [] then Inr (Inl (noBoardsForProject (tpl project)))
                         else Inr (Inr (map Board.id vs)),
      w\<lparr>calls := calls w @ [boardsRequest host au (Some (tpl project))]\<rparr>)"
  using assms
  by (simp add: resolveBoards_def io_return_def io_bind_def axios_get_def axios_issue_def await_def
      noBoardsForProject_def split: sum.splits option.splits)

lemma resolveBoards_all:
  assumes "\<not> truthy board" "\<not> truthy project"
  shows "resolveBoards up host au board project w =
     (case boards up (boardsRequest host au None) of
        Inl e \<Rightarrow> Inl e
      | Inr None \<Rightarrow> Inr (Inl noBoardsAtAll)
      | Inr (Some vs) \<Rightarrow> if vs = [] then Inr (Inl noBoardsAtAll)
                         else Inr (Inr (map Board.id (take 5 vs))),
      w\<lparr>calls := calls w @ [boardsRequest host au None]\<rparr>)"
  using assms
  by (simp add: resolveBoards_def io_return_def io_bind_def axios_get_def axios_issue_def await_def
      noBoardsAtAll_def split: sum.splits option.splits)

lemma sublist_concat_map: "x \<in> set xs \<Longrightarrow> sublist (f x) (concat (map f xs))"
proof -
  assume "x \<in> set xs"
  then obtain ys zs where "xs = ys @ x # zs" by (auto simp: in_set_conv_decomp)
  then have "concat (map f xs) = concat (map f ys) @ f x @ concat (map f zs)" by simp
  then show ?thesis unfolding sublist_def by blast
qed

lemma sublist_sprintsTable:
  "s \<in> set ss \<Longrightarrow> sublist (sprintRow rt s) (sprintsTable rt st ss @ rest)"
proof -
  assume "s \<in> set ss"
  then have "sublist (sprintRow rt s) (concat (map (sprintRow rt) ss))" by (rule sublist_concat_map)
  then obtain p q where "concat (map (sprintRow rt) ss) = p @ sprintRow rt s @ q"
    unfolding sublist_def by blast
  then have "sprintsTable rt st ss @ rest =
      (''# '' @ capitalize rt st @ '' Sprints\<newline>\<newline>'' @
       ''| ID | Name | Board | Status | Start Date | End Date |\<newline>'' @
       ''|----|------|-------|--------|------------|----------|\<newline>'' @ p) @ sprintRow rt s @
      (q @ ''\<newline>## Sprint Details\<newline>\<newline>'' @ rest)"
    by (simp add: sprintsTable_def)
  then show ?thesis unfolding sublist_def by blast
qed

text \<open>
  C3, as amended. The claim puts the skip-diagnostic of a failed board into the final
  result. The code writes it with \<open>console.warn\<close>; the returned result carries no trace
  of the failed board. What holds, for valid arguments and every list of resolved boards:
  the tool returns a result with \<open>isError = false\<close>; the warnings written are one line
  \<open>Could not fetch sprints for board b\<close> per board whose request failed, in the order of
  the boards; and the row of every sprint obtained from a board is part of the text of
  the result.
\<close>

theorem failed_boards_are_skipped:
  assumes "JiraSprintRequestSchema env args = Inr v"
      and "resolveBoards up (hostOf v) (authOf v) (tool_args.boardId v) (tool_args.projectKey v) w =
             (Inr (Inr boardIds), w1)"
  shows "\<exists>r w2. listSprints up rt env args w = (Inr r, w2) \<and> isError r = False \<and>
           warnings w2 = warnings w1 @ skipWarnings up (hostOf v) (authOf v) (stateOf v) boardIds \<and>
           (\<forall>b \<in> set boardIds. \<forall>s \<in> set (boardSprintsOf up (hostOf v) (authOf v) (stateOf v) b).
              sublist (sprintRow rt s) (resultText r))"
proof -
  let ?all = "sprintsFetched up (hostOf v) (authOf v) (stateOf v) boardIds"
  let ?sorted = "Array_sort (compareSprints rt) ?all"
  have l: "listSprints up rt env args w =
             reportSprints up rt (hostOf v) (authOf v) (tool_args.boardId v) (tool_args.projectKey v)
               (stateOf v) boardIds w1"
    by (simp add: listSprints_validated [OF assms(1)] assms(2))
  show ?thesis
  proof (cases "?all = []")
    case True
    then have "\<forall>b \<in> set boardIds. boardSprintsOf up (hostOf v) (authOf v) (stateOf v) b = []"
      by (simp add: sprintsFetched_def)
    with True show ?thesis
      by (simp add: l reportSprints_eq Let_def textResult_def)
  next
    case False
    have "sublist (sprintRow rt s) (sprintsTable rt (stateOf v) ?sorted @ rest)"
      if "b \<in> set boardIds" "s \<in> set (boardSprintsOf up (hostOf v) (authOf v) (stateOf v) b)" for b s rest
    proof -
      from that have "s \<in> set ?all" by (auto simp: sprintsFetched_def)
      then have "s \<in> set ?sorted" by (simp add: set_Array_sort)
      then show ?thesis by (rule sublist_sprintsTable)
    qed
    with False show ?thesis
      by (simp add: l reportSprints_eq Let_def textResult_def resultText_def)
  qed
qed

text \<open>
  C7. With valid arguments (which the schema hands on unchanged in \<open>boardId\<close> and
  \<open>projectKey\<close>): a given \<open>boardId\<close> (a non-empty one) resolves to that single board
  without any board query, whatever \<open>projectKey\<close> is; else a given \<open>projectKey\<close> resolves
  to all the boards returned by the board query that carries the parameter
  \<open>projectKeyOrId = projectKey\<close>; else the board query without parameters is made and its
  first five boards are taken; when a board query returns no board the tool returns the
  "No Boards Found" result, with \<open>isError = false\<close>, having issued the board query only;
  and for the resolved boards the tool asks for the sprints of exactly these boards, in
  order, and then for the issues of the sprints found.
\<close>

theorem board_resolution_precedence:
  assumes "JiraSprintRequestSchema env args = Inr v"
      and "projectBoards =
             \<lparr>url = normalizeJiraHost (hostOf v) @ ''/rest/agile/1.0/board'',
              params = [(''projectKeyOrId'', JString (tpl (tool_args.projectKey v)))],
              auth = authOf v\<rparr>"
      and "allBoards =
             \<lparr>url = normalizeJiraHost (hostOf v) @ ''/rest/agile/1.0/board'', params = [], auth = authOf v\<rparr>"
  shows
   "tool_args.boardId v = tool_args.boardId args \<and> tool_args.projectKey v = tool_args.projectKey args \<and>
    (truthy (tool_args.boardId v) \<longrightarrow>
       resolveBoards up (hostOf v) (authOf v) (tool_args.boardId v) (tool_args.projectKey v) w =
         (Inr (Inr [tpl (tool_args.boardId v)]), w)) \<and>
    (\<not> truthy (tool_args.boardId v) \<and> truthy (tool_args.projectKey v) \<and>
     boards up projectBoards = Inr (Some bs) \<and> bs \<noteq> [] \<longrightarrow>
       resolveBoards up (hostOf v) (authOf v) (tool_args.boardId v) (tool_args.projectKey v) w =
         (Inr (Inr (map Board.id bs)), w\<lparr>calls := calls w @ [projectBoards]\<rparr>)) \<and>
    (\<not> truthy (tool_args.boardId v) \<and> \<not> truthy (tool_args.projectKey v) \<and>
     boards up allBoards = Inr (Some bs) \<and> bs \<noteq> [] \<longrightarrow>
       resolveBoards up (hostOf v) (authOf v) (tool_args.boardId v) (tool_args.projectKey v) w =
         (Inr (Inr (map Board.id (take 5 bs))), w\<lparr>calls := calls w @ [allBoards]\<rparr>)) \<and>
    (\<not> truthy (tool_args.boardId v) \<and> truthy (tool_args.projectKey v) \<and>
     boards up projectBoards \<in> {Inr None, Inr (Some [])} \<longrightarrow>
       listSprints up rt env args w =
         (Inr (textResult (''# No Boards Found\<newline>\<newline>No boards were found for project key: '' @
                           tpl (tool_args.projectKey v)) False),
          w\<lparr>calls := calls w @ [projectBoards]\<rparr>)) \<and>
    (\<not> truthy (tool_args.boardId v) \<and> \<not> truthy (tool_args.projectKey v) \<and>
     boards up allBoards \<in> {Inr None, Inr (Some [])} \<longrightarrow>
       listSprints up rt env args w =
         (Inr (textResult ''# No Boards Found\<newline>\<newline>No boards were found in your Jira instance.'' False),
          w\<lparr>calls := calls w @ [allBoards]\<rparr>)) \<and>
    isError (textResult report False) = False \<and>
    (resolveBoards up (hostOf v) (authOf v) (tool_args.boardId v) (tool_args.projectKey v) w =
       (Inr (Inr boardIds), w1) \<longrightarrow>
       (\<exists>r w2.
          listSprints up rt env args w = (Inr r, w2) \<and>
          calls w2 =
            calls w1 @
            map (\<lambda>b. \<lparr>url = normalizeJiraHost (hostOf v) @ ''/rest/agile/1.0/board/'' @ b @ ''/sprint'',
                       params = (if stateOf v \<noteq> ''all'' then [(''state'', JString (stateOf v))] else []),
                       auth = authOf v\<rparr>) boardIds @
            map (\<lambda>s. sprintIssuesRequest (hostOf v) (authOf v) (Sprint.id (sprint s)))
                (Array_sort (compareSprints rt) (sprintsFetched up (hostOf v) (authOf v) (stateOf v) boardIds))))"
proof -
  note V = JiraSprintRequestSchema_Inr [OF assms(1)]
  note L = listSprints_validated [OF assms(1)]
  have p: "boardsRequest (hostOf v) (authOf v) (Some (tpl (tool_args.projectKey v))) = projectBoards"
    and a: "boardsRequest (hostOf v) (authOf v) None = allBoards"
    by (simp_all add: boardsRequest_def assms(2,3))
  have 1: "tool_args.boardId v = tool_args.boardId args \<and> tool_args.projectKey v = tool_args.projectKey args"
    using V by simp
  have 2: "truthy (tool_args.boardId v) \<longrightarrow>
       resolveBoards up (hostOf v) (authOf v) (tool_args.boardId v) (tool_args.projectKey v) w =
         (Inr (Inr [tpl (tool_args.boardId v)]), w)"
    by (simp add: resolveBoards_board)
  have 3: "\<not> truthy (tool_args.boardId v) \<and> truthy (tool_args.projectKey v) \<and>
     boards up projectBoards = Inr (Some bs) \<and> bs \<noteq> [] \<longrightarrow>
       resolveBoards up (hostOf v) (authOf v) (tool_args.boardId v) (tool_args.projectKey v) w =
         (Inr (Inr (map Board.id bs)), w\<lparr>calls := calls w @ [projectBoards]\<rparr>)"
    by (simp add: resolveBoards_project p)
  have 4: "\<not> truthy (tool_args.boardId v) \<and> \<not> truthy (tool_args.projectKey v) \<and>
     boards up allBoards = Inr (Some bs) \<and> bs \<noteq> [] \<longrightarrow>
       resolveBoards up (hostOf v) (authOf v) (tool_args.boardId v) (tool_args.projectKey v) w =
         (Inr (Inr (map Board.id (take 5 bs))), w\<lparr>calls := calls w @ [allBoards]\<rparr>)"
    by (simp add: resolveBoards_all a)
  have 5: "\<not> truthy (tool_args.boardId v) \<and> truthy (tool_args.projectKey v) \<and>
     boards up projectBoards \<in> {Inr None, Inr (Some [])} \<longrightarrow>
       listSprints up rt env args w =
         (Inr (textResult (''# No Boards Found\<newline>\<newline>No boards were found for project key: '' @
                           tpl (tool_args.projectKey v)) False),
          w\<lparr>calls := calls w @ [projectBoards]\<rparr>)"
    by (auto simp: L resolveBoards_project p noBoardsForProject_def)
  have 6: "\<not> truthy (tool_args.boardId v) \<and> \<not> truthy (tool_args.projectKey v) \<and>
     boards up allBoards \<in> {Inr None, Inr (Some [])} \<longrightarrow>
       listSprints up rt env args w =
         (Inr (textResult ''# No Boards Found\<newline>\<newline>No boards were found in your Jira instance.'' False),
          w\<lparr>calls := calls w @ [allBoards]\<rparr>)"
    by (auto simp: L resolveBoards_all a noBoardsAtAll_def)
  have 7: "isError (textResult report False) = False"
    by (simp add: textResult_def)
  have s: "map (sprintsRequest (hostOf v) (authOf v) (stateOf v)) boardIds =
           map (\<lambda>b. \<lparr>url = normalizeJiraHost (hostOf v) @ ''/rest/agile/1.0/board/'' @ b @ ''/sprint'',
                       params = (if stateOf v \<noteq> ''all'' then [(''state'', JString (stateOf v))] else []),
                       auth = authOf v\<rparr>) boardIds"
    by (simp add: sprintsRequest_def)
  have 8: "resolveBoards up (hostOf v) (authOf v) (tool_args.boardId v) (tool_args.projectKey v) w =
       (Inr (Inr boardIds), w1) \<longrightarrow>
       (\<exists>r w2.
          listSprints up rt env args w = (Inr r, w2) \<and>
          calls w2 =
            calls w1 @
            map (\<lambda>b. \<lparr>url = normalizeJiraHost (hostOf v) @ ''/rest/agile/1.0/board/'' @ b @ ''/sprint'',
                       params = (if stateOf v \<noteq> ''all'' then [(''state'', JString (stateOf v))] else []),
                       auth = authOf v\<rparr>) boardIds @
            map (\<lambda>s. sprintIssuesRequest (hostOf v) (authOf v) (Sprint.id (sprint s)))
                (Array_sort (compareSprints rt) (sprintsFetched up (hostOf v) (authOf v) (stateOf v) boardIds)))"
    unfolding s [symmetric]
    by (cases "sprintsFetched up (hostOf v) (authOf v) (stateOf v) boardIds = []")
       (simp_all add: L reportSprints_eq Let_def Array_sort_def)
  from 1 2 3 4 5 6 7 8 show ?thesis by blast
qed


section \<open>The sprint listing on the examples\<close>

lemma sprintArgs_valid: "JiraSprintRequestSchema env0 sprintArgs = Inr sprintArgs"
  by (simp add: JiraSprintRequestSchema_def JiraApiRequestSchema_def credentialField_def white_space_def
      sprintArgs_def validBoardId_def)

lemma boardArgs_valid: "JiraSprintRequestSchema env0 boardArgs = Inr boardArgs"
  by (simp add: JiraSprintRequestSchema_def JiraApiRequestSchema_def credentialField_def white_space_def
      sprintArgs_def boardArgs_def validBoardId_def projectKey_format_def)

lemma projectArgs_valid: "JiraSprintRequestSchema env0 projectArgs = Inr projectArgs"
  by (simp add: JiraSprintRequestSchema_def JiraApiRequestSchema_def credentialField_def white_space_def
      sprintArgs_def projectArgs_def validBoardId_def projectKey_format_def)


lemma sprintArgs_reads:
  "hostOf sprintArgs = ''h.example''" "authOf sprintArgs = (''u'', ''t'')" "stateOf sprintArgs = ''all''"
  "tool_args.boardId sprintArgs = None" "tool_args.projectKey sprintArgs = None"
  by (simp_all add: hostOf_def authOf_def stateOf_def sprintArgs_def js_or_def)

lemma boardArgs_reads:
  "hostOf boardArgs = ''h.example''" "authOf boardArgs = (''u'', ''t'')" "stateOf boardArgs = ''all''"
  "tool_args.boardId boardArgs = Some ''3''" "tool_args.projectKey boardArgs = Some ''ABC''"
  by (simp_all add: hostOf_def authOf_def stateOf_def sprintArgs_def boardArgs_def js_or_def)

lemma projectArgs_reads:
  "hostOf projectArgs = ''h.example''" "authOf projectArgs = (''u'', ''t'')" "stateOf projectArgs = ''all''"
  "tool_args.boardId projectArgs = None" "tool_args.projectKey projectArgs = Some ''ABC''"
  by (simp_all add: hostOf_def authOf_def stateOf_def sprintArgs_def projectArgs_def js_or_def)


lemma boardsRequest_example:
  "boardsRequest ''h.example'' (''u'', ''t'') None = boardsCall"
  "boardsRequest ''h.example'' (''u'', ''t'') (Some ''ABC'') = projectBoardsCall"
  by (simp_all add: boardsRequest_def boardsCall_def projectBoardsCall_def host_example)

lemma sprintsRequest_example:
  "sprintsRequest ''h.example'' (''u'', ''t'') ''all'' b =
     \<lparr>url = ''https://h.example/rest/agile/1.0/board/'' @ b @ ''/sprint'', params = [], auth = (''u'', ''t'')\<rparr>"
  by (simp add: sprintsRequest_def host_example)

lemma boardSprintsOf_example:
  "boardSprintsOf sprintUpstream ''h.example'' (''u'', ''t'') ''all'' ''1'' =
     [\<lparr>sprint = sprintNone, boardId = ''1''\<rparr>, \<lparr>sprint = sprintJan, boardId = ''1''\<rparr>]"
  "boardSprintsOf sprintUpstream ''h.example'' (''u'', ''t'') ''all'' ''2'' = []"
  "boardSprintsOf sprintUpstream ''h.example'' (''u'', ''t'') ''all'' ''3'' =
     [\<lparr>sprint = sprintMar, boardId = ''3''\<rparr>]"
  "boardSprintsOf quietUpstream ''h.example'' (''u'', ''t'') ''all'' ''1'' =
     [\<lparr>sprint = sprintNone, boardId = ''1''\<rparr>, \<lparr>sprint = sprintJan, boardId = ''1''\<rparr>]"
  "boardSprintsOf quietUpstream ''h.example'' (''u'', ''t'') ''all'' ''2'' = []"
  "boardSprintsOf quietUpstream ''h.example'' (''u'', ''t'') ''all'' ''3'' =
     [\<lparr>sprint = sprintMar, boardId = ''3''\<rparr>]"
  "boardSprintsOf badDateUpstream ''h.example'' (''u'', ''t'') ''all'' ''1'' =
     [\<lparr>sprint = sprintJan, boardId = ''1''\<rparr>, \<lparr>sprint = sprintBad, boardId = ''1''\<rparr>,
      \<lparr>sprint = sprintMar, boardId = ''1''\<rparr>]"
  by (simp_all add: boardSprintsOf_def sprintsRequest_example sprintUpstream_def quietUpstream_def
      badDateUpstream_def)

lemma boardFailed_example:
  "\<not> boardFailed sprintUpstream ''h.example'' (''u'', ''t'') ''all'' ''1''"
  "boardFailed sprintUpstream ''h.example'' (''u'', ''t'') ''all'' ''2''"
  "\<not> boardFailed sprintUpstream ''h.example'' (''u'', ''t'') ''all'' ''3''"
  "\<not> boardFailed quietUpstream ''h.example'' (''u'', ''t'') ''all'' b"
  "\<not> boardFailed badDateUpstream ''h.example'' (''u'', ''t'') ''all'' b"
  by (simp_all add: boardFailed_def sprintsRequest_example sprintUpstream_def quietUpstream_def
      badDateUpstream_def)


lemma sort_example:
  "Array_sort (compareSprints rt0)
     [\<lparr>sprint = sprintNone, boardId = ''1''\<rparr>, \<lparr>sprint = sprintJan, boardId = ''1''\<rparr>,
      \<lparr>sprint = sprintMar, boardId = ''3''\<rparr>] =
     [\<lparr>sprint = sprintMar, boardId = ''3''\<rparr>, \<lparr>sprint = sprintJan, boardId = ''1''\<rparr>,
      \<lparr>sprint = sprintNone, boardId = ''1''\<rparr>]"
  by (simp add: Array_sort_def compareSprints_def rt0_def sprintNone_def sprintJan_def sprintMar_def)


lemma issuesTextOf_example:
  "issuesTextOf sprintUpstream ''h.example'' (''u'', ''t'') s = ''No issues found in this sprint.\<newline>''"
  "issuesTextOf quietUpstream ''h.example'' (''u'', ''t'') s = ''No issues found in this sprint.\<newline>''"
  "issuesTextOf badDateUpstream ''h.example'' (''u'', ''t'') s = ''No issues found in this sprint.\<newline>''"
  by (simp_all add: issuesTextOf_def sprintIssuesText_def try_catch_def io_bind_def io_return_def
      axios_get_def axios_issue_def await_def sprintUpstream_def quietUpstream_def badDateUpstream_def
      exampleUpstream_def)

lemma resolve_example:
  "resolveBoards sprintUpstream ''h.example'' (''u'', ''t'') None None world0 =
     (Inr (Inr [''1'', ''2'', ''3'']), \<lparr>calls = [boardsCall], warnings = []\<rparr>)"
  "resolveBoards quietUpstream ''h.example'' (''u'', ''t'') None None world0 =
     (Inr (Inr [''1'', ''2'', ''3'']), \<lparr>calls = [boardsCall], warnings = []\<rparr>)"
  by (simp_all add: resolveBoards_all boardsRequest_example sprintUpstream_def quietUpstream_def world0_def)

lemma capitalize_example:
  "capitalize rt0 ''all'' = ''All''" "capitalize rt0 ''active'' = ''Active''"
  "capitalize rt0 ''closed'' = ''Closed''" "capitalize rt0 ''future'' = ''Future''"
  by (simp_all add: rt0_def continuation_def ascii_upper_def)

lemma sprintRow_example:
  "sprintRow rt0 \<lparr>sprint = sprintMar, boardId = b\<rparr> =
     ''| 12 | Sprint 12 | '' @ b @ '' | Active | 2024-03-01 | Not set |\<newline>''"
  "sprintRow rt0 \<lparr>sprint = sprintJan, boardId = b\<rparr> =
     ''| 11 | Sprint 11 | '' @ b @ '' | Closed | 2024-01-10 | 2024-01-24 |\<newline>''"
  "sprintRow rt0 \<lparr>sprint = sprintNone, boardId = b\<rparr> =
     ''| 13 | Backlog prep | '' @ b @ '' | Future | Not started | Not set |\<newline>''"
  "sprintRow rt0 \<lparr>sprint = sprintBad, boardId = b\<rparr> =
     ''| 14 | Sprint 14 | '' @ b @ '' | Future | Invalid Date | Not set |\<newline>''"
  by (simp_all add: sprintRow_def sprintMar_def sprintJan_def sprintNone_def sprintBad_def capitalize_example
        del: capitalize.simps)
     (simp_all add: rt0_def)

lemma sprintHeading_example:
  "sprintHeading rt0 ''h.example'' None \<lparr>sprint = sprintMar, boardId = b\<rparr> =
     ''### Sprint 12 (ID: 12)\<newline>\<newline>**Board ID:** '' @ b @ ''\<newline>**Status:** Active\<newline>'' @
     ''**Start Date:** 2024-03-01\<newline>**Goal:** Ship it\<newline>'' @
     ''**View in Jira:** https://h.example/jira/software/projects/browse/boards/'' @ b @ ''/sprints/12\<newline>\<newline>''"
  "sprintHeading rt0 ''h.example'' None \<lparr>sprint = sprintJan, boardId = b\<rparr> =
     ''### Sprint 11 (ID: 11)\<newline>\<newline>**Board ID:** '' @ b @ ''\<newline>**Status:** Closed\<newline>'' @
     ''**Start Date:** 2024-01-10\<newline>**End Date:** 2024-01-24\<newline>'' @
     ''**View in Jira:** https://h.example/jira/software/projects/browse/boards/'' @ b @ ''/sprints/11\<newline>\<newline>''"
  "sprintHeading rt0 ''h.example'' None \<lparr>sprint = sprintNone, boardId = b\<rparr> =
     ''### Backlog prep (ID: 13)\<newline>\<newline>**Board ID:** '' @ b @ ''\<newline>**Status:** Future\<newline>'' @
     ''**View in Jira:** https://h.example/jira/software/projects/browse/boards/'' @ b @ ''/sprints/13\<newline>\<newline>''"
  "sprintHeading rt0 ''h.example'' None \<lparr>sprint = sprintBad, boardId = b\<rparr> =
     ''### Sprint 14 (ID: 14)\<newline>\<newline>**Board ID:** '' @ b @ ''\<newline>**Status:** Future\<newline>'' @
     ''**Start Date:** Invalid Date\<newline>'' @
     ''**View in Jira:** https://h.example/jira/software/projects/browse/boards/'' @ b @ ''/sprints/14\<newline>\<newline>''"
  by (simp_all add: sprintHeading_def sprintMar_def sprintJan_def sprintNone_def sprintBad_def
        capitalize_example host_example js_or_def del: capitalize.simps)
     (simp_all add: rt0_def)

lemma sprint_ids:
  "Sprint.id sprintMar = ''12''" "Sprint.id sprintJan = ''11''" "Sprint.id sprintNone = ''13''"
  "Sprint.id sprintBad = ''14''"
  by (simp_all add: sprintMar_def sprintJan_def sprintNone_def sprintBad_def)

lemma listSprints_example:
  "listSprints sprintUpstream rt0 env0 sprintArgs world0 =
     (Inr (textResult exampleSprintReport False),
      \<lparr>calls = boardsCall #
         map (\<lambda>b. \<lparr>url = ''https://h.example/rest/agile/1.0/board/'' @ b @ ''/sprint'', params = [],
                    auth = (''u'', ''t'')\<rparr>) [''1'', ''2'', ''3''] @
         map (sprintIssuesRequest ''h.example'' (''u'', ''t'')) [''12'', ''11'', ''13''],
       warnings = [''Could not fetch sprints for board 2'']\<rparr>)"
  by (simp add: listSprints_validated [OF sprintArgs_valid] sprintArgs_reads resolve_example
      reportSprints_eq sprintsFetched_def skipWarnings_def boardSprintsOf_example boardFailed_example
      sprintsRequest_example sort_example Let_def)
     (simp add: sprintsTable_def sprintSection_def sprintRow_example sprintHeading_example
        issuesTextOf_example capitalize_example sprint_ids
        exampleSprintReport_def sprintIssuesRequest_def del: capitalize.simps)

lemma listSprints_quiet:
  "listSprints quietUpstream rt0 env0 sprintArgs world0 =
     (Inr (textResult exampleSprintReport False),
      \<lparr>calls = boardsCall #
         map (\<lambda>b. \<lparr>url = ''https://h.example/rest/agile/1.0/board/'' @ b @ ''/sprint'', params = [],
                    auth = (''u'', ''t'')\<rparr>) [''1'', ''2'', ''3''] @
         map (sprintIssuesRequest ''h.example'' (''u'', ''t'')) [''12'', ''11'', ''13''],
       warnings = []\<rparr>)"
  by (simp add: listSprints_validated [OF sprintArgs_valid] sprintArgs_reads resolve_example
      reportSprints_eq sprintsFetched_def skipWarnings_def boardSprintsOf_example boardFailed_example
      sprintsRequest_example sort_example Let_def)
     (simp add: sprintsTable_def sprintSection_def sprintRow_example sprintHeading_example
        issuesTextOf_example capitalize_example sprint_ids
        exampleSprintReport_def sprintIssuesRequest_def del: capitalize.simps)


theorem failed_boards_witness:
  "JiraSprintRequestSchema env0 sprintArgs = Inr sprintArgs \<and>
   resolveBoards sprintUpstream ''h.example'' (''u'', ''t'') None None world0 =
     (Inr (Inr [''1'', ''2'', ''3'']), \<lparr>calls = [boardsCall], warnings = []\<rparr>) \<and>
   boardFailed sprintUpstream ''h.example'' (''u'', ''t'') ''all'' ''2'' \<and>
   fst (listSprints sprintUpstream rt0 env0 sprintArgs world0) = Inr (textResult exampleSprintReport False) \<and>
   warnings (snd (listSprints sprintUpstream rt0 env0 sprintArgs world0)) =
     [''Could not fetch sprints for board 2''] \<and>
   sublist (sprintRow rt0 \<lparr>sprint = sprintMar, boardId = ''3''\<rparr>) exampleSprintReport \<and>
   sublist (sprintRow rt0 \<lparr>sprint = sprintJan, boardId = ''1''\<rparr>) exampleSprintReport \<and>
   sublist (sprintRow rt0 \<lparr>sprint = sprintNone, boardId = ''1''\<rparr>) exampleSprintReport"
proof -
  have r: "resolveBoards sprintUpstream (hostOf sprintArgs) (authOf sprintArgs)
             (tool_args.boardId sprintArgs) (tool_args.projectKey sprintArgs) world0 =
           (Inr (Inr [''1'', ''2'', ''3'']), \<lparr>calls = [boardsCall], warnings = []\<rparr>)"
    by (simp only: sprintArgs_reads resolve_example)
  from failed_boards_are_skipped [OF sprintArgs_valid r, where rt = rt0]
  have "\<forall>b \<in> set [''1'', ''2'', ''3''].
          \<forall>s \<in> set (boardSprintsOf sprintUpstream ''h.example'' (''u'', ''t'') ''all'' b).
            sublist (sprintRow rt0 s) exampleSprintReport"
    by (simp add: listSprints_example sprintArgs_reads resultText_def textResult_def
          del: set_simps ball_simps)
  then have s: "sublist (sprintRow rt0 \<lparr>sprint = sprintMar, boardId = ''3''\<rparr>) exampleSprintReport"
    "sublist (sprintRow rt0 \<lparr>sprint = sprintJan, boardId = ''1''\<rparr>) exampleSprintReport"
    "sublist (sprintRow rt0 \<lparr>sprint = sprintNone, boardId = ''1''\<rparr>) exampleSprintReport"
    by (simp_all add: boardSprintsOf_example)
  from sprintArgs_valid resolve_example(1) boardFailed_example(2) s show ?thesis
    by (simp add: listSprints_example)
qed

text \<open>
  C3 as stated fails: of three boards the second fails. The result is the same as when
  the second board answers with no sprint, and its text names neither the failure nor
  the board; the diagnostic is the warning on the console.
\<close>

theorem skipped_board_counterexample:
  "fst (listSprints sprintUpstream rt0 env0 sprintArgs world0) = Inr (textResult exampleSprintReport False) \<and>
   warnings (snd (listSprints sprintUpstream rt0 env0 sprintArgs world0)) =
     [''Could not fetch sprints for board 2''] \<and>
   fst (listSprints quietUpstream rt0 env0 sprintArgs world0) = Inr (textResult exampleSprintReport False) \<and>
   content (textResult exampleSprintReport False) =
     [\<lparr>ContentItem.type = ''text'', text = exampleSprintReport\<rparr>] \<and>
   \<not> str_includes exampleSprintReport ''Could not fetch sprints'' \<and>
   \<not> str_includes exampleSprintReport ''board 2''"
proof -
  have "\<not> str_includes exampleSprintReport ''Could not fetch sprints''"
    by (simp add: exampleSprintReport_def)
  moreover have "\<not> str_includes exampleSprintReport ''board 2''"
    by (simp add: exampleSprintReport_def)
  ultimately show ?thesis
    by (simp add: listSprints_example listSprints_quiet textResult_def)
qed

theorem board_resolution_witness:
  "JiraSprintRequestSchema env0 boardArgs = Inr boardArgs \<and>
   tool_args.boardId boardArgs = Some ''3'' \<and> tool_args.projectKey boardArgs = Some ''ABC'' \<and>
   resolveBoards projectUpstream ''h.example'' (''u'', ''t'') (Some ''3'') (Some ''ABC'') world0 =
     (Inr (Inr [''3'']), world0) \<and>
   JiraSprintRequestSchema env0 projectArgs = Inr projectArgs \<and>
   tool_args.boardId projectArgs = None \<and> tool_args.projectKey projectArgs = Some ''ABC'' \<and>
   resolveBoards projectUpstream ''h.example'' (''u'', ''t'') None (Some ''ABC'') world0 =
     (Inr (Inr [''10'', ''11'', ''12'', ''13'', ''14'', ''15'', ''16'']),
      \<lparr>calls = [\<lparr>url = ''https://h.example/rest/agile/1.0/board'',
                  params = [(''projectKeyOrId'', JString ''ABC'')], auth = (''u'', ''t'')\<rparr>],
       warnings = []\<rparr>) \<and>
   JiraSprintRequestSchema env0 sprintArgs = Inr sprintArgs \<and>
   tool_args.boardId sprintArgs = None \<and> tool_args.projectKey sprintArgs = None \<and>
   resolveBoards projectUpstream ''h.example'' (''u'', ''t'') None None world0 =
     (Inr (Inr [''1'', ''2'', ''3'', ''4'', ''5'']),
      \<lparr>calls = [\<lparr>url = ''https://h.example/rest/agile/1.0/board'', params = [], auth = (''u'', ''t'')\<rparr>],
       warnings = []\<rparr>) \<and>
   listSprints exampleUpstream rt0 env0 projectArgs world0 =
     (Inr (textResult ''# No Boards Found\<newline>\<newline>No boards were found for project key: ABC'' False),
      \<lparr>calls = [\<lparr>url = ''https://h.example/rest/agile/1.0/board'',
                  params = [(''projectKeyOrId'', JString ''ABC'')], auth = (''u'', ''t'')\<rparr>],
       warnings = []\<rparr>) \<and>
   listSprints exampleUpstream rt0 env0 sprintArgs world0 =
     (Inr (textResult ''# No Boards Found\<newline>\<newline>No boards were found in your Jira instance.'' False),
      \<lparr>calls = [\<lparr>url = ''https://h.example/rest/agile/1.0/board'', params = [], auth = (''u'', ''t'')\<rparr>],
       warnings = []\<rparr>)"
proof -
  from board_resolution_precedence [OF boardArgs_valid refl refl, where up = projectUpstream and w = world0]
  have a: "resolveBoards projectUpstream ''h.example'' (''u'', ''t'') (Some ''3'') (Some ''ABC'') world0 =
     (Inr (Inr [''3'']), world0)"
    by (simp add: boardArgs_reads)
  have seven: "boards projectUpstream
       \<lparr>url = ''https://h.example/rest/agile/1.0/board'',
        params = [(''projectKeyOrId'', JString ''ABC'')], auth = (''u'', ''t'')\<rparr> =
       Inr (Some [\<lparr>Board.id = ''10''\<rparr>, \<lparr>Board.id = ''11''\<rparr>, \<lparr>Board.id = ''12''\<rparr>,
                  \<lparr>Board.id = ''13''\<rparr>, \<lparr>Board.id = ''14''\<rparr>, \<lparr>Board.id = ''15''\<rparr>,
                  \<lparr>Board.id = ''16''\<rparr>])"
    by (simp add: projectUpstream_def)
  from board_resolution_precedence [OF projectArgs_valid refl refl, where up = projectUpstream and w = world0 and
         bs = "[\<lparr>Board.id = ''10''\<rparr>, \<lparr>Board.id = ''11''\<rparr>, \<lparr>Board.id = ''12''\<rparr>,
                \<lparr>Board.id = ''13''\<rparr>, \<lparr>Board.id = ''14''\<rparr>, \<lparr>Board.id = ''15''\<rparr>,
                \<lparr>Board.id = ''16''\<rparr>]"] seven
  have b: "resolveBoards projectUpstream ''h.example'' (''u'', ''t'') None (Some ''ABC'') world0 =
     (Inr (Inr [''10'', ''11'', ''12'', ''13'', ''14'', ''15'', ''16'']),
      \<lparr>calls = [\<lparr>url = ''https://h.example/rest/agile/1.0/board'',
                  params = [(''projectKeyOrId'', JString ''ABC'')], auth = (''u'', ''t'')\<rparr>],
       warnings = []\<rparr>)"
    by (simp add: projectArgs_reads host_example world0_def)
  have six: "boards projectUpstream
       \<lparr>url = ''https://h.example/rest/agile/1.0/board'', params = [], auth = (''u'', ''t'')\<rparr> =
       Inr (Some [\<lparr>Board.id = ''1''\<rparr>, \<lparr>Board.id = ''2''\<rparr>, \<lparr>Board.id = ''3''\<rparr>,
                  \<lparr>Board.id = ''4''\<rparr>, \<lparr>Board.id = ''5''\<rparr>, \<lparr>Board.id = ''6''\<rparr>])"
    by (simp add: projectUpstream_def)
  from board_resolution_precedence [OF sprintArgs_valid refl refl, where up = projectUpstream and w = world0 and
         bs = "[\<lparr>Board.id = ''1''\<rparr>, \<lparr>Board.id = ''2''\<rparr>, \<lparr>Board.id = ''3''\<rparr>,
                \<lparr>Board.id = ''4''\<rparr>, \<lparr>Board.id = ''5''\<rparr>, \<lparr>Board.id = ''6''\<rparr>]"] six
  have c: "resolveBoards projectUpstream ''h.example'' (''u'', ''t'') None None world0 =
     (Inr (Inr [''1'', ''2'', ''3'', ''4'', ''5'']),
      \<lparr>calls = [\<lparr>url = ''https://h.example/rest/agile/1.0/board'', params = [], auth = (''u'', ''t'')\<rparr>],
       warnings = []\<rparr>)"
    by (simp add: sprintArgs_reads host_example world0_def)
  have none: "boards exampleUpstream q = Inr (Some [])" for q
    by (simp add: exampleUpstream_def)
  from board_resolution_precedence [OF projectArgs_valid refl refl, where up = exampleUpstream and w = world0 and
         rt = rt0] none
  have d: "listSprints exampleUpstream rt0 env0 projectArgs world0 =
     (Inr (textResult ''# No Boards Found\<newline>\<newline>No boards were found for project key: ABC'' False),
      \<lparr>calls = [\<lparr>url = ''https://h.example/rest/agile/1.0/board'',
                  params = [(''projectKeyOrId'', JString ''ABC'')], auth = (''u'', ''t'')\<rparr>],
       warnings = []\<rparr>)"
    by (simp add: projectArgs_reads host_example world0_def)
  from board_resolution_precedence [OF sprintArgs_valid refl refl, where up = exampleUpstream and w = world0 and
         rt = rt0] none
  have e: "listSprints exampleUpstream rt0 env0 sprintArgs world0 =
     (Inr (textResult ''# No Boards Found\<newline>\<newline>No boards were found in your Jira instance.'' False),
      \<lparr>calls = [\<lparr>url = ''https://h.example/rest/agile/1.0/board'', params = [], auth = (''u'', ''t'')\<rparr>],
       warnings = []\<rparr>)"
    by (simp add: sprintArgs_reads host_example world0_def)
  from a b c d e boardArgs_valid projectArgs_valid sprintArgs_valid show ?thesis
    by (simp add: boardArgs_reads projectArgs_reads sprintArgs_reads)
qed



section \<open>A member listing through the dispatcher\<close>

text \<open>The dispatcher in front of \<open>listProjectMembers\<close>: invalid arguments are answered
  without a request; valid ones are validated again by the tool, to the same effect; an
  error the tool throws comes back as an error result. On the example project the call
  lists the three members; with the failing role detail it returns the error.\<close>

lemma membersConfig:
  "property_of (toolConfigs up rt env arrival other) ''jira_list_project_members'' =
     Own \<lparr>schema = JiraProjectMembersRequestSchema env, handler = listProjectMembers up env arrival\<rparr>"
  by (simp add: property_of_def toolConfigs_def)

lemma dispatch_members_invalid:
  assumes "JiraProjectMembersRequestSchema env args = Inl e"
  shows "handleCallTool (toolConfigs up rt env arrival other) env ''jira_list_project_members'' args w =
           (Inr (textResult (''Error: '' @ message e) True), w)"
  using handleCallTool_invalid [OF membersConfig] assms by simp

lemma dispatch_members_valid:
  assumes "JiraProjectMembersRequestSchema env args = Inr v"
  shows "handleCallTool (toolConfigs up rt env arrival other) env ''jira_list_project_members'' args w =
           (case membersReport up arrival (hostOf v) (authOf v) (keyOf v) w of
              (Inl e, w') \<Rightarrow> (Inr (textResult (''Error: '' @ message e) True), w')
            | (Inr r, w') \<Rightarrow> (Inr r, w'))"
proof -
  from assms have a: "JiraApiRequestSchema env args = Inr v" and again: "JiraProjectMembersRequestSchema env v = Inr v"
    by (simp_all add: JiraProjectMembersRequestSchema_Inr)
  from a have c: "validateAndGetCredentials env v w = (Inr v, w)"
    by (simp add: JiraApiRequestSchema_Inr validateAndGetCredentials_validated)
  show ?thesis
    by (simp add: handleCallTool_def callTool_def membersConfig try_catch_def io_bind_def await_def
        assms c listProjectMembers_validated [OF again] io_return_def split: prod.splits sum.splits)
qed

lemma membersReport_eq:
  "membersReport up arrival host au pk w =
     (case projectRoles up (rolesRequest host au pk) of
        Inl e \<Rightarrow> (Inl e, w\<lparr>calls := calls w @ [rolesRequest host au pk]\<rparr>)
      | Inr entries \<Rightarrow>
          if entries = []
          then (Inr (textResult (''# Project Members for '' @ pk @ ''\<newline>\<newline>'' @ ''No project roles found.'') False),
                w\<lparr>calls := calls w @ [rolesRequest host au pk]\<rparr>)
          else (case fetchRoleDetails up arrival host au pk entries
                       (w\<lparr>calls := calls w @ [rolesRequest host au pk]\<rparr>) of
                  (Inl e, w2) \<Rightarrow> (Inl e, w2)
                | (Inr roleDetails, w2) \<Rightarrow>
                    (Inr (textResult
                       (''# Project Members for '' @ pk @ ''\<newline>\<newline>'' @
                        (if mergeRoleDetails roleDetails \<noteq> [] then membersTable (mergeRoleDetails roleDetails)
                         else ''No project members found.'')) False), w2)))"
  by (simp add: membersReport_def io_bind_def axios_get_def axios_issue_def await_def io_return_def
      split: sum.splits prod.splits)

lemma dispatch_members_example:
  "handleCallTool (toolConfigs exampleUpstream rt0 env0 arrival other) env0 ''jira_list_project_members''
     exampleArgs world0 =
     (Inr (textResult (''# Project Members for ABC\<newline>\<newline>'' @ membersTable (mergeRoleDetails twoRoles)) False),
      \<lparr>calls = rolesCall # detailCalls, warnings = []\<rparr>)"
proof -
  have r: "projectRoles exampleUpstream rolesCall = Inr exampleRoleMap"
    by (simp add: exampleUpstream_def)
  have ne: "exampleRoleMap \<noteq> []" by (simp add: exampleRoleMap_def)
  have m: "mergeRoleDetails twoRoles \<noteq> []" by (simp add: mergeRoleDetails_twoRoles)
  have "membersReport exampleUpstream arrival ''h.example'' (''u'', ''t'') ''ABC'' world0 =
     (Inr (textResult (''# Project Members for ABC\<newline>\<newline>'' @ membersTable (mergeRoleDetails twoRoles)) False),
      \<lparr>calls = rolesCall # detailCalls, warnings = []\<rparr>)"
    unfolding membersReport_eq roles_example
    by (simp add: r ne m fetch_example_world0)
  then show ?thesis
    by (simp add: dispatch_members_valid [OF exampleArgs_valid(2)] exampleArgs_reads)
qed

lemma fetch_failing_world0:
  "fetchRoleDetails failingUpstream [0, Suc 0] ''h.example'' (''u'', ''t'') ''ABC'' exampleRoleMap
     (world0\<lparr>calls := calls world0 @ [rolesCall]\<rparr>) =
     (Inl notFound, \<lparr>calls = rolesCall # detailCalls, warnings = []\<rparr>)"
  by (simp add: fetchRoleDetails_def exampleRoleMap_def roleDetailRequest_example failingUpstream_def
      axios_issue_def Promise_all_def io_throw_def world0_def detailCalls_def)

lemma dispatch_members_failing:
  "handleCallTool (toolConfigs failingUpstream rt0 env0 [0, 1] other) env0 ''jira_list_project_members''
     exampleArgs world0 =
     (Inr (textResult ''Error: Request failed with status code 404'' True),
      \<lparr>calls = rolesCall # detailCalls, warnings = []\<rparr>)"
proof -
  have r: "projectRoles failingUpstream rolesCall = Inr exampleRoleMap"
    by (simp add: failingUpstream_def exampleUpstream_def)
  have ne: "exampleRoleMap \<noteq> []" by (simp add: exampleRoleMap_def)
  have "membersReport failingUpstream [0, 1] ''h.example'' (''u'', ''t'') ''ABC'' world0 =
     (Inl notFound, \<lparr>calls = rolesCall # detailCalls, warnings = []\<rparr>)"
    unfolding membersReport_eq roles_example
    by (simp add: r ne fetch_failing_world0)
  then show ?thesis
    by (simp add: dispatch_members_valid [OF exampleArgs_valid(2)] exampleArgs_reads notFound_def)
qed

end
